theory Spec2Isabelle
  imports Main "HOL-Library.Word" "HOL-Library.Char_ord"
begin

section \<open>JSON values and the text layer of \<open>encoding/json\<close>\<close>

text \<open>
  The package \<open>agui\<close> reads and writes JSON through Go's \<open>encoding/json\<close>.
  A JSON text is a \<open>string\<close> (a list of bytes); a parsed JSON value is a \<open>json\<close>.
  A number keeps its literal, as Go's decoder does until it knows the target type.
  A value of Go type \<open>interface{}\<close> (\<open>RawEvent\<close>, \<open>Result\<close>, \<open>Snapshot\<close>, \<open>Value\<close>, ...)
  is represented by the JSON value it stands for, the nil interface by \<open>JNull\<close>, and a Go
  value that \<open>json.Marshal\<close> refuses (a channel, a function, a NaN) by \<open>JUnsupported\<close>; no
  text parses to \<open>JUnsupported\<close>. A number inside an \<open>interface{}\<close> is a \<open>float64\<close> in Go
  and a literal here: the decoder accepts the literals that fit a \<open>float64\<close>, and two
  literals of the same \<open>float64\<close> are one value in Go and two here. Likewise an object
  inside an \<open>interface{}\<close> is a map in Go and keeps the order and the repetitions of its
  members here.
\<close>

datatype json =
    JNull
  | JBool bool
  | JNum string
  | JStr string
  | JArr "json list"
  | JObj "(string \<times> json) list"
  | JUnsupported

definition isSpace :: "char \<Rightarrow> bool" where
  "isSpace c \<longleftrightarrow> c = CHR '' '' \<or> c = CHR 0x09 \<or> c = CHR 0x0D \<or> c = CHR 0x0A"

definition isDigit :: "char \<Rightarrow> bool" where
  "isDigit c \<longleftrightarrow> CHR ''0'' \<le> c \<and> c \<le> CHR ''9''"

definition skip_ws :: "string \<Rightarrow> string" where
  "skip_ws s = dropWhile isSpace s"

subsection \<open>Numbers\<close>

definition scan_digits :: "string \<Rightarrow> (string \<times> string) option" where
  \<comment> \<open>one or more digits\<close>
  "scan_digits s =
     (if takeWhile isDigit s = [] then None
      else Some (takeWhile isDigit s, dropWhile isDigit s))"

definition scan_int_part :: "string \<Rightarrow> (string \<times> string) option" where
  \<comment> \<open>\<open>0\<close>, or a non-zero digit followed by digits\<close>
  "scan_int_part s =
     (case s of
        [] \<Rightarrow> None
      | c # cs \<Rightarrow>
          if c = CHR ''0'' then Some ([c], cs)
          else if isDigit c then Some (c # takeWhile isDigit cs, dropWhile isDigit cs)
          else None)"

definition scan_frac :: "string \<Rightarrow> (string \<times> string) option" where
  "scan_frac s =
     (case s of
        [] \<Rightarrow> Some ([], s)
      | c # cs \<Rightarrow>
          if c = CHR ''.'' then
            (case scan_digits cs of None \<Rightarrow> None | Some (ds, r) \<Rightarrow> Some (c # ds, r))
          else Some ([], s))"

definition scan_sign :: "string \<Rightarrow> string \<times> string" where
  "scan_sign s =
     (case s of
        [] \<Rightarrow> ([], s)
      | c # cs \<Rightarrow> if c = CHR ''+'' \<or> c = CHR ''-'' then ([c], cs) else ([], s))"

definition scan_exp :: "string \<Rightarrow> (string \<times> string) option" where
  "scan_exp s =
     (case s of
        [] \<Rightarrow> Some ([], s)
      | c # cs \<Rightarrow>
          if c = CHR ''e'' \<or> c = CHR ''E'' then
            (case scan_sign cs of
               (sg, r) \<Rightarrow>
                 (case scan_digits r of None \<Rightarrow> None | Some (ds, r') \<Rightarrow> Some (c # sg @ ds, r')))
          else Some ([], s))"

definition scan_number :: "string \<Rightarrow> (string \<times> string) option" where
  \<comment> \<open>the literal of a JSON number at the head of the text, and the rest\<close>
  "scan_number s =
     (case (case s of [] \<Rightarrow> ([], s) | c # cs \<Rightarrow> if c = CHR ''-'' then ([c], cs) else ([], s)) of
        (mi, s1) \<Rightarrow>
          (case scan_int_part s1 of
             None \<Rightarrow> None
           | Some (ip, s2) \<Rightarrow>
               (case scan_frac s2 of
                  None \<Rightarrow> None
                | Some (fr, s3) \<Rightarrow>
                    (case scan_exp s3 of
                       None \<Rightarrow> None
                     | Some (ex, s4) \<Rightarrow> Some (mi @ ip @ fr @ ex, s4)))))"

subsection \<open>Strings\<close>

definition hex_val :: "char \<Rightarrow> nat option" where
  "hex_val c =
     (if CHR ''0'' \<le> c \<and> c \<le> CHR ''9'' then Some (of_char c - 48)
      else if CHR ''a'' \<le> c \<and> c \<le> CHR ''f'' then Some (of_char c - 87)
      else if CHR ''A'' \<le> c \<and> c \<le> CHR ''F'' then Some (of_char c - 55)
      else None)"

definition getu4 :: "string \<Rightarrow> nat option" where
  \<comment> \<open>the code unit of four hexadecimal digits\<close>
  "getu4 s =
     (case s of
        a # b # c # d # _ \<Rightarrow>
          (case (hex_val a, hex_val b, hex_val c, hex_val d) of
             (Some x, Some y, Some z, Some w) \<Rightarrow> Some (((x * 16 + y) * 16 + z) * 16 + w)
           | _ \<Rightarrow> None)
      | _ \<Rightarrow> None)"

definition utf8_encode :: "nat \<Rightarrow> string" where
  "utf8_encode r =
     (if r < 0x80 then [char_of r]
      else if r < 0x800 then [char_of (0xC0 + r div 64), char_of (0x80 + r mod 64)]
      else if r < 0x10000 then
        [char_of (0xE0 + r div 4096), char_of (0x80 + (r div 64) mod 64), char_of (0x80 + r mod 64)]
      else
        [char_of (0xF0 + r div 262144), char_of (0x80 + (r div 4096) mod 64),
         char_of (0x80 + (r div 64) mod 64), char_of (0x80 + r mod 64)])"

text \<open>
  \<open>rune_width\<close> is the size that \<open>utf8.DecodeRune\<close> reports for a well-formed encoding at
  the head of the bytes (no overlong form, no surrogate, nothing above U+10FFFF), and 0
  where it reports \<open>RuneError\<close> with size 1. \<open>coerce_utf8\<close> replaces every byte that starts
  no well-formed encoding by U+FFFD, as \<open>unquote\<close> does.
\<close>

definition is_cont :: "char \<Rightarrow> bool" where
  "is_cont c \<longleftrightarrow> CHR 0x80 \<le> c \<and> c \<le> CHR 0xBF"

definition rune_width :: "string \<Rightarrow> nat" where
  "rune_width s =
     (case s of
        [] \<Rightarrow> 0
      | c # cs \<Rightarrow>
          if c < CHR 0x80 then 1
          else if CHR 0xC2 \<le> c \<and> c \<le> CHR 0xDF then
            (case cs of b1 # _ \<Rightarrow> if is_cont b1 then 2 else 0 | _ \<Rightarrow> 0)
          else if CHR 0xE0 \<le> c \<and> c \<le> CHR 0xEF then
            (case cs of
               b1 # b2 # _ \<Rightarrow>
                 if (if c = CHR 0xE0 then CHR 0xA0 else CHR 0x80) \<le> b1
                    \<and> b1 \<le> (if c = CHR 0xED then CHR 0x9F else CHR 0xBF) \<and> is_cont b2
                 then 3 else 0
             | _ \<Rightarrow> 0)
          else if CHR 0xF0 \<le> c \<and> c \<le> CHR 0xF4 then
            (case cs of
               b1 # b2 # b3 # _ \<Rightarrow>
                 if (if c = CHR 0xF0 then CHR 0x90 else CHR 0x80) \<le> b1
                    \<and> b1 \<le> (if c = CHR 0xF4 then CHR 0x8F else CHR 0xBF)
                    \<and> is_cont b2 \<and> is_cont b3
                 then 4 else 0
             | _ \<Rightarrow> 0)
          else 0)"

fun coerce_utf8 :: "string \<Rightarrow> string" where
  "coerce_utf8 [] = []"
| "coerce_utf8 (c # cs) =
     (if rune_width (c # cs) = 0 then utf8_encode 0xFFFD @ coerce_utf8 cs
      else c # take (rune_width (c # cs) - 1) cs
           @ coerce_utf8 (drop (rune_width (c # cs) - 1) cs))"

definition simple_escape :: "char \<Rightarrow> char option" where
  "simple_escape e =
     (if e = CHR 0x22 then Some (CHR 0x22)
      else if e = CHR 0x5C then Some (CHR 0x5C)
      else if e = CHR ''/'' then Some (CHR ''/'')
      else if e = CHR ''b'' then Some (CHR 0x08)
      else if e = CHR ''f'' then Some (CHR 0x0C)
      else if e = CHR ''n'' then Some (CHR 0x0A)
      else if e = CHR ''r'' then Some (CHR 0x0D)
      else if e = CHR ''t'' then Some (CHR 0x09)
      else None)"

text \<open>
  The contents of a string literal are read in three passes, as \<open>unquote\<close> does in one:
  first the bytes and the \<open>\u\<close> escapes (\<open>scan_units\<close>, which keeps the bytes as they
  are), then the escapes are turned into UTF-8, a high surrogate directly followed by a
  low one giving one rune and any other surrogate U+FFFD (\<open>decode_units\<close>), and last the
  bytes that are not well-formed UTF-8 are replaced by U+FFFD (\<open>coerce_utf8\<close>). An escape
  yields an ASCII byte or a well-formed encoding, and no byte of it can continue an
  encoding begun before it, so the last pass changes the bytes of the text only.
\<close>

datatype code_unit = Byte char | Escaped nat

fun scan_units :: "string \<Rightarrow> (code_unit list \<times> string) option" where
  \<comment> \<open>the text after the opening quote: the contents, and the text after the closing quote\<close>
  "scan_units [] = None"
| "scan_units (c # cs) =
     (if c = CHR 0x22 then Some ([], cs)
      else if c = CHR 0x5C then
        (case cs of
           [] \<Rightarrow> None
         | e # cs' \<Rightarrow>
             if e = CHR ''u'' then
               (case cs' of
                  h1 # h2 # h3 # h4 # rest \<Rightarrow>
                    (case getu4 [h1, h2, h3, h4] of
                       None \<Rightarrow> None
                     | Some u \<Rightarrow>
                         (case scan_units rest of
                            None \<Rightarrow> None
                          | Some (us, r) \<Rightarrow> Some (Escaped u # us, r)))
                | _ \<Rightarrow> None)
             else
               (case simple_escape e of
                  None \<Rightarrow> None
                | Some x \<Rightarrow>
                    (case scan_units cs' of
                       None \<Rightarrow> None
                     | Some (us, r) \<Rightarrow> Some (Byte x # us, r))))
      else if c < CHR 0x20 then None
      else
        (case scan_units cs of
           None \<Rightarrow> None
         | Some (us, r) \<Rightarrow> Some (Byte c # us, r)))"

fun decode_units :: "code_unit list \<Rightarrow> string" where
  "decode_units [] = []"
| "decode_units (Byte c # us) = c # decode_units us"
| "decode_units (Escaped u # us) =
     (if 0xD800 \<le> u \<and> u < 0xE000 then
        (case us of
           Escaped u1 # us' \<Rightarrow>
             if u < 0xDC00 \<and> 0xDC00 \<le> u1 \<and> u1 < 0xE000 then
               utf8_encode (0x10000 + (u - 0xD800) * 1024 + (u1 - 0xDC00)) @ decode_units us'
             else utf8_encode 0xFFFD @ decode_units us
         | _ \<Rightarrow> utf8_encode 0xFFFD @ decode_units us)
      else utf8_encode u @ decode_units us)"

definition scan_string :: "string \<Rightarrow> (string \<times> string) option" where
  "scan_string s =
     (case scan_units s of
        None \<Rightarrow> None
      | Some (us, r) \<Rightarrow> Some (coerce_utf8 (decode_units us), r))"

subsection \<open>Values\<close>

definition scan_literal :: "string \<Rightarrow> json \<Rightarrow> string \<Rightarrow> (json \<times> string) option" where
  "scan_literal lit v s =
     (if take (length lit) s = lit then Some (v, drop (length lit) s) else None)"

text \<open>
  A value at the head of the text, and the text after it. The first argument bounds the
  depth of the recursion; the length of the text is always enough
  (\<open>parse_value_bound_free\<close> below).
\<close>

fun parse_value :: "nat \<Rightarrow> string \<Rightarrow> (json \<times> string) option"
  and parse_elements :: "nat \<Rightarrow> string \<Rightarrow> (json list \<times> string) option"
  and parse_members :: "nat \<Rightarrow> string \<Rightarrow> ((string \<times> json) list \<times> string) option"
where
  "parse_value 0 s = None"
| "parse_value (Suc n) [] = None"
| "parse_value (Suc n) (c # cs) =
     (if c = CHR ''{'' then
        (case skip_ws cs of
           [] \<Rightarrow> None
         | d # ds \<Rightarrow>
             if d = CHR ''}'' then Some (JObj [], ds)
             else (case parse_members n (d # ds) of
                     None \<Rightarrow> None
                   | Some (kvs, r) \<Rightarrow> Some (JObj kvs, r)))
      else if c = CHR ''['' then
        (case skip_ws cs of
           [] \<Rightarrow> None
         | d # ds \<Rightarrow>
             if d = CHR '']'' then Some (JArr [], ds)
             else (case parse_elements n (d # ds) of
                     None \<Rightarrow> None
                   | Some (vs, r) \<Rightarrow> Some (JArr vs, r)))
      else if c = CHR 0x22 then
        (case scan_string cs of
           None \<Rightarrow> None
         | Some (str, r) \<Rightarrow> Some (JStr str, r))
      else if c = CHR ''t'' then scan_literal ''true'' (JBool True) (c # cs)
      else if c = CHR ''f'' then scan_literal ''false'' (JBool False) (c # cs)
      else if c = CHR ''n'' then scan_literal ''null'' JNull (c # cs)
      else if c = CHR ''-'' \<or> isDigit c then
        (case scan_number (c # cs) of
           None \<Rightarrow> None
         | Some (lit, r) \<Rightarrow> Some (JNum lit, r))
      else None)"
| "parse_elements 0 s = None"
| "parse_elements (Suc n) s =
     (case parse_value n s of
        None \<Rightarrow> None
      | Some (v, r) \<Rightarrow>
          (case skip_ws r of
             [] \<Rightarrow> None
           | d # ds \<Rightarrow>
               if d = CHR '']'' then Some ([v], ds)
               else if d = CHR '','' then
                 (case parse_elements n (skip_ws ds) of
                    None \<Rightarrow> None
                  | Some (vs, r') \<Rightarrow> Some (v # vs, r'))
               else None))"
| "parse_members 0 s = None"
| "parse_members (Suc n) [] = None"
| "parse_members (Suc n) (q # cs) =
     (if q = CHR 0x22 then
        (case scan_string cs of
           None \<Rightarrow> None
         | Some (k, r) \<Rightarrow>
             (case skip_ws r of
                [] \<Rightarrow> None
              | co # r1 \<Rightarrow>
                  if co = CHR '':'' then
                    (case parse_value n (skip_ws r1) of
                       None \<Rightarrow> None
                     | Some (v, r2) \<Rightarrow>
                         (case skip_ws r2 of
                            [] \<Rightarrow> None
                          | d # ds \<Rightarrow>
                              if d = CHR ''}'' then Some ([(k, v)], ds)
                              else if d = CHR '','' then
                                (case parse_members n (skip_ws ds) of
                                   None \<Rightarrow> None
                                 | Some (kvs, r') \<Rightarrow> Some ((k, v) # kvs, r'))
                              else None))
                  else None))
      else None)"

text \<open>
  The scanner of \<open>encoding/json\<close> counts the arrays and objects that are open and reports
  a syntax error when an array or object is opened inside 10000 others
  (\<open>maxNestingDepth\<close>). A text is refused for this exactly when the value it would
  denote is nested deeper than that, so the limit is checked on the value read.
\<close>

definition maxNestingDepth :: int where
  "maxNestingDepth = 10000"

fun json_depth :: "json \<Rightarrow> int"
  and depth_elements :: "json list \<Rightarrow> int"
  and depth_members :: "(string \<times> json) list \<Rightarrow> int"
where
  "json_depth JNull = 0"
| "json_depth (JBool b) = 0"
| "json_depth (JNum lit) = 0"
| "json_depth (JStr s) = 0"
| "json_depth (JArr vs) = 1 + depth_elements vs"
| "json_depth (JObj kvs) = 1 + depth_members kvs"
| "json_depth JUnsupported = 0"
| "depth_elements [] = 0"
| "depth_elements (v # vs) = max (json_depth v) (depth_elements vs)"
| "depth_members [] = 0"
| "depth_members ((k, v) # kvs) = max (json_depth v) (depth_members kvs)"

definition json_parse :: "string \<Rightarrow> json option" where
  \<comment> \<open>a whole text holding exactly one JSON value, as \<open>json.Unmarshal\<close> requires\<close>
  "json_parse s =
     (case parse_value (Suc (length s)) (skip_ws s) of
        None \<Rightarrow> None
      | Some (j, r) \<Rightarrow>
          if skip_ws r = [] \<and> json_depth j \<le> maxNestingDepth then Some j else None)"

subsection \<open>Integers in decimal\<close>

function show_dec :: "int \<Rightarrow> string" where
  \<comment> \<open>the decimal digits of a non-negative integer\<close>
  "show_dec n =
     (if n < 10 then [char_of (48 + n)]
      else show_dec (n div 10) @ [char_of (48 + n mod 10)])"
  by pat_completeness auto
termination
  by (relation "measure nat") auto

declare show_dec.simps [simp del]

definition show_int :: "int \<Rightarrow> string" where
  "show_int i = (if i < 0 then CHR ''-'' # show_dec (- i) else show_dec i)"

definition digits_val :: "string \<Rightarrow> int" where
  "digits_val ds = foldl (\<lambda>a c. a * 10 + (of_char c - 48)) 0 ds"

definition parse_int64 :: "string \<Rightarrow> 64 word option" where
  \<comment> \<open>\<open>strconv.ParseInt(lit, 10, 64)\<close> on the literal of a JSON number: digits only after
      an optional sign, and a value that fits 64 signed bits\<close>
  "parse_int64 lit =
     (case (case lit of [] \<Rightarrow> (False, lit)
                      | c # cs \<Rightarrow> if c = CHR ''-'' then (True, cs) else (False, lit)) of
        (neg, ds) \<Rightarrow>
          if ds = [] \<or> \<not> list_all isDigit ds then None
          else
            (let i = (if neg then - digits_val ds else digits_val ds)
             in if - (2 ^ 63) \<le> i \<and> i < 2 ^ 63 then Some (word_of_int i) else None))"

section \<open>Errors\<close>

text \<open>
  The six package-level error values of the codec, and an error built by \<open>fmt.Errorf\<close>:
  the sentinel its \<open>%w\<close> verb wraps (if any), the text the format adds, and the
  \<open>encoding/json\<close> error printed with \<open>%v\<close> (if any). \<open>io_EOF\<close> is \<open>io.EOF\<close>. Only the
  sentinel can be inspected with \<open>errors.Is\<close>; the rest is the message. A syntax error of
  \<open>encoding/json\<close> stands for every failure of its scanner, an unexpected end of input included; a type
  error names the kind of JSON value met and the Go field it was meant for; an unsupported
  type error is what \<open>json.Marshal\<close> returns for a value it cannot write.
\<close>

datatype sentinel =
    ErrInvalidEventType
  | ErrInvalidMessageType
  | ErrInvalidStructure
  | ErrUnmarshalFailed
  | ErrMarshalFailed
  | ErrValidationFailed

datatype json_error =
    SyntaxError
  | UnmarshalTypeError (err_value: string) (err_field: string)
  | UnsupportedTypeError

datatype go_error =
    Errorf (wraps: "sentinel option") (msg: string) (cause: "json_error option")
  | io_EOF
where
  "wraps io_EOF = None"
| "msg io_EOF = ''EOF''"
| "cause io_EOF = None"

definition errors_Is :: "go_error \<Rightarrow> sentinel \<Rightarrow> bool" where
  \<comment> \<open>\<open>errors.Is(e, s)\<close> for one of the six sentinels\<close>
  "errors_Is e s \<longleftrightarrow> wraps e = Some s"

text \<open>A call either returns or panics (a nil interface whose method is called).\<close>

datatype 'a outcome = Return 'a | Panic

section \<open>\<open>json.Unmarshal\<close> into an \<open>interface{}\<close>\<close>

text \<open>
  \<open>json.Unmarshal\<close> checks the syntax of the whole text first, then stores the value.
  Stored into an \<open>interface{}\<close>, a number is converted with \<open>strconv.ParseFloat(lit, 64)\<close>,
  which fails when the literal rounds to an infinity, that is when its magnitude is at
  least \<open>2^1024 - 2^970\<close>, half way between the largest \<open>float64\<close> and \<open>2^1024\<close> (a
  literal too small for a \<open>float64\<close> is zero, without error). The numbers inside arrays
  and objects are converted in the same way; the first failure, in the order of the text,
  is the \<open>UnmarshalTypeError\<close> returned. \<open>float64_overflow\<close> reads the literal as
  \<open>m * 10^e10\<close> with an integer \<open>m\<close> and compares integers.
\<close>

definition float64_limit :: int where
  "float64_limit = 2 ^ 1024 - 2 ^ 970"

definition float64_overflow :: "string \<Rightarrow> bool" where
  "float64_overflow lit =
     (let s1 = (case lit of [] \<Rightarrow> lit | c # cs \<Rightarrow> if c = CHR ''-'' then cs else lit);
          ip = takeWhile isDigit s1;
          s2 = dropWhile isDigit s1;
          fr = (case s2 of [] \<Rightarrow> [] | c # cs \<Rightarrow> if c = CHR ''.'' then takeWhile isDigit cs else []);
          s3 = (case s2 of [] \<Rightarrow> s2 | c # cs \<Rightarrow> if c = CHR ''.'' then dropWhile isDigit cs else s2);
          ex = (case s3 of
                  [] \<Rightarrow> 0
                | c # cs \<Rightarrow>
                    (case scan_sign cs of
                       (sg, ds) \<Rightarrow> if sg = ''-'' then - digits_val ds else digits_val ds));
          m = digits_val (ip @ fr);
          e10 = ex - int (length fr)
      in m \<noteq> 0 \<and> (if 0 \<le> e10 then float64_limit \<le> m * 10 ^ nat e10
                   else float64_limit * 10 ^ nat (- e10) \<le> m))"

fun number_error :: "json \<Rightarrow> string option"
  and number_error_elements :: "json list \<Rightarrow> string option"
  and number_error_members :: "(string \<times> json) list \<Rightarrow> string option"
where
  \<comment> \<open>the first number literal of the value that no \<open>float64\<close> holds\<close>
  "number_error JNull = None"
| "number_error (JBool b) = None"
| "number_error (JNum lit) = (if float64_overflow lit then Some lit else None)"
| "number_error (JStr s) = None"
| "number_error (JArr vs) = number_error_elements vs"
| "number_error (JObj kvs) = number_error_members kvs"
| "number_error JUnsupported = None"
| "number_error_elements [] = None"
| "number_error_elements (v # vs) =
     (case number_error v of Some lit \<Rightarrow> Some lit | None \<Rightarrow> number_error_elements vs)"
| "number_error_members [] = None"
| "number_error_members ((k, v) # kvs) =
     (case number_error v of Some lit \<Rightarrow> Some lit | None \<Rightarrow> number_error_members kvs)"

definition unmarshal_interface :: "string \<Rightarrow> json \<Rightarrow> json_error + json" where
  \<comment> \<open>into a variable or a field of type \<open>interface{}\<close>\<close>
  "unmarshal_interface field v =
     (case number_error v of
        Some lit \<Rightarrow> Inl (UnmarshalTypeError (''number '' @ lit) field)
      | None \<Rightarrow> Inr v)"

definition json_Unmarshal :: "(json \<Rightarrow> json_error + 'a) \<Rightarrow> string \<Rightarrow> json_error + 'a" where
  "json_Unmarshal into data =
     (case json_parse data of
        None \<Rightarrow> Inl SyntaxError
      | Some v \<Rightarrow> into v)"

section \<open>\<open>types.go\<close>: enumerations and supporting records\<close>

type_synonym EventType = string
type_synonym Role = string
type_synonym ToolCallType = string

abbreviation EventTypeTextMessageStart :: EventType where "EventTypeTextMessageStart \<equiv> ''TEXT_MESSAGE_START''"
abbreviation EventTypeTextMessageContent :: EventType where "EventTypeTextMessageContent \<equiv> ''TEXT_MESSAGE_CONTENT''"
abbreviation EventTypeTextMessageEnd :: EventType where "EventTypeTextMessageEnd \<equiv> ''TEXT_MESSAGE_END''"
abbreviation EventTypeToolCallStart :: EventType where "EventTypeToolCallStart \<equiv> ''TOOL_CALL_START''"
abbreviation EventTypeToolCallArgs :: EventType where "EventTypeToolCallArgs \<equiv> ''TOOL_CALL_ARGS''"
abbreviation EventTypeToolCallEnd :: EventType where "EventTypeToolCallEnd \<equiv> ''TOOL_CALL_END''"
abbreviation EventTypeToolCallResult :: EventType where "EventTypeToolCallResult \<equiv> ''TOOL_CALL_RESULT''"
abbreviation EventTypeStateSnapshot :: EventType where "EventTypeStateSnapshot \<equiv> ''STATE_SNAPSHOT''"
abbreviation EventTypeStateDelta :: EventType where "EventTypeStateDelta \<equiv> ''STATE_DELTA''"
abbreviation EventTypeMessagesSnapshot :: EventType where "EventTypeMessagesSnapshot \<equiv> ''MESSAGES_SNAPSHOT''"
abbreviation EventTypeRaw :: EventType where "EventTypeRaw \<equiv> ''RAW''"
abbreviation EventTypeCustom :: EventType where "EventTypeCustom \<equiv> ''CUSTOM''"
abbreviation EventTypeRunStarted :: EventType where "EventTypeRunStarted \<equiv> ''RUN_STARTED''"
abbreviation EventTypeRunFinished :: EventType where "EventTypeRunFinished \<equiv> ''RUN_FINISHED''"
abbreviation EventTypeRunError :: EventType where "EventTypeRunError \<equiv> ''RUN_ERROR''"
abbreviation EventTypeStepStarted :: EventType where "EventTypeStepStarted \<equiv> ''STEP_STARTED''"
abbreviation EventTypeStepFinished :: EventType where "EventTypeStepFinished \<equiv> ''STEP_FINISHED''"

definition EventType_IsValid :: "EventType \<Rightarrow> bool" where
  "EventType_IsValid e \<longleftrightarrow>
     e = EventTypeTextMessageStart \<or> e = EventTypeTextMessageContent \<or> e = EventTypeTextMessageEnd \<or>
     e = EventTypeToolCallStart \<or> e = EventTypeToolCallArgs \<or> e = EventTypeToolCallEnd \<or>
     e = EventTypeToolCallResult \<or>
     e = EventTypeStateSnapshot \<or> e = EventTypeStateDelta \<or> e = EventTypeMessagesSnapshot \<or>
     e = EventTypeRaw \<or> e = EventTypeCustom \<or>
     e = EventTypeRunStarted \<or> e = EventTypeRunFinished \<or> e = EventTypeRunError \<or>
     e = EventTypeStepStarted \<or> e = EventTypeStepFinished"

abbreviation RoleDeveloper :: Role where "RoleDeveloper \<equiv> ''developer''"
abbreviation RoleSystem :: Role where "RoleSystem \<equiv> ''system''"
abbreviation RoleAssistant :: Role where "RoleAssistant \<equiv> ''assistant''"
abbreviation RoleUser :: Role where "RoleUser \<equiv> ''user''"
abbreviation RoleTool :: Role where "RoleTool \<equiv> ''tool''"

definition Role_IsValid :: "Role \<Rightarrow> bool" where
  "Role_IsValid r \<longleftrightarrow>
     r = RoleDeveloper \<or> r = RoleSystem \<or> r = RoleAssistant \<or> r = RoleUser \<or> r = RoleTool"

abbreviation ToolCallTypeFunction :: ToolCallType where "ToolCallTypeFunction \<equiv> ''function''"

definition ToolCallType_IsValid :: "ToolCallType \<Rightarrow> bool" where
  "ToolCallType_IsValid t \<longleftrightarrow> t = ToolCallTypeFunction"

abbreviation plain_error :: "string \<Rightarrow> go_error" where
  \<comment> \<open>\<open>fmt.Errorf\<close> with no \<open>%w\<close> verb\<close>
  "plain_error m \<equiv> Errorf None m None"

record FunctionCall =
  Name :: string
  Arguments :: string

definition FunctionCall_Validate :: "FunctionCall \<Rightarrow> go_error option" where
  "FunctionCall_Validate f =
     (if FunctionCall.Name f = [] then Some (plain_error ''function name is required'')
      else if FunctionCall.Arguments f = [] then Some (plain_error ''function arguments are required'')
      else (case json_Unmarshal (unmarshal_interface []) (FunctionCall.Arguments f) of
              Inl err \<Rightarrow> Some (Errorf None ''function arguments must be valid JSON'' (Some err))
            | Inr args \<Rightarrow> None))"

record ToolCall =
  ID :: string
  Type :: ToolCallType
  Function :: FunctionCall

definition ToolCall_Validate :: "ToolCall \<Rightarrow> go_error option" where
  "ToolCall_Validate t =
     (if ToolCall.ID t = [] then Some (plain_error ''tool call ID is required'')
      else if \<not> ToolCallType_IsValid (ToolCall.Type t) then
        Some (plain_error (''invalid tool call type: '' @ ToolCall.Type t))
      else FunctionCall_Validate (ToolCall.Function t))"

section \<open>\<open>messages.go\<close>: the message variants\<close>

record BaseMessage =
  ID :: string
  Role :: Role
  Name :: string

definition BaseMessage_Validate :: "'a BaseMessage_scheme \<Rightarrow> go_error option" where
  "BaseMessage_Validate b =
     (if BaseMessage.ID b = [] then Some (plain_error ''message ID is required'')
      else if \<not> Role_IsValid (BaseMessage.Role b) then
        Some (plain_error (''invalid message role: '' @ BaseMessage.Role b))
      else None)"

record DeveloperMessage = BaseMessage +
  Content :: string

definition DeveloperMessage_Validate :: "DeveloperMessage \<Rightarrow> go_error option" where
  "DeveloperMessage_Validate d =
     (case BaseMessage_Validate d of
        Some err \<Rightarrow> Some err
      | None \<Rightarrow>
          if BaseMessage.Role d \<noteq> RoleDeveloper then
            Some (plain_error (''developer message must have developer role, got: '' @ BaseMessage.Role d))
          else if DeveloperMessage.Content d = [] then
            Some (plain_error ''developer message content is required'')
          else None)"

record SystemMessage = BaseMessage +
  Content :: string

definition SystemMessage_Validate :: "SystemMessage \<Rightarrow> go_error option" where
  "SystemMessage_Validate s =
     (case BaseMessage_Validate s of
        Some err \<Rightarrow> Some err
      | None \<Rightarrow>
          if BaseMessage.Role s \<noteq> RoleSystem then
            Some (plain_error (''system message must have system role, got: '' @ BaseMessage.Role s))
          else if SystemMessage.Content s = [] then
            Some (plain_error ''system message content is required'')
          else None)"

text \<open>
  \<open>ToolCalls\<close> is a slice; no code of the package tells a nil slice from an empty one
  (\<open>range\<close> and \<open>omitempty\<close> treat them alike), so it is a list.
\<close>

record AssistantMessage = BaseMessage +
  Content :: string
  ToolCalls :: "ToolCall list"

fun validate_ToolCalls :: "int \<Rightarrow> ToolCall list \<Rightarrow> go_error option" where
  \<comment> \<open>the \<open>range\<close> loop of \<open>AssistantMessage.Validate\<close>, from index \<open>i\<close> on\<close>
  "validate_ToolCalls i [] = None"
| "validate_ToolCalls i (toolCall # rest) =
     (case ToolCall_Validate toolCall of
        Some err \<Rightarrow>
          Some (Errorf None (''invalid tool call at index '' @ show_int i @ '': '' @ msg err) (cause err))
      | None \<Rightarrow> validate_ToolCalls (i + 1) rest)"

definition AssistantMessage_Validate :: "AssistantMessage \<Rightarrow> go_error option" where
  "AssistantMessage_Validate a =
     (case BaseMessage_Validate a of
        Some err \<Rightarrow> Some err
      | None \<Rightarrow>
          if BaseMessage.Role a \<noteq> RoleAssistant then
            Some (plain_error (''assistant message must have assistant role, got: '' @ BaseMessage.Role a))
          else validate_ToolCalls 0 (AssistantMessage.ToolCalls a))"

record UserMessage = BaseMessage +
  Content :: string

definition UserMessage_Validate :: "UserMessage \<Rightarrow> go_error option" where
  "UserMessage_Validate u =
     (case BaseMessage_Validate u of
        Some err \<Rightarrow> Some err
      | None \<Rightarrow>
          if BaseMessage.Role u \<noteq> RoleUser then
            Some (plain_error (''user message must have user role, got: '' @ BaseMessage.Role u))
          else if UserMessage.Content u = [] then
            Some (plain_error ''user message content is required'')
          else None)"

record ToolMessage = BaseMessage +
  Content :: string
  ToolCallID :: string
  Error :: string

definition ToolMessage_Validate :: "ToolMessage \<Rightarrow> go_error option" where
  "ToolMessage_Validate t =
     (case BaseMessage_Validate t of
        Some err \<Rightarrow> Some err
      | None \<Rightarrow>
          if BaseMessage.Role t \<noteq> RoleTool then
            Some (plain_error (''tool message must have tool role, got: '' @ BaseMessage.Role t))
          else if ToolMessage.Content t = [] then
            Some (plain_error ''tool message content is required'')
          else if ToolMessage.ToolCallID t = [] then
            Some (plain_error ''tool message toolCallId is required'')
          else None)"

text \<open>The interface \<open>Message\<close>: a pointer to one of the five structs.\<close>

datatype Message =
    MsgDeveloper DeveloperMessage
  | MsgSystem SystemMessage
  | MsgAssistant AssistantMessage
  | MsgUser UserMessage
  | MsgTool ToolMessage

fun Message_Validate :: "Message \<Rightarrow> go_error option" where
  "Message_Validate (MsgDeveloper d) = DeveloperMessage_Validate d"
| "Message_Validate (MsgSystem s) = SystemMessage_Validate s"
| "Message_Validate (MsgAssistant a) = AssistantMessage_Validate a"
| "Message_Validate (MsgUser u) = UserMessage_Validate u"
| "Message_Validate (MsgTool t) = ToolMessage_Validate t"

fun Message_GetRole :: "Message \<Rightarrow> Role" where
  "Message_GetRole (MsgDeveloper d) = BaseMessage.Role d"
| "Message_GetRole (MsgSystem s) = BaseMessage.Role s"
| "Message_GetRole (MsgAssistant a) = BaseMessage.Role a"
| "Message_GetRole (MsgUser u) = BaseMessage.Role u"
| "Message_GetRole (MsgTool t) = BaseMessage.Role t"

fun Message_GetID :: "Message \<Rightarrow> string" where
  "Message_GetID (MsgDeveloper d) = BaseMessage.ID d"
| "Message_GetID (MsgSystem s) = BaseMessage.ID s"
| "Message_GetID (MsgAssistant a) = BaseMessage.ID a"
| "Message_GetID (MsgUser u) = BaseMessage.ID u"
| "Message_GetID (MsgTool t) = BaseMessage.ID t"

section \<open>\<open>events.go\<close>: the event variants\<close>

text \<open>
  \<open>Timestamp\<close> is a \<open>*int64\<close>: \<open>None\<close> is the nil pointer. \<open>RawEvent\<close> is an
  \<open>interface{}\<close>: \<open>JNull\<close> is nil.
\<close>

record BaseEvent =
  Type :: EventType
  Timestamp :: "64 word option"
  RawEvent :: json

definition BaseEvent_Validate :: "'a BaseEvent_scheme \<Rightarrow> go_error option" where
  "BaseEvent_Validate b =
     (if \<not> EventType_IsValid (BaseEvent.Type b) then
        Some (plain_error (''invalid event type: '' @ BaseEvent.Type b))
      else None)"

record RunStartedEvent = BaseEvent +
  ThreadID :: string
  RunID :: string

definition RunStartedEvent_Validate :: "RunStartedEvent \<Rightarrow> go_error option" where
  "RunStartedEvent_Validate r =
     (case BaseEvent_Validate r of
        Some err \<Rightarrow> Some err
      | None \<Rightarrow>
          if BaseEvent.Type r \<noteq> EventTypeRunStarted then
            Some (plain_error (''run started event must have RUN_STARTED type, got: '' @ BaseEvent.Type r))
          else if RunStartedEvent.ThreadID r = [] then
            Some (plain_error ''thread ID is required'')
          else if RunStartedEvent.RunID r = [] then
            Some (plain_error ''run ID is required'')
          else None)"

record RunFinishedEvent = BaseEvent +
  ThreadID :: string
  RunID :: string
  Result :: json

definition RunFinishedEvent_Validate :: "RunFinishedEvent \<Rightarrow> go_error option" where
  "RunFinishedEvent_Validate r =
     (case BaseEvent_Validate r of
        Some err \<Rightarrow> Some err
      | None \<Rightarrow>
          if BaseEvent.Type r \<noteq> EventTypeRunFinished then
            Some (plain_error (''run finished event must have RUN_FINISHED type, got: '' @ BaseEvent.Type r))
          else if RunFinishedEvent.ThreadID r = [] then
            Some (plain_error ''thread ID is required'')
          else if RunFinishedEvent.RunID r = [] then
            Some (plain_error ''run ID is required'')
          else None)"

record RunErrorEvent = BaseEvent +
  Message :: string
  Code :: string

definition RunErrorEvent_Validate :: "RunErrorEvent \<Rightarrow> go_error option" where
  "RunErrorEvent_Validate r =
     (case BaseEvent_Validate r of
        Some err \<Rightarrow> Some err
      | None \<Rightarrow>
          if BaseEvent.Type r \<noteq> EventTypeRunError then
            Some (plain_error (''run error event must have RUN_ERROR type, got: '' @ BaseEvent.Type r))
          else if RunErrorEvent.Message r = [] then
            Some (plain_error ''error message is required'')
          else None)"

record StepStartedEvent = BaseEvent +
  StepName :: string

definition StepStartedEvent_Validate :: "StepStartedEvent \<Rightarrow> go_error option" where
  "StepStartedEvent_Validate s =
     (case BaseEvent_Validate s of
        Some err \<Rightarrow> Some err
      | None \<Rightarrow>
          if BaseEvent.Type s \<noteq> EventTypeStepStarted then
            Some (plain_error (''step started event must have STEP_STARTED type, got: '' @ BaseEvent.Type s))
          else if StepStartedEvent.StepName s = [] then
            Some (plain_error ''step name is required'')
          else None)"

record StepFinishedEvent = BaseEvent +
  StepName :: string

definition StepFinishedEvent_Validate :: "StepFinishedEvent \<Rightarrow> go_error option" where
  "StepFinishedEvent_Validate s =
     (case BaseEvent_Validate s of
        Some err \<Rightarrow> Some err
      | None \<Rightarrow>
          if BaseEvent.Type s \<noteq> EventTypeStepFinished then
            Some (plain_error (''step finished event must have STEP_FINISHED type, got: '' @ BaseEvent.Type s))
          else if StepFinishedEvent.StepName s = [] then
            Some (plain_error ''step name is required'')
          else None)"

record TextMessageStartEvent = BaseEvent +
  MessageID :: string
  Role :: Role

definition TextMessageStartEvent_Validate :: "TextMessageStartEvent \<Rightarrow> go_error option" where
  "TextMessageStartEvent_Validate t =
     (case BaseEvent_Validate t of
        Some err \<Rightarrow> Some err
      | None \<Rightarrow>
          if BaseEvent.Type t \<noteq> EventTypeTextMessageStart then
            Some (plain_error (''text message start event must have TEXT_MESSAGE_START type, got: '' @ BaseEvent.Type t))
          else if TextMessageStartEvent.MessageID t = [] then
            Some (plain_error ''message ID is required'')
          else if TextMessageStartEvent.Role t \<noteq> RoleAssistant then
            Some (plain_error (''text message role must be assistant, got: '' @ TextMessageStartEvent.Role t))
          else None)"

record TextMessageContentEvent = BaseEvent +
  MessageID :: string
  Delta :: string

definition TextMessageContentEvent_Validate :: "TextMessageContentEvent \<Rightarrow> go_error option" where
  "TextMessageContentEvent_Validate t =
     (case BaseEvent_Validate t of
        Some err \<Rightarrow> Some err
      | None \<Rightarrow>
          if BaseEvent.Type t \<noteq> EventTypeTextMessageContent then
            Some (plain_error (''text message content event must have TEXT_MESSAGE_CONTENT type, got: '' @ BaseEvent.Type t))
          else if TextMessageContentEvent.MessageID t = [] then
            Some (plain_error ''message ID is required'')
          else if TextMessageContentEvent.Delta t = [] then
            Some (plain_error ''delta must not be empty'')
          else None)"

record TextMessageEndEvent = BaseEvent +
  MessageID :: string

definition TextMessageEndEvent_Validate :: "TextMessageEndEvent \<Rightarrow> go_error option" where
  "TextMessageEndEvent_Validate t =
     (case BaseEvent_Validate t of
        Some err \<Rightarrow> Some err
      | None \<Rightarrow>
          if BaseEvent.Type t \<noteq> EventTypeTextMessageEnd then
            Some (plain_error (''text message end event must have TEXT_MESSAGE_END type, got: '' @ BaseEvent.Type t))
          else if TextMessageEndEvent.MessageID t = [] then
            Some (plain_error ''message ID is required'')
          else None)"

record ToolCallStartEvent = BaseEvent +
  ToolCallID :: string
  ToolCallName :: string
  ParentMessageID :: string

definition ToolCallStartEvent_Validate :: "ToolCallStartEvent \<Rightarrow> go_error option" where
  "ToolCallStartEvent_Validate t =
     (case BaseEvent_Validate t of
        Some err \<Rightarrow> Some err
      | None \<Rightarrow>
          if BaseEvent.Type t \<noteq> EventTypeToolCallStart then
            Some (plain_error (''tool call start event must have TOOL_CALL_START type, got: '' @ BaseEvent.Type t))
          else if ToolCallStartEvent.ToolCallID t = [] then
            Some (plain_error ''tool call ID is required'')
          else if ToolCallStartEvent.ToolCallName t = [] then
            Some (plain_error ''tool call name is required'')
          else None)"

text \<open>\<open>Delta\<close> can be empty for tool call args.\<close>

record ToolCallArgsEvent = BaseEvent +
  ToolCallID :: string
  Delta :: string

definition ToolCallArgsEvent_Validate :: "ToolCallArgsEvent \<Rightarrow> go_error option" where
  "ToolCallArgsEvent_Validate t =
     (case BaseEvent_Validate t of
        Some err \<Rightarrow> Some err
      | None \<Rightarrow>
          if BaseEvent.Type t \<noteq> EventTypeToolCallArgs then
            Some (plain_error (''tool call args event must have TOOL_CALL_ARGS type, got: '' @ BaseEvent.Type t))
          else if ToolCallArgsEvent.ToolCallID t = [] then
            Some (plain_error ''tool call ID is required'')
          else None)"

record ToolCallEndEvent = BaseEvent +
  ToolCallID :: string

definition ToolCallEndEvent_Validate :: "ToolCallEndEvent \<Rightarrow> go_error option" where
  "ToolCallEndEvent_Validate t =
     (case BaseEvent_Validate t of
        Some err \<Rightarrow> Some err
      | None \<Rightarrow>
          if BaseEvent.Type t \<noteq> EventTypeToolCallEnd then
            Some (plain_error (''tool call end event must have TOOL_CALL_END type, got: '' @ BaseEvent.Type t))
          else if ToolCallEndEvent.ToolCallID t = [] then
            Some (plain_error ''tool call ID is required'')
          else None)"

record ToolCallResultEvent = BaseEvent +
  MessageID :: string
  ToolCallID :: string
  Content :: string
  Role :: Role

definition ToolCallResultEvent_Validate :: "ToolCallResultEvent \<Rightarrow> go_error option" where
  "ToolCallResultEvent_Validate t =
     (case BaseEvent_Validate t of
        Some err \<Rightarrow> Some err
      | None \<Rightarrow>
          if BaseEvent.Type t \<noteq> EventTypeToolCallResult then
            Some (plain_error (''tool call result event must have TOOL_CALL_RESULT type, got: '' @ BaseEvent.Type t))
          else if ToolCallResultEvent.MessageID t = [] then
            Some (plain_error ''message ID is required'')
          else if ToolCallResultEvent.ToolCallID t = [] then
            Some (plain_error ''tool call ID is required'')
          else if ToolCallResultEvent.Content t = [] then
            Some (plain_error ''content is required'')
          else if ToolCallResultEvent.Role t \<noteq> [] \<and> \<not> Role_IsValid (ToolCallResultEvent.Role t) then
            Some (plain_error (''invalid role: '' @ ToolCallResultEvent.Role t))
          else None)"

text \<open>\<open>Snapshot\<close> has type \<open>State\<close>, which is \<open>interface{}\<close>.\<close>

record StateSnapshotEvent = BaseEvent +
  Snapshot :: json

definition StateSnapshotEvent_Validate :: "StateSnapshotEvent \<Rightarrow> go_error option" where
  "StateSnapshotEvent_Validate s =
     (case BaseEvent_Validate s of
        Some err \<Rightarrow> Some err
      | None \<Rightarrow>
          if BaseEvent.Type s \<noteq> EventTypeStateSnapshot then
            Some (plain_error (''state snapshot event must have STATE_SNAPSHOT type, got: '' @ BaseEvent.Type s))
          else if StateSnapshotEvent.Snapshot s = JNull then
            Some (plain_error ''snapshot is required'')
          else None)"

text \<open>\<open>Delta\<close> is a \<open>[]interface{}\<close>: \<open>None\<close> is the nil slice, which \<open>Validate\<close> rejects.\<close>

record StateDeltaEvent = BaseEvent +
  Delta :: "json list option"

definition StateDeltaEvent_Validate :: "StateDeltaEvent \<Rightarrow> go_error option" where
  "StateDeltaEvent_Validate s =
     (case BaseEvent_Validate s of
        Some err \<Rightarrow> Some err
      | None \<Rightarrow>
          if BaseEvent.Type s \<noteq> EventTypeStateDelta then
            Some (plain_error (''state delta event must have STATE_DELTA type, got: '' @ BaseEvent.Type s))
          else if StateDeltaEvent.Delta s = None then
            Some (plain_error ''delta is required'')
          else None)"

text \<open>
  \<open>Messages\<close> is a \<open>[]Message\<close>: \<open>None\<close> is the nil slice, and an element is an
  interface value, \<open>None\<close> when it is nil. Calling \<open>Validate\<close> on a nil element panics.
\<close>

record MessagesSnapshotEvent = BaseEvent +
  Messages :: "Message option list option"

fun validate_Messages :: "int \<Rightarrow> Message option list \<Rightarrow> go_error option outcome" where
  \<comment> \<open>the \<open>range\<close> loop of \<open>MessagesSnapshotEvent.Validate\<close>, from index \<open>i\<close> on\<close>
  "validate_Messages i [] = Return None"
| "validate_Messages i (None # rest) = Panic"
| "validate_Messages i (Some m # rest) =
     (case Message_Validate m of
        Some err \<Rightarrow>
          Return (Some (Errorf None (''invalid message at index '' @ show_int i @ '': '' @ msg err) (cause err)))
      | None \<Rightarrow> validate_Messages (i + 1) rest)"

definition MessagesSnapshotEvent_Validate :: "MessagesSnapshotEvent \<Rightarrow> go_error option outcome" where
  "MessagesSnapshotEvent_Validate m =
     (case BaseEvent_Validate m of
        Some err \<Rightarrow> Return (Some err)
      | None \<Rightarrow>
          if BaseEvent.Type m \<noteq> EventTypeMessagesSnapshot then
            Return (Some (plain_error (''messages snapshot event must have MESSAGES_SNAPSHOT type, got: '' @ BaseEvent.Type m)))
          else
            (case MessagesSnapshotEvent.Messages m of
               None \<Rightarrow> Return (Some (plain_error ''messages are required''))
             | Some ms \<Rightarrow> validate_Messages 0 ms))"

record RawEvent = BaseEvent +
  Event :: json
  Source :: string

definition RawEvent_Validate :: "RawEvent \<Rightarrow> go_error option" where
  "RawEvent_Validate r =
     (case BaseEvent_Validate r of
        Some err \<Rightarrow> Some err
      | None \<Rightarrow>
          if BaseEvent.Type r \<noteq> EventTypeRaw then
            Some (plain_error (''raw event must have RAW type, got: '' @ BaseEvent.Type r))
          else if RawEvent.Event r = JNull then
            Some (plain_error ''event is required'')
          else None)"

record CustomEvent = BaseEvent +
  Name :: string
  Value :: json

definition CustomEvent_Validate :: "CustomEvent \<Rightarrow> go_error option" where
  "CustomEvent_Validate c =
     (case BaseEvent_Validate c of
        Some err \<Rightarrow> Some err
      | None \<Rightarrow>
          if BaseEvent.Type c \<noteq> EventTypeCustom then
            Some (plain_error (''custom event must have CUSTOM type, got: '' @ BaseEvent.Type c))
          else if CustomEvent.Name c = [] then
            Some (plain_error ''name is required'')
          else if CustomEvent.Value c = JNull then
            Some (plain_error ''value is required'')
          else None)"

text \<open>The interface \<open>Event\<close>: a pointer to one of the seventeen structs.\<close>

datatype Event =
    EvRunStarted RunStartedEvent
  | EvRunFinished RunFinishedEvent
  | EvRunError RunErrorEvent
  | EvStepStarted StepStartedEvent
  | EvStepFinished StepFinishedEvent
  | EvTextMessageStart TextMessageStartEvent
  | EvTextMessageContent TextMessageContentEvent
  | EvTextMessageEnd TextMessageEndEvent
  | EvToolCallStart ToolCallStartEvent
  | EvToolCallArgs ToolCallArgsEvent
  | EvToolCallEnd ToolCallEndEvent
  | EvToolCallResult ToolCallResultEvent
  | EvStateSnapshot StateSnapshotEvent
  | EvStateDelta StateDeltaEvent
  | EvMessagesSnapshot MessagesSnapshotEvent
  | EvRaw RawEvent
  | EvCustom CustomEvent

fun Event_Validate :: "Event \<Rightarrow> go_error option outcome" where
  "Event_Validate (EvRunStarted e) = Return (RunStartedEvent_Validate e)"
| "Event_Validate (EvRunFinished e) = Return (RunFinishedEvent_Validate e)"
| "Event_Validate (EvRunError e) = Return (RunErrorEvent_Validate e)"
| "Event_Validate (EvStepStarted e) = Return (StepStartedEvent_Validate e)"
| "Event_Validate (EvStepFinished e) = Return (StepFinishedEvent_Validate e)"
| "Event_Validate (EvTextMessageStart e) = Return (TextMessageStartEvent_Validate e)"
| "Event_Validate (EvTextMessageContent e) = Return (TextMessageContentEvent_Validate e)"
| "Event_Validate (EvTextMessageEnd e) = Return (TextMessageEndEvent_Validate e)"
| "Event_Validate (EvToolCallStart e) = Return (ToolCallStartEvent_Validate e)"
| "Event_Validate (EvToolCallArgs e) = Return (ToolCallArgsEvent_Validate e)"
| "Event_Validate (EvToolCallEnd e) = Return (ToolCallEndEvent_Validate e)"
| "Event_Validate (EvToolCallResult e) = Return (ToolCallResultEvent_Validate e)"
| "Event_Validate (EvStateSnapshot e) = Return (StateSnapshotEvent_Validate e)"
| "Event_Validate (EvStateDelta e) = Return (StateDeltaEvent_Validate e)"
| "Event_Validate (EvMessagesSnapshot e) = MessagesSnapshotEvent_Validate e"
| "Event_Validate (EvRaw e) = Return (RawEvent_Validate e)"
| "Event_Validate (EvCustom e) = Return (CustomEvent_Validate e)"

fun Event_GetType :: "Event \<Rightarrow> EventType" where
  "Event_GetType (EvRunStarted e) = BaseEvent.Type e"
| "Event_GetType (EvRunFinished e) = BaseEvent.Type e"
| "Event_GetType (EvRunError e) = BaseEvent.Type e"
| "Event_GetType (EvStepStarted e) = BaseEvent.Type e"
| "Event_GetType (EvStepFinished e) = BaseEvent.Type e"
| "Event_GetType (EvTextMessageStart e) = BaseEvent.Type e"
| "Event_GetType (EvTextMessageContent e) = BaseEvent.Type e"
| "Event_GetType (EvTextMessageEnd e) = BaseEvent.Type e"
| "Event_GetType (EvToolCallStart e) = BaseEvent.Type e"
| "Event_GetType (EvToolCallArgs e) = BaseEvent.Type e"
| "Event_GetType (EvToolCallEnd e) = BaseEvent.Type e"
| "Event_GetType (EvToolCallResult e) = BaseEvent.Type e"
| "Event_GetType (EvStateSnapshot e) = BaseEvent.Type e"
| "Event_GetType (EvStateDelta e) = BaseEvent.Type e"
| "Event_GetType (EvMessagesSnapshot e) = BaseEvent.Type e"
| "Event_GetType (EvRaw e) = BaseEvent.Type e"
| "Event_GetType (EvCustom e) = BaseEvent.Type e"

fun Event_EventTypeName :: "Event \<Rightarrow> string" where
  "Event_EventTypeName (EvRunStarted e) = ''RunStartedEvent''"
| "Event_EventTypeName (EvRunFinished e) = ''RunFinishedEvent''"
| "Event_EventTypeName (EvRunError e) = ''RunErrorEvent''"
| "Event_EventTypeName (EvStepStarted e) = ''StepStartedEvent''"
| "Event_EventTypeName (EvStepFinished e) = ''StepFinishedEvent''"
| "Event_EventTypeName (EvTextMessageStart e) = ''TextMessageStartEvent''"
| "Event_EventTypeName (EvTextMessageContent e) = ''TextMessageContentEvent''"
| "Event_EventTypeName (EvTextMessageEnd e) = ''TextMessageEndEvent''"
| "Event_EventTypeName (EvToolCallStart e) = ''ToolCallStartEvent''"
| "Event_EventTypeName (EvToolCallArgs e) = ''ToolCallArgsEvent''"
| "Event_EventTypeName (EvToolCallEnd e) = ''ToolCallEndEvent''"
| "Event_EventTypeName (EvToolCallResult e) = ''ToolCallResultEvent''"
| "Event_EventTypeName (EvStateSnapshot e) = ''StateSnapshotEvent''"
| "Event_EventTypeName (EvStateDelta e) = ''StateDeltaEvent''"
| "Event_EventTypeName (EvMessagesSnapshot e) = ''MessagesSnapshotEvent''"
| "Event_EventTypeName (EvRaw e) = ''RawEvent''"
| "Event_EventTypeName (EvCustom e) = ''CustomEvent''"

section \<open>\<open>json.Marshal\<close> on the structs of the package\<close>

text \<open>
  A struct is marshalled to an object whose members follow the order of its fields, the
  fields of the embedded header first. A field tagged \<open>omitempty\<close> is left out when it is
  the empty string, a nil pointer, a nil interface or an empty slice. \<open>json.Marshal\<close>
  fails when a payload holds a value it cannot write, and only then.
  In a string the encoder escapes the quote, the backslash, the control characters,
  \<open><\<close>, \<open>>\<close> and \<open>&\<close> (HTML escaping is on by default), U+2028 and U+2029, and writes
  the escape of U+FFFD for a byte that starts no well-formed UTF-8 encoding.
\<close>

definition hex_digit :: "int \<Rightarrow> char" where
  "hex_digit n = (if n < 10 then char_of (48 + n) else char_of (87 + n))"

definition escape_char :: "char \<Rightarrow> string" where
  \<comment> \<open>how the encoder writes one byte below 0x80 of a string\<close>
  "escape_char c =
     (if c = CHR 0x22 then [CHR 0x5C, CHR 0x22]
      else if c = CHR 0x5C then [CHR 0x5C, CHR 0x5C]
      else if c = CHR 0x08 then [CHR 0x5C, CHR ''b'']
      else if c = CHR 0x0C then [CHR 0x5C, CHR ''f'']
      else if c = CHR 0x0A then [CHR 0x5C, CHR ''n'']
      else if c = CHR 0x0D then [CHR 0x5C, CHR ''r'']
      else if c = CHR 0x09 then [CHR 0x5C, CHR ''t'']
      else if c < CHR 0x20 \<or> c = CHR ''<'' \<or> c = CHR ''>'' \<or> c = CHR ''&'' then
        [CHR 0x5C, CHR ''u'', CHR ''0'', CHR ''0'', hex_digit (of_char c div 16), hex_digit (of_char c mod 16)]
      else [c])"

fun escape_string :: "string \<Rightarrow> string" where
  "escape_string [] = []"
| "escape_string (c # cs) =
     (if c < CHR 0x80 then escape_char c @ escape_string cs
      else if rune_width (c # cs) = 0 then
        [CHR 0x5C, CHR ''u'', CHR ''f'', CHR ''f'', CHR ''f'', CHR ''d''] @ escape_string cs
      else if c = CHR 0xE2 \<and> take 2 cs = [CHR 0x80, CHR 0xA8] then
        [CHR 0x5C, CHR ''u'', CHR ''2'', CHR ''0'', CHR ''2'', CHR ''8''] @ escape_string (drop 2 cs)
      else if c = CHR 0xE2 \<and> take 2 cs = [CHR 0x80, CHR 0xA9] then
        [CHR 0x5C, CHR ''u'', CHR ''2'', CHR ''0'', CHR ''2'', CHR ''9''] @ escape_string (drop 2 cs)
      else c # take (rune_width (c # cs) - 1) cs
           @ escape_string (drop (rune_width (c # cs) - 1) cs))"

definition render_string :: "string \<Rightarrow> string" where
  "render_string s = CHR 0x22 # escape_string s @ [CHR 0x22]"

fun json_render :: "json \<Rightarrow> string"
  and render_elements :: "json list \<Rightarrow> string"
  and render_members :: "(string \<times> json) list \<Rightarrow> string"
where
  "json_render JNull = ''null''"
| "json_render (JBool b) = (if b then ''true'' else ''false'')"
| "json_render (JNum lit) = lit"
| "json_render (JStr s) = render_string s"
| "json_render (JArr vs) = ''['' @ render_elements vs @ '']''"
| "json_render (JObj kvs) = ''{'' @ render_members kvs @ ''}''"
| "json_render JUnsupported = []"
| "render_elements [] = []"
| "render_elements [v] = json_render v"
| "render_elements (v # w # vs) = json_render v @ '','' @ render_elements (w # vs)"
| "render_members [] = []"
| "render_members [(k, v)] = render_string k @ '':'' @ json_render v"
| "render_members ((k, v) # kv # kvs) =
     render_string k @ '':'' @ json_render v @ '','' @ render_members (kv # kvs)"

fun marshalable :: "json \<Rightarrow> bool"
  and marshalable_elements :: "json list \<Rightarrow> bool"
  and marshalable_members :: "(string \<times> json) list \<Rightarrow> bool"
where
  "marshalable JNull = True"
| "marshalable (JBool b) = True"
| "marshalable (JNum lit) = True"
| "marshalable (JStr s) = True"
| "marshalable (JArr vs) = marshalable_elements vs"
| "marshalable (JObj kvs) = marshalable_members kvs"
| "marshalable JUnsupported = False"
| "marshalable_elements [] = True"
| "marshalable_elements (v # vs) = (marshalable v \<and> marshalable_elements vs)"
| "marshalable_members [] = True"
| "marshalable_members ((k, v) # kvs) = (marshalable v \<and> marshalable_members kvs)"

definition json_Marshal :: "json \<Rightarrow> json_error + string" where
  \<comment> \<open>the bytes of a value, or the error for a value that cannot be written\<close>
  "json_Marshal v = (if marshalable v then Inr (json_render v) else Inl UnsupportedTypeError)"

definition omitempty_string :: "string \<Rightarrow> string \<Rightarrow> (string \<times> json) list" where
  "omitempty_string key v = (if v = [] then [] else [(key, JStr v)])"

definition omitempty_interface :: "string \<Rightarrow> json \<Rightarrow> (string \<times> json) list" where
  "omitempty_interface key v = (if v = JNull then [] else [(key, v)])"

definition marshal_FunctionCall :: "FunctionCall \<Rightarrow> json" where
  "marshal_FunctionCall f =
     JObj [(''name'', JStr (FunctionCall.Name f)), (''arguments'', JStr (FunctionCall.Arguments f))]"

definition marshal_ToolCall :: "ToolCall \<Rightarrow> json" where
  "marshal_ToolCall t =
     JObj [(''id'', JStr (ToolCall.ID t)), (''type'', JStr (ToolCall.Type t)),
           (''function'', marshal_FunctionCall (ToolCall.Function t))]"

definition marshal_BaseMessage :: "'a BaseMessage_scheme \<Rightarrow> (string \<times> json) list" where
  "marshal_BaseMessage b =
     [(''id'', JStr (BaseMessage.ID b)), (''role'', JStr (BaseMessage.Role b))]
     @ omitempty_string ''name'' (BaseMessage.Name b)"

fun marshal_Message :: "Message \<Rightarrow> json" where
  "marshal_Message (MsgDeveloper d) =
     JObj (marshal_BaseMessage d @ [(''content'', JStr (DeveloperMessage.Content d))])"
| "marshal_Message (MsgSystem s) =
     JObj (marshal_BaseMessage s @ [(''content'', JStr (SystemMessage.Content s))])"
| "marshal_Message (MsgAssistant a) =
     JObj (marshal_BaseMessage a
           @ omitempty_string ''content'' (AssistantMessage.Content a)
           @ (if AssistantMessage.ToolCalls a = [] then []
              else [(''toolCalls'', JArr (map marshal_ToolCall (AssistantMessage.ToolCalls a)))]))"
| "marshal_Message (MsgUser u) =
     JObj (marshal_BaseMessage u @ [(''content'', JStr (UserMessage.Content u))])"
| "marshal_Message (MsgTool t) =
     JObj (marshal_BaseMessage t
           @ [(''content'', JStr (ToolMessage.Content t)), (''toolCallId'', JStr (ToolMessage.ToolCallID t))]
           @ omitempty_string ''error'' (ToolMessage.Error t))"

definition marshal_BaseEvent :: "'a BaseEvent_scheme \<Rightarrow> (string \<times> json) list" where
  "marshal_BaseEvent b =
     [(''type'', JStr (BaseEvent.Type b))]
     @ (case BaseEvent.Timestamp b of
          None \<Rightarrow> []
        | Some t \<Rightarrow> [(''timestamp'', JNum (show_int (sint t)))])
     @ omitempty_interface ''rawEvent'' (BaseEvent.RawEvent b)"

definition marshal_Messages :: "Message option list option \<Rightarrow> json" where
  "marshal_Messages ms =
     (case ms of
        None \<Rightarrow> JNull
      | Some xs \<Rightarrow> JArr (map (\<lambda>m. case m of None \<Rightarrow> JNull | Some x \<Rightarrow> marshal_Message x) xs))"

fun marshal_Event :: "Event \<Rightarrow> json" where
  "marshal_Event (EvRunStarted e) =
     JObj (marshal_BaseEvent e
           @ [(''threadId'', JStr (RunStartedEvent.ThreadID e)), (''runId'', JStr (RunStartedEvent.RunID e))])"
| "marshal_Event (EvRunFinished e) =
     JObj (marshal_BaseEvent e
           @ [(''threadId'', JStr (RunFinishedEvent.ThreadID e)), (''runId'', JStr (RunFinishedEvent.RunID e))]
           @ omitempty_interface ''result'' (RunFinishedEvent.Result e))"
| "marshal_Event (EvRunError e) =
     JObj (marshal_BaseEvent e
           @ [(''message'', JStr (RunErrorEvent.Message e))]
           @ omitempty_string ''code'' (RunErrorEvent.Code e))"
| "marshal_Event (EvStepStarted e) =
     JObj (marshal_BaseEvent e
           @ [(''stepName'', JStr (StepStartedEvent.StepName e))])"
| "marshal_Event (EvStepFinished e) =
     JObj (marshal_BaseEvent e
           @ [(''stepName'', JStr (StepFinishedEvent.StepName e))])"
| "marshal_Event (EvTextMessageStart e) =
     JObj (marshal_BaseEvent e
           @ [(''messageId'', JStr (TextMessageStartEvent.MessageID e)), (''role'', JStr (TextMessageStartEvent.Role e))])"
| "marshal_Event (EvTextMessageContent e) =
     JObj (marshal_BaseEvent e
           @ [(''messageId'', JStr (TextMessageContentEvent.MessageID e)), (''delta'', JStr (TextMessageContentEvent.Delta e))])"
| "marshal_Event (EvTextMessageEnd e) =
     JObj (marshal_BaseEvent e
           @ [(''messageId'', JStr (TextMessageEndEvent.MessageID e))])"
| "marshal_Event (EvToolCallStart e) =
     JObj (marshal_BaseEvent e
           @ [(''toolCallId'', JStr (ToolCallStartEvent.ToolCallID e)), (''toolCallName'', JStr (ToolCallStartEvent.ToolCallName e))]
           @ omitempty_string ''parentMessageId'' (ToolCallStartEvent.ParentMessageID e))"
| "marshal_Event (EvToolCallArgs e) =
     JObj (marshal_BaseEvent e
           @ [(''toolCallId'', JStr (ToolCallArgsEvent.ToolCallID e)), (''delta'', JStr (ToolCallArgsEvent.Delta e))])"
| "marshal_Event (EvToolCallEnd e) =
     JObj (marshal_BaseEvent e
           @ [(''toolCallId'', JStr (ToolCallEndEvent.ToolCallID e))])"
| "marshal_Event (EvToolCallResult e) =
     JObj (marshal_BaseEvent e
           @ [(''messageId'', JStr (ToolCallResultEvent.MessageID e)), (''toolCallId'', JStr (ToolCallResultEvent.ToolCallID e)), (''content'', JStr (ToolCallResultEvent.Content e))]
           @ omitempty_string ''role'' (ToolCallResultEvent.Role e))"
| "marshal_Event (EvStateSnapshot e) =
     JObj (marshal_BaseEvent e
           @ [(''snapshot'', StateSnapshotEvent.Snapshot e)])"
| "marshal_Event (EvStateDelta e) =
     JObj (marshal_BaseEvent e
           @ [(''delta'', case StateDeltaEvent.Delta e of None \<Rightarrow> JNull | Some vs \<Rightarrow> JArr vs)])"
| "marshal_Event (EvMessagesSnapshot e) =
     JObj (marshal_BaseEvent e
           @ [(''messages'', marshal_Messages (MessagesSnapshotEvent.Messages e))])"
| "marshal_Event (EvRaw e) =
     JObj (marshal_BaseEvent e
           @ [(''event'', RawEvent.Event e)]
           @ omitempty_string ''source'' (RawEvent.Source e))"
| "marshal_Event (EvCustom e) =
     JObj (marshal_BaseEvent e
           @ [(''name'', JStr (CustomEvent.Name e)), (''value'', CustomEvent.Value e)])"

definition json_Marshal_Event :: "Event \<Rightarrow> json_error + string" where
  "json_Marshal_Event event = json_Marshal (marshal_Event event)"

definition json_Marshal_Message :: "Message \<Rightarrow> json_error + string" where
  "json_Marshal_Message message = json_Marshal (marshal_Message message)"

section \<open>\<open>json.Unmarshal\<close> into the structs of the package\<close>

text \<open>
  \<open>json.Unmarshal\<close> stores the members of an object into the fields of the struct, in
  the order of the text. A key matches a field when their folded names are equal:
  \<open>foldName\<close> maps every rune to the least rune of its simple case folding orbit, that is
  an ASCII letter to its upper case, U+017F (long s, the bytes C5 BF) to \<open>S\<close> and U+212A
  (Kelvin sign, the bytes E2 84 AA) to \<open>K\<close>; no other rune folds to an ASCII character,
  and the field names are ASCII, so the other bytes are kept. A key that matches no field
  is skipped; a later member with the
  same key is stored over the earlier one. \<open>null\<close> leaves a string or a struct as it is
  and resets a pointer, an interface or a slice to nil. A value of the wrong kind is an
  \<open>UnmarshalTypeError\<close>; the first one of the text is the error returned.
\<close>

definition to_upper :: "char \<Rightarrow> char" where
  "to_upper c = (if CHR ''a'' \<le> c \<and> c \<le> CHR ''z'' then char_of (of_char c - (32::nat)) else c)"

fun foldName :: "string \<Rightarrow> string" where
  "foldName [] = []"
| "foldName (c # cs) =
     (if c < CHR 0x80 then to_upper c # foldName cs
      else if c = CHR 0xC5 \<and> take 1 cs = [CHR 0xBF] then CHR ''S'' # foldName (drop 1 cs)
      else if c = CHR 0xE2 \<and> take 2 cs = [CHR 0x84, CHR 0xAA] then CHR ''K'' # foldName (drop 2 cs)
      else c # foldName cs)"

definition key_is :: "string \<Rightarrow> string \<Rightarrow> bool" where
  "key_is k name \<longleftrightarrow> foldName k = foldName name"

fun json_kind :: "json \<Rightarrow> string" where
  "json_kind JNull = ''null''"
| "json_kind (JBool b) = ''bool''"
| "json_kind (JNum lit) = ''number''"
| "json_kind (JStr s) = ''string''"
| "json_kind (JArr vs) = ''array''"
| "json_kind (JObj kvs) = ''object''"
| "json_kind JUnsupported = []"

definition store :: "json_error + 'a \<Rightarrow> ('a \<Rightarrow> 's) \<Rightarrow> json_error + 's" where
  "store r f = (case r of Inl err \<Rightarrow> Inl err | Inr x \<Rightarrow> Inr (f x))"

definition unmarshal_string :: "string \<Rightarrow> json \<Rightarrow> string \<Rightarrow> json_error + string" where
  \<comment> \<open>into a field of type \<open>string\<close>, \<open>EventType\<close>, \<open>Role\<close> or \<open>ToolCallType\<close>\<close>
  "unmarshal_string field v cur =
     (case v of
        JStr x \<Rightarrow> Inr x
      | JNull \<Rightarrow> Inr cur
      | _ \<Rightarrow> Inl (UnmarshalTypeError (json_kind v) field))"

definition unmarshal_int64_ptr :: "string \<Rightarrow> json \<Rightarrow> json_error + 64 word option" where
  "unmarshal_int64_ptr field v =
     (case v of
        JNum lit \<Rightarrow>
          (case parse_int64 lit of
             Some w \<Rightarrow> Inr (Some w)
           | None \<Rightarrow> Inl (UnmarshalTypeError (''number '' @ lit) field))
      | JNull \<Rightarrow> Inr None
      | _ \<Rightarrow> Inl (UnmarshalTypeError (json_kind v) field))"

definition unmarshal_interface_slice :: "string \<Rightarrow> json \<Rightarrow> json_error + json list option" where
  \<comment> \<open>into a \<open>[]interface{}\<close>: every element is stored into an \<open>interface{}\<close>\<close>
  "unmarshal_interface_slice field v =
     (case v of
        JArr vs \<Rightarrow>
          (case number_error_elements vs of
             Some lit \<Rightarrow> Inl (UnmarshalTypeError (''number '' @ lit) field)
           | None \<Rightarrow> Inr (Some vs))
      | JNull \<Rightarrow> Inr None
      | _ \<Rightarrow> Inl (UnmarshalTypeError (json_kind v) field))"

text \<open>
  \<open>Message\<close> is an interface with methods and has no \<open>UnmarshalJSON\<close>: the decoder can
  store \<open>null\<close> into an element of a \<open>[]Message\<close> (the nil interface) and nothing else.
\<close>

fun unmarshal_Message_elems :: "string \<Rightarrow> json list \<Rightarrow> json_error + Message option list" where
  "unmarshal_Message_elems field [] = Inr []"
| "unmarshal_Message_elems field (v # vs) =
     (if v = JNull then store (unmarshal_Message_elems field vs) (\<lambda>ms. None # ms)
      else Inl (UnmarshalTypeError (json_kind v) field))"

definition unmarshal_Message_slice :: "string \<Rightarrow> json \<Rightarrow> json_error + Message option list option" where
  "unmarshal_Message_slice field v =
     (case v of
        JArr vs \<Rightarrow> store (unmarshal_Message_elems field vs) Some
      | JNull \<Rightarrow> Inr None
      | _ \<Rightarrow> Inl (UnmarshalTypeError (json_kind v) field))"

fun unmarshal_members ::
  "(string \<Rightarrow> json \<Rightarrow> 's \<Rightarrow> json_error + 's) \<Rightarrow> (string \<times> json) list \<Rightarrow> 's \<Rightarrow> json_error + 's"
where
  "unmarshal_members setf [] cur = Inr cur"
| "unmarshal_members setf ((k, v) # kvs) cur =
     (case setf k v cur of
        Inl err \<Rightarrow> Inl err
      | Inr cur' \<Rightarrow> unmarshal_members setf kvs cur')"

definition unmarshal_struct ::
  "string \<Rightarrow> (string \<Rightarrow> json \<Rightarrow> 's \<Rightarrow> json_error + 's) \<Rightarrow> json \<Rightarrow> 's \<Rightarrow> json_error + 's"
where
  "unmarshal_struct tname setf v cur =
     (case v of
        JObj kvs \<Rightarrow> unmarshal_members setf kvs cur
      | JNull \<Rightarrow> Inr cur
      | _ \<Rightarrow> Inl (UnmarshalTypeError (json_kind v) tname))"

subsection \<open>Supporting records\<close>

definition set_FunctionCall :: "string \<Rightarrow> json \<Rightarrow> FunctionCall \<Rightarrow> json_error + FunctionCall" where
  "set_FunctionCall k v f =
     (if key_is k ''name'' then
        store (unmarshal_string ''FunctionCall.name'' v (FunctionCall.Name f)) (\<lambda>x. f\<lparr>FunctionCall.Name := x\<rparr>)
      else if key_is k ''arguments'' then
        store (unmarshal_string ''FunctionCall.arguments'' v (FunctionCall.Arguments f)) (\<lambda>x. f\<lparr>FunctionCall.Arguments := x\<rparr>)
      else Inr f)"

definition set_ToolCall :: "string \<Rightarrow> json \<Rightarrow> ToolCall \<Rightarrow> json_error + ToolCall" where
  "set_ToolCall k v t =
     (if key_is k ''id'' then
        store (unmarshal_string ''ToolCall.id'' v (ToolCall.ID t)) (\<lambda>x. t\<lparr>ToolCall.ID := x\<rparr>)
      else if key_is k ''type'' then
        store (unmarshal_string ''ToolCall.type'' v (ToolCall.Type t)) (\<lambda>x. t\<lparr>ToolCall.Type := x\<rparr>)
      else if key_is k ''function'' then
        store (unmarshal_struct ''ToolCall.function'' set_FunctionCall v (ToolCall.Function t))
              (\<lambda>x. t\<lparr>ToolCall.Function := x\<rparr>)
      else Inr t)"

definition zero_ToolCall :: ToolCall where
  "zero_ToolCall =
     \<lparr>ToolCall.ID = [], Type = [], Function = \<lparr>FunctionCall.Name = [], Arguments = []\<rparr>\<rparr>"

text \<open>
  An array is stored into a slice element by element, element \<open>i\<close> over the element the
  slice already has at \<open>i\<close> (one left by an earlier member with the same key) or over a zero
  value; what an earlier, longer array left in the spare capacity is not modelled.
\<close>

fun unmarshal_ToolCall_elems :: "string \<Rightarrow> json list \<Rightarrow> ToolCall list \<Rightarrow> json_error + ToolCall list" where
  "unmarshal_ToolCall_elems field [] cur = Inr []"
| "unmarshal_ToolCall_elems field (v # vs) cur =
     (case unmarshal_struct field set_ToolCall v (case cur of [] \<Rightarrow> zero_ToolCall | t # ts \<Rightarrow> t) of
        Inl err \<Rightarrow> Inl err
      | Inr t \<Rightarrow> store (unmarshal_ToolCall_elems field vs (tl cur)) (\<lambda>ts. t # ts))"

definition unmarshal_ToolCall_slice :: "string \<Rightarrow> json \<Rightarrow> ToolCall list \<Rightarrow> json_error + ToolCall list" where
  "unmarshal_ToolCall_slice field v cur =
     (case v of
        JArr vs \<Rightarrow> unmarshal_ToolCall_elems field vs cur
      | JNull \<Rightarrow> Inr []
      | _ \<Rightarrow> Inl (UnmarshalTypeError (json_kind v) field))"

subsection \<open>Messages\<close>

definition set_BaseMessage :: "string \<Rightarrow> string \<Rightarrow> json \<Rightarrow> 'a BaseMessage_scheme \<Rightarrow> json_error + 'a BaseMessage_scheme" where
  "set_BaseMessage tname k v b =
     (if key_is k ''id'' then
        store (unmarshal_string (tname @ ''.id'') v (BaseMessage.ID b)) (\<lambda>x. b\<lparr>BaseMessage.ID := x\<rparr>)
      else if key_is k ''role'' then
        store (unmarshal_string (tname @ ''.role'') v (BaseMessage.Role b)) (\<lambda>x. b\<lparr>BaseMessage.Role := x\<rparr>)
      else if key_is k ''name'' then
        store (unmarshal_string (tname @ ''.name'') v (BaseMessage.Name b)) (\<lambda>x. b\<lparr>BaseMessage.Name := x\<rparr>)
      else Inr b)"

definition set_DeveloperMessage :: "string \<Rightarrow> json \<Rightarrow> DeveloperMessage \<Rightarrow> json_error + DeveloperMessage" where
  "set_DeveloperMessage k v m =
     (if key_is k ''content'' then
        store (unmarshal_string ''DeveloperMessage.content'' v (DeveloperMessage.Content m)) (\<lambda>x. m\<lparr>DeveloperMessage.Content := x\<rparr>)
      else set_BaseMessage ''DeveloperMessage'' k v m)"

definition zero_DeveloperMessage :: DeveloperMessage where
  "zero_DeveloperMessage =
     \<lparr>BaseMessage.ID = [], Role = [], Name = [], DeveloperMessage.Content = []\<rparr>"

definition unmarshal_DeveloperMessage :: "json \<Rightarrow> json_error + DeveloperMessage" where
  "unmarshal_DeveloperMessage v = unmarshal_struct ''DeveloperMessage'' set_DeveloperMessage v zero_DeveloperMessage"

definition set_SystemMessage :: "string \<Rightarrow> json \<Rightarrow> SystemMessage \<Rightarrow> json_error + SystemMessage" where
  "set_SystemMessage k v m =
     (if key_is k ''content'' then
        store (unmarshal_string ''SystemMessage.content'' v (SystemMessage.Content m)) (\<lambda>x. m\<lparr>SystemMessage.Content := x\<rparr>)
      else set_BaseMessage ''SystemMessage'' k v m)"

definition zero_SystemMessage :: SystemMessage where
  "zero_SystemMessage =
     \<lparr>BaseMessage.ID = [], Role = [], Name = [], SystemMessage.Content = []\<rparr>"

definition unmarshal_SystemMessage :: "json \<Rightarrow> json_error + SystemMessage" where
  "unmarshal_SystemMessage v = unmarshal_struct ''SystemMessage'' set_SystemMessage v zero_SystemMessage"

definition set_AssistantMessage :: "string \<Rightarrow> json \<Rightarrow> AssistantMessage \<Rightarrow> json_error + AssistantMessage" where
  "set_AssistantMessage k v m =
     (if key_is k ''content'' then
        store (unmarshal_string ''AssistantMessage.content'' v (AssistantMessage.Content m)) (\<lambda>x. m\<lparr>AssistantMessage.Content := x\<rparr>)
      else if key_is k ''toolCalls'' then
        store (unmarshal_ToolCall_slice ''AssistantMessage.toolCalls'' v (AssistantMessage.ToolCalls m)) (\<lambda>x. m\<lparr>AssistantMessage.ToolCalls := x\<rparr>)
      else set_BaseMessage ''AssistantMessage'' k v m)"

definition zero_AssistantMessage :: AssistantMessage where
  "zero_AssistantMessage =
     \<lparr>BaseMessage.ID = [], Role = [], Name = [], AssistantMessage.Content = [], AssistantMessage.ToolCalls = []\<rparr>"

definition unmarshal_AssistantMessage :: "json \<Rightarrow> json_error + AssistantMessage" where
  "unmarshal_AssistantMessage v = unmarshal_struct ''AssistantMessage'' set_AssistantMessage v zero_AssistantMessage"

definition set_UserMessage :: "string \<Rightarrow> json \<Rightarrow> UserMessage \<Rightarrow> json_error + UserMessage" where
  "set_UserMessage k v m =
     (if key_is k ''content'' then
        store (unmarshal_string ''UserMessage.content'' v (UserMessage.Content m)) (\<lambda>x. m\<lparr>UserMessage.Content := x\<rparr>)
      else set_BaseMessage ''UserMessage'' k v m)"

definition zero_UserMessage :: UserMessage where
  "zero_UserMessage =
     \<lparr>BaseMessage.ID = [], Role = [], Name = [], UserMessage.Content = []\<rparr>"

definition unmarshal_UserMessage :: "json \<Rightarrow> json_error + UserMessage" where
  "unmarshal_UserMessage v = unmarshal_struct ''UserMessage'' set_UserMessage v zero_UserMessage"

definition set_ToolMessage :: "string \<Rightarrow> json \<Rightarrow> ToolMessage \<Rightarrow> json_error + ToolMessage" where
  "set_ToolMessage k v m =
     (if key_is k ''content'' then
        store (unmarshal_string ''ToolMessage.content'' v (ToolMessage.Content m)) (\<lambda>x. m\<lparr>ToolMessage.Content := x\<rparr>)
      else if key_is k ''toolCallId'' then
        store (unmarshal_string ''ToolMessage.toolCallId'' v (ToolMessage.ToolCallID m)) (\<lambda>x. m\<lparr>ToolMessage.ToolCallID := x\<rparr>)
      else if key_is k ''error'' then
        store (unmarshal_string ''ToolMessage.error'' v (ToolMessage.Error m)) (\<lambda>x. m\<lparr>ToolMessage.Error := x\<rparr>)
      else set_BaseMessage ''ToolMessage'' k v m)"

definition zero_ToolMessage :: ToolMessage where
  "zero_ToolMessage =
     \<lparr>BaseMessage.ID = [], Role = [], Name = [], ToolMessage.Content = [], ToolMessage.ToolCallID = [], ToolMessage.Error = []\<rparr>"

definition unmarshal_ToolMessage :: "json \<Rightarrow> json_error + ToolMessage" where
  "unmarshal_ToolMessage v = unmarshal_struct ''ToolMessage'' set_ToolMessage v zero_ToolMessage"

subsection \<open>Events\<close>

definition set_BaseEvent :: "string \<Rightarrow> string \<Rightarrow> json \<Rightarrow> 'a BaseEvent_scheme \<Rightarrow> json_error + 'a BaseEvent_scheme" where
  "set_BaseEvent tname k v b =
     (if key_is k ''type'' then
        store (unmarshal_string (tname @ ''.type'') v (BaseEvent.Type b)) (\<lambda>x. b\<lparr>BaseEvent.Type := x\<rparr>)
      else if key_is k ''timestamp'' then
        store (unmarshal_int64_ptr (tname @ ''.timestamp'') v) (\<lambda>x. b\<lparr>BaseEvent.Timestamp := x\<rparr>)
      else if key_is k ''rawEvent'' then
        store (unmarshal_interface (tname @ ''.rawEvent'') v) (\<lambda>x. b\<lparr>BaseEvent.RawEvent := x\<rparr>)
      else Inr b)"

definition set_RunStartedEvent :: "string \<Rightarrow> json \<Rightarrow> RunStartedEvent \<Rightarrow> json_error + RunStartedEvent" where
  "set_RunStartedEvent k v e =
     (if key_is k ''threadId'' then
        store (unmarshal_string ''RunStartedEvent.threadId'' v (RunStartedEvent.ThreadID e)) (\<lambda>x. e\<lparr>RunStartedEvent.ThreadID := x\<rparr>)
      else if key_is k ''runId'' then
        store (unmarshal_string ''RunStartedEvent.runId'' v (RunStartedEvent.RunID e)) (\<lambda>x. e\<lparr>RunStartedEvent.RunID := x\<rparr>)
      else set_BaseEvent ''RunStartedEvent'' k v e)"

definition zero_RunStartedEvent :: RunStartedEvent where
  "zero_RunStartedEvent =
     \<lparr>BaseEvent.Type = [], Timestamp = None, RawEvent = JNull, RunStartedEvent.ThreadID = [], RunStartedEvent.RunID = []\<rparr>"

definition unmarshal_RunStartedEvent :: "json \<Rightarrow> json_error + RunStartedEvent" where
  "unmarshal_RunStartedEvent v = unmarshal_struct ''RunStartedEvent'' set_RunStartedEvent v zero_RunStartedEvent"

definition set_RunFinishedEvent :: "string \<Rightarrow> json \<Rightarrow> RunFinishedEvent \<Rightarrow> json_error + RunFinishedEvent" where
  "set_RunFinishedEvent k v e =
     (if key_is k ''threadId'' then
        store (unmarshal_string ''RunFinishedEvent.threadId'' v (RunFinishedEvent.ThreadID e)) (\<lambda>x. e\<lparr>RunFinishedEvent.ThreadID := x\<rparr>)
      else if key_is k ''runId'' then
        store (unmarshal_string ''RunFinishedEvent.runId'' v (RunFinishedEvent.RunID e)) (\<lambda>x. e\<lparr>RunFinishedEvent.RunID := x\<rparr>)
      else if key_is k ''result'' then
        store (unmarshal_interface ''RunFinishedEvent.result'' v) (\<lambda>x. e\<lparr>RunFinishedEvent.Result := x\<rparr>)
      else set_BaseEvent ''RunFinishedEvent'' k v e)"

definition zero_RunFinishedEvent :: RunFinishedEvent where
  "zero_RunFinishedEvent =
     \<lparr>BaseEvent.Type = [], Timestamp = None, RawEvent = JNull, RunFinishedEvent.ThreadID = [], RunFinishedEvent.RunID = [], RunFinishedEvent.Result = JNull\<rparr>"

definition unmarshal_RunFinishedEvent :: "json \<Rightarrow> json_error + RunFinishedEvent" where
  "unmarshal_RunFinishedEvent v = unmarshal_struct ''RunFinishedEvent'' set_RunFinishedEvent v zero_RunFinishedEvent"

definition set_RunErrorEvent :: "string \<Rightarrow> json \<Rightarrow> RunErrorEvent \<Rightarrow> json_error + RunErrorEvent" where
  "set_RunErrorEvent k v e =
     (if key_is k ''message'' then
        store (unmarshal_string ''RunErrorEvent.message'' v (RunErrorEvent.Message e)) (\<lambda>x. e\<lparr>RunErrorEvent.Message := x\<rparr>)
      else if key_is k ''code'' then
        store (unmarshal_string ''RunErrorEvent.code'' v (RunErrorEvent.Code e)) (\<lambda>x. e\<lparr>RunErrorEvent.Code := x\<rparr>)
      else set_BaseEvent ''RunErrorEvent'' k v e)"

definition zero_RunErrorEvent :: RunErrorEvent where
  "zero_RunErrorEvent =
     \<lparr>BaseEvent.Type = [], Timestamp = None, RawEvent = JNull, RunErrorEvent.Message = [], RunErrorEvent.Code = []\<rparr>"

definition unmarshal_RunErrorEvent :: "json \<Rightarrow> json_error + RunErrorEvent" where
  "unmarshal_RunErrorEvent v = unmarshal_struct ''RunErrorEvent'' set_RunErrorEvent v zero_RunErrorEvent"

definition set_StepStartedEvent :: "string \<Rightarrow> json \<Rightarrow> StepStartedEvent \<Rightarrow> json_error + StepStartedEvent" where
  "set_StepStartedEvent k v e =
     (if key_is k ''stepName'' then
        store (unmarshal_string ''StepStartedEvent.stepName'' v (StepStartedEvent.StepName e)) (\<lambda>x. e\<lparr>StepStartedEvent.StepName := x\<rparr>)
      else set_BaseEvent ''StepStartedEvent'' k v e)"

definition zero_StepStartedEvent :: StepStartedEvent where
  "zero_StepStartedEvent =
     \<lparr>BaseEvent.Type = [], Timestamp = None, RawEvent = JNull, StepStartedEvent.StepName = []\<rparr>"

definition unmarshal_StepStartedEvent :: "json \<Rightarrow> json_error + StepStartedEvent" where
  "unmarshal_StepStartedEvent v = unmarshal_struct ''StepStartedEvent'' set_StepStartedEvent v zero_StepStartedEvent"

definition set_StepFinishedEvent :: "string \<Rightarrow> json \<Rightarrow> StepFinishedEvent \<Rightarrow> json_error + StepFinishedEvent" where
  "set_StepFinishedEvent k v e =
     (if key_is k ''stepName'' then
        store (unmarshal_string ''StepFinishedEvent.stepName'' v (StepFinishedEvent.StepName e)) (\<lambda>x. e\<lparr>StepFinishedEvent.StepName := x\<rparr>)
      else set_BaseEvent ''StepFinishedEvent'' k v e)"

definition zero_StepFinishedEvent :: StepFinishedEvent where
  "zero_StepFinishedEvent =
     \<lparr>BaseEvent.Type = [], Timestamp = None, RawEvent = JNull, StepFinishedEvent.StepName = []\<rparr>"

definition unmarshal_StepFinishedEvent :: "json \<Rightarrow> json_error + StepFinishedEvent" where
  "unmarshal_StepFinishedEvent v = unmarshal_struct ''StepFinishedEvent'' set_StepFinishedEvent v zero_StepFinishedEvent"

definition set_TextMessageStartEvent :: "string \<Rightarrow> json \<Rightarrow> TextMessageStartEvent \<Rightarrow> json_error + TextMessageStartEvent" where
  "set_TextMessageStartEvent k v e =
     (if key_is k ''messageId'' then
        store (unmarshal_string ''TextMessageStartEvent.messageId'' v (TextMessageStartEvent.MessageID e)) (\<lambda>x. e\<lparr>TextMessageStartEvent.MessageID := x\<rparr>)
      else if key_is k ''role'' then
        store (unmarshal_string ''TextMessageStartEvent.role'' v (TextMessageStartEvent.Role e)) (\<lambda>x. e\<lparr>TextMessageStartEvent.Role := x\<rparr>)
      else set_BaseEvent ''TextMessageStartEvent'' k v e)"

definition zero_TextMessageStartEvent :: TextMessageStartEvent where
  "zero_TextMessageStartEvent =
     \<lparr>BaseEvent.Type = [], Timestamp = None, RawEvent = JNull, TextMessageStartEvent.MessageID = [], TextMessageStartEvent.Role = []\<rparr>"

definition unmarshal_TextMessageStartEvent :: "json \<Rightarrow> json_error + TextMessageStartEvent" where
  "unmarshal_TextMessageStartEvent v = unmarshal_struct ''TextMessageStartEvent'' set_TextMessageStartEvent v zero_TextMessageStartEvent"

definition set_TextMessageContentEvent :: "string \<Rightarrow> json \<Rightarrow> TextMessageContentEvent \<Rightarrow> json_error + TextMessageContentEvent" where
  "set_TextMessageContentEvent k v e =
     (if key_is k ''messageId'' then
        store (unmarshal_string ''TextMessageContentEvent.messageId'' v (TextMessageContentEvent.MessageID e)) (\<lambda>x. e\<lparr>TextMessageContentEvent.MessageID := x\<rparr>)
      else if key_is k ''delta'' then
        store (unmarshal_string ''TextMessageContentEvent.delta'' v (TextMessageContentEvent.Delta e)) (\<lambda>x. e\<lparr>TextMessageContentEvent.Delta := x\<rparr>)
      else set_BaseEvent ''TextMessageContentEvent'' k v e)"

definition zero_TextMessageContentEvent :: TextMessageContentEvent where
  "zero_TextMessageContentEvent =
     \<lparr>BaseEvent.Type = [], Timestamp = None, RawEvent = JNull, TextMessageContentEvent.MessageID = [], TextMessageContentEvent.Delta = []\<rparr>"

definition unmarshal_TextMessageContentEvent :: "json \<Rightarrow> json_error + TextMessageContentEvent" where
  "unmarshal_TextMessageContentEvent v = unmarshal_struct ''TextMessageContentEvent'' set_TextMessageContentEvent v zero_TextMessageContentEvent"

definition set_TextMessageEndEvent :: "string \<Rightarrow> json \<Rightarrow> TextMessageEndEvent \<Rightarrow> json_error + TextMessageEndEvent" where
  "set_TextMessageEndEvent k v e =
     (if key_is k ''messageId'' then
        store (unmarshal_string ''TextMessageEndEvent.messageId'' v (TextMessageEndEvent.MessageID e)) (\<lambda>x. e\<lparr>TextMessageEndEvent.MessageID := x\<rparr>)
      else set_BaseEvent ''TextMessageEndEvent'' k v e)"

definition zero_TextMessageEndEvent :: TextMessageEndEvent where
  "zero_TextMessageEndEvent =
     \<lparr>BaseEvent.Type = [], Timestamp = None, RawEvent = JNull, TextMessageEndEvent.MessageID = []\<rparr>"

definition unmarshal_TextMessageEndEvent :: "json \<Rightarrow> json_error + TextMessageEndEvent" where
  "unmarshal_TextMessageEndEvent v = unmarshal_struct ''TextMessageEndEvent'' set_TextMessageEndEvent v zero_TextMessageEndEvent"

definition set_ToolCallStartEvent :: "string \<Rightarrow> json \<Rightarrow> ToolCallStartEvent \<Rightarrow> json_error + ToolCallStartEvent" where
  "set_ToolCallStartEvent k v e =
     (if key_is k ''toolCallId'' then
        store (unmarshal_string ''ToolCallStartEvent.toolCallId'' v (ToolCallStartEvent.ToolCallID e)) (\<lambda>x. e\<lparr>ToolCallStartEvent.ToolCallID := x\<rparr>)
      else if key_is k ''toolCallName'' then
        store (unmarshal_string ''ToolCallStartEvent.toolCallName'' v (ToolCallStartEvent.ToolCallName e)) (\<lambda>x. e\<lparr>ToolCallStartEvent.ToolCallName := x\<rparr>)
      else if key_is k ''parentMessageId'' then
        store (unmarshal_string ''ToolCallStartEvent.parentMessageId'' v (ToolCallStartEvent.ParentMessageID e)) (\<lambda>x. e\<lparr>ToolCallStartEvent.ParentMessageID := x\<rparr>)
      else set_BaseEvent ''ToolCallStartEvent'' k v e)"

definition zero_ToolCallStartEvent :: ToolCallStartEvent where
  "zero_ToolCallStartEvent =
     \<lparr>BaseEvent.Type = [], Timestamp = None, RawEvent = JNull, ToolCallStartEvent.ToolCallID = [], ToolCallStartEvent.ToolCallName = [], ToolCallStartEvent.ParentMessageID = []\<rparr>"

definition unmarshal_ToolCallStartEvent :: "json \<Rightarrow> json_error + ToolCallStartEvent" where
  "unmarshal_ToolCallStartEvent v = unmarshal_struct ''ToolCallStartEvent'' set_ToolCallStartEvent v zero_ToolCallStartEvent"

definition set_ToolCallArgsEvent :: "string \<Rightarrow> json \<Rightarrow> ToolCallArgsEvent \<Rightarrow> json_error + ToolCallArgsEvent" where
  "set_ToolCallArgsEvent k v e =
     (if key_is k ''toolCallId'' then
        store (unmarshal_string ''ToolCallArgsEvent.toolCallId'' v (ToolCallArgsEvent.ToolCallID e)) (\<lambda>x. e\<lparr>ToolCallArgsEvent.ToolCallID := x\<rparr>)
      else if key_is k ''delta'' then
        store (unmarshal_string ''ToolCallArgsEvent.delta'' v (ToolCallArgsEvent.Delta e)) (\<lambda>x. e\<lparr>ToolCallArgsEvent.Delta := x\<rparr>)
      else set_BaseEvent ''ToolCallArgsEvent'' k v e)"

definition zero_ToolCallArgsEvent :: ToolCallArgsEvent where
  "zero_ToolCallArgsEvent =
     \<lparr>BaseEvent.Type = [], Timestamp = None, RawEvent = JNull, ToolCallArgsEvent.ToolCallID = [], ToolCallArgsEvent.Delta = []\<rparr>"

definition unmarshal_ToolCallArgsEvent :: "json \<Rightarrow> json_error + ToolCallArgsEvent" where
  "unmarshal_ToolCallArgsEvent v = unmarshal_struct ''ToolCallArgsEvent'' set_ToolCallArgsEvent v zero_ToolCallArgsEvent"

definition set_ToolCallEndEvent :: "string \<Rightarrow> json \<Rightarrow> ToolCallEndEvent \<Rightarrow> json_error + ToolCallEndEvent" where
  "set_ToolCallEndEvent k v e =
     (if key_is k ''toolCallId'' then
        store (unmarshal_string ''ToolCallEndEvent.toolCallId'' v (ToolCallEndEvent.ToolCallID e)) (\<lambda>x. e\<lparr>ToolCallEndEvent.ToolCallID := x\<rparr>)
      else set_BaseEvent ''ToolCallEndEvent'' k v e)"

definition zero_ToolCallEndEvent :: ToolCallEndEvent where
  "zero_ToolCallEndEvent =
     \<lparr>BaseEvent.Type = [], Timestamp = None, RawEvent = JNull, ToolCallEndEvent.ToolCallID = []\<rparr>"

definition unmarshal_ToolCallEndEvent :: "json \<Rightarrow> json_error + ToolCallEndEvent" where
  "unmarshal_ToolCallEndEvent v = unmarshal_struct ''ToolCallEndEvent'' set_ToolCallEndEvent v zero_ToolCallEndEvent"

definition set_ToolCallResultEvent :: "string \<Rightarrow> json \<Rightarrow> ToolCallResultEvent \<Rightarrow> json_error + ToolCallResultEvent" where
  "set_ToolCallResultEvent k v e =
     (if key_is k ''messageId'' then
        store (unmarshal_string ''ToolCallResultEvent.messageId'' v (ToolCallResultEvent.MessageID e)) (\<lambda>x. e\<lparr>ToolCallResultEvent.MessageID := x\<rparr>)
      else if key_is k ''toolCallId'' then
        store (unmarshal_string ''ToolCallResultEvent.toolCallId'' v (ToolCallResultEvent.ToolCallID e)) (\<lambda>x. e\<lparr>ToolCallResultEvent.ToolCallID := x\<rparr>)
      else if key_is k ''content'' then
        store (unmarshal_string ''ToolCallResultEvent.content'' v (ToolCallResultEvent.Content e)) (\<lambda>x. e\<lparr>ToolCallResultEvent.Content := x\<rparr>)
      else if key_is k ''role'' then
        store (unmarshal_string ''ToolCallResultEvent.role'' v (ToolCallResultEvent.Role e)) (\<lambda>x. e\<lparr>ToolCallResultEvent.Role := x\<rparr>)
      else set_BaseEvent ''ToolCallResultEvent'' k v e)"

definition zero_ToolCallResultEvent :: ToolCallResultEvent where
  "zero_ToolCallResultEvent =
     \<lparr>BaseEvent.Type = [], Timestamp = None, RawEvent = JNull, ToolCallResultEvent.MessageID = [], ToolCallResultEvent.ToolCallID = [], ToolCallResultEvent.Content = [], ToolCallResultEvent.Role = []\<rparr>"

definition unmarshal_ToolCallResultEvent :: "json \<Rightarrow> json_error + ToolCallResultEvent" where
  "unmarshal_ToolCallResultEvent v = unmarshal_struct ''ToolCallResultEvent'' set_ToolCallResultEvent v zero_ToolCallResultEvent"

definition set_StateSnapshotEvent :: "string \<Rightarrow> json \<Rightarrow> StateSnapshotEvent \<Rightarrow> json_error + StateSnapshotEvent" where
  "set_StateSnapshotEvent k v e =
     (if key_is k ''snapshot'' then
        store (unmarshal_interface ''StateSnapshotEvent.snapshot'' v) (\<lambda>x. e\<lparr>StateSnapshotEvent.Snapshot := x\<rparr>)
      else set_BaseEvent ''StateSnapshotEvent'' k v e)"

definition zero_StateSnapshotEvent :: StateSnapshotEvent where
  "zero_StateSnapshotEvent =
     \<lparr>BaseEvent.Type = [], Timestamp = None, RawEvent = JNull, StateSnapshotEvent.Snapshot = JNull\<rparr>"

definition unmarshal_StateSnapshotEvent :: "json \<Rightarrow> json_error + StateSnapshotEvent" where
  "unmarshal_StateSnapshotEvent v = unmarshal_struct ''StateSnapshotEvent'' set_StateSnapshotEvent v zero_StateSnapshotEvent"

definition set_StateDeltaEvent :: "string \<Rightarrow> json \<Rightarrow> StateDeltaEvent \<Rightarrow> json_error + StateDeltaEvent" where
  "set_StateDeltaEvent k v e =
     (if key_is k ''delta'' then
        store (unmarshal_interface_slice ''StateDeltaEvent.delta'' v) (\<lambda>x. e\<lparr>StateDeltaEvent.Delta := x\<rparr>)
      else set_BaseEvent ''StateDeltaEvent'' k v e)"

definition zero_StateDeltaEvent :: StateDeltaEvent where
  "zero_StateDeltaEvent =
     \<lparr>BaseEvent.Type = [], Timestamp = None, RawEvent = JNull, StateDeltaEvent.Delta = None\<rparr>"

definition unmarshal_StateDeltaEvent :: "json \<Rightarrow> json_error + StateDeltaEvent" where
  "unmarshal_StateDeltaEvent v = unmarshal_struct ''StateDeltaEvent'' set_StateDeltaEvent v zero_StateDeltaEvent"

definition set_MessagesSnapshotEvent :: "string \<Rightarrow> json \<Rightarrow> MessagesSnapshotEvent \<Rightarrow> json_error + MessagesSnapshotEvent" where
  "set_MessagesSnapshotEvent k v e =
     (if key_is k ''messages'' then
        store (unmarshal_Message_slice ''MessagesSnapshotEvent.messages'' v) (\<lambda>x. e\<lparr>MessagesSnapshotEvent.Messages := x\<rparr>)
      else set_BaseEvent ''MessagesSnapshotEvent'' k v e)"

definition zero_MessagesSnapshotEvent :: MessagesSnapshotEvent where
  "zero_MessagesSnapshotEvent =
     \<lparr>BaseEvent.Type = [], Timestamp = None, RawEvent = JNull, MessagesSnapshotEvent.Messages = None\<rparr>"

definition unmarshal_MessagesSnapshotEvent :: "json \<Rightarrow> json_error + MessagesSnapshotEvent" where
  "unmarshal_MessagesSnapshotEvent v = unmarshal_struct ''MessagesSnapshotEvent'' set_MessagesSnapshotEvent v zero_MessagesSnapshotEvent"

definition set_RawEvent :: "string \<Rightarrow> json \<Rightarrow> RawEvent \<Rightarrow> json_error + RawEvent" where
  "set_RawEvent k v e =
     (if key_is k ''event'' then
        store (unmarshal_interface ''RawEvent.event'' v) (\<lambda>x. e\<lparr>RawEvent.Event := x\<rparr>)
      else if key_is k ''source'' then
        store (unmarshal_string ''RawEvent.source'' v (RawEvent.Source e)) (\<lambda>x. e\<lparr>RawEvent.Source := x\<rparr>)
      else set_BaseEvent ''RawEvent'' k v e)"

definition zero_RawEvent :: RawEvent where
  "zero_RawEvent =
     \<lparr>BaseEvent.Type = [], Timestamp = None, RawEvent = JNull, RawEvent.Event = JNull, RawEvent.Source = []\<rparr>"

definition unmarshal_RawEvent :: "json \<Rightarrow> json_error + RawEvent" where
  "unmarshal_RawEvent v = unmarshal_struct ''RawEvent'' set_RawEvent v zero_RawEvent"

definition set_CustomEvent :: "string \<Rightarrow> json \<Rightarrow> CustomEvent \<Rightarrow> json_error + CustomEvent" where
  "set_CustomEvent k v e =
     (if key_is k ''name'' then
        store (unmarshal_string ''CustomEvent.name'' v (CustomEvent.Name e)) (\<lambda>x. e\<lparr>CustomEvent.Name := x\<rparr>)
      else if key_is k ''value'' then
        store (unmarshal_interface ''CustomEvent.value'' v) (\<lambda>x. e\<lparr>CustomEvent.Value := x\<rparr>)
      else set_BaseEvent ''CustomEvent'' k v e)"

definition zero_CustomEvent :: CustomEvent where
  "zero_CustomEvent =
     \<lparr>BaseEvent.Type = [], Timestamp = None, RawEvent = JNull, CustomEvent.Name = [], CustomEvent.Value = JNull\<rparr>"

definition unmarshal_CustomEvent :: "json \<Rightarrow> json_error + CustomEvent" where
  "unmarshal_CustomEvent v = unmarshal_struct ''CustomEvent'' set_CustomEvent v zero_CustomEvent"

section \<open>\<open>codec.go\<close>: encoding and decoding\<close>

text \<open>
  A Go function returning \<open>(value, error)\<close> returns a pair of options here: \<open>None\<close> is
  nil. \<open>RawData\<close> has the tag \<open>json:"-"\<close>: it is neither read nor written by
  \<open>encoding/json\<close>, and \<open>None\<close> is the nil slice.
\<close>

record EventProbe =
  Type :: EventType
  RawData :: "string option"
  Timestamp :: "64 word option"
  RawEvent :: json

record MessageProbe =
  Role :: Role
  RawData :: "string option"
  ID :: string
  Name :: string

definition set_EventProbe :: "string \<Rightarrow> json \<Rightarrow> EventProbe \<Rightarrow> json_error + EventProbe" where
  "set_EventProbe k v p =
     (if key_is k ''type'' then
        store (unmarshal_string ''EventProbe.type'' v (EventProbe.Type p)) (\<lambda>x. p\<lparr>EventProbe.Type := x\<rparr>)
      else if key_is k ''timestamp'' then
        store (unmarshal_int64_ptr ''EventProbe.timestamp'' v) (\<lambda>x. p\<lparr>EventProbe.Timestamp := x\<rparr>)
      else if key_is k ''rawEvent'' then
        store (unmarshal_interface ''EventProbe.rawEvent'' v) (\<lambda>x. p\<lparr>EventProbe.RawEvent := x\<rparr>)
      else Inr p)"

definition zero_EventProbe :: EventProbe where
  "zero_EventProbe =
     \<lparr>EventProbe.Type = [], EventProbe.RawData = None, EventProbe.Timestamp = None,
      EventProbe.RawEvent = JNull\<rparr>"

definition unmarshal_EventProbe :: "json \<Rightarrow> json_error + EventProbe" where
  "unmarshal_EventProbe v = unmarshal_struct ''EventProbe'' set_EventProbe v zero_EventProbe"

definition marshal_EventProbe :: "EventProbe \<Rightarrow> json" where
  "marshal_EventProbe p =
     JObj ([(''type'', JStr (EventProbe.Type p))]
           @ (case EventProbe.Timestamp p of
                None \<Rightarrow> []
              | Some t \<Rightarrow> [(''timestamp'', JNum (show_int (sint t)))])
           @ omitempty_interface ''rawEvent'' (EventProbe.RawEvent p))"

definition set_MessageProbe :: "string \<Rightarrow> json \<Rightarrow> MessageProbe \<Rightarrow> json_error + MessageProbe" where
  "set_MessageProbe k v p =
     (if key_is k ''role'' then
        store (unmarshal_string ''MessageProbe.role'' v (MessageProbe.Role p)) (\<lambda>x. p\<lparr>MessageProbe.Role := x\<rparr>)
      else if key_is k ''id'' then
        store (unmarshal_string ''MessageProbe.id'' v (MessageProbe.ID p)) (\<lambda>x. p\<lparr>MessageProbe.ID := x\<rparr>)
      else if key_is k ''name'' then
        store (unmarshal_string ''MessageProbe.name'' v (MessageProbe.Name p)) (\<lambda>x. p\<lparr>MessageProbe.Name := x\<rparr>)
      else Inr p)"

definition zero_MessageProbe :: MessageProbe where
  "zero_MessageProbe =
     \<lparr>MessageProbe.Role = [], MessageProbe.RawData = None, MessageProbe.ID = [],
      MessageProbe.Name = []\<rparr>"

definition unmarshal_MessageProbe :: "json \<Rightarrow> json_error + MessageProbe" where
  "unmarshal_MessageProbe v = unmarshal_struct ''MessageProbe'' set_MessageProbe v zero_MessageProbe"

definition marshal_MessageProbe :: "MessageProbe \<Rightarrow> json" where
  "marshal_MessageProbe p =
     JObj ([(''role'', JStr (MessageProbe.Role p)), (''id'', JStr (MessageProbe.ID p))]
           @ omitempty_string ''name'' (MessageProbe.Name p))"

definition wrap_validation :: "go_error \<Rightarrow> go_error" where
  \<comment> \<open>\<open>fmt.Errorf("%w: %v", ErrValidationFailed, err)\<close>\<close>
  "wrap_validation err = Errorf (Some ErrValidationFailed) (msg err) (cause err)"

definition marshal_failed :: "json_error \<Rightarrow> go_error" where
  \<comment> \<open>\<open>fmt.Errorf("%w: %v", ErrMarshalFailed, err)\<close>\<close>
  "marshal_failed err = Errorf (Some ErrMarshalFailed) [] (Some err)"

definition EncodeEvent :: "Event \<Rightarrow> (string option \<times> go_error option) outcome" where
  "EncodeEvent event =
     (case Event_Validate event of
        Panic \<Rightarrow> Panic
      | Return (Some err) \<Rightarrow> Return (None, Some (wrap_validation err))
      | Return None \<Rightarrow>
          (case json_Marshal_Event event of
             Inl err \<Rightarrow> Return (None, Some (marshal_failed err))
           | Inr data \<Rightarrow> Return (Some data, None)))"

definition EncodeMessage :: "Message \<Rightarrow> string option \<times> go_error option" where
  "EncodeMessage message =
     (case Message_Validate message of
        Some err \<Rightarrow> (None, Some (wrap_validation err))
      | None \<Rightarrow>
          (case json_Marshal_Message message of
             Inl err \<Rightarrow> (None, Some (marshal_failed err))
           | Inr data \<Rightarrow> (Some data, None)))"

definition unmarshal_failed :: "string \<Rightarrow> json_error \<Rightarrow> go_error" where
  \<comment> \<open>\<open>fmt.Errorf("%w: <name>: %v", ErrUnmarshalFailed, err)\<close>; the name is empty at the probe\<close>
  "unmarshal_failed tname err = Errorf (Some ErrUnmarshalFailed) tname (Some err)"

definition decode_event_as ::
  "string \<Rightarrow> (json \<Rightarrow> json_error + 'e) \<Rightarrow> ('e \<Rightarrow> Event) \<Rightarrow> string
   \<Rightarrow> (Event option \<times> go_error option) outcome"
where
  \<comment> \<open>one \<open>case\<close> of the switch of \<open>decodeEventFromProbe\<close>:
      \<open>var event T; if err := json.Unmarshal(data, &event); err != nil { return nil, ... };
       return &event, event.Validate()\<close>\<close>
  "decode_event_as tname into ptr data =
     (case json_Unmarshal into data of
        Inl err \<Rightarrow> Return (None, Some (unmarshal_failed tname err))
      | Inr event \<Rightarrow>
          (case Event_Validate (ptr event) of
             Panic \<Rightarrow> Panic
           | Return verr \<Rightarrow> Return (Some (ptr event), verr)))"

definition probe_marshal_failed :: "json_error \<Rightarrow> go_error" where
  \<comment> \<open>\<open>fmt.Errorf("%w: failed to marshal probe: %v", ErrUnmarshalFailed, err)\<close>\<close>
  "probe_marshal_failed err = Errorf (Some ErrUnmarshalFailed) ''failed to marshal probe'' (Some err)"

definition decodeEventFromProbe :: "EventProbe \<Rightarrow> (Event option \<times> go_error option) outcome" where
  "decodeEventFromProbe probe =
     (case (case EventProbe.RawData probe of
              Some raw \<Rightarrow> Inr raw
            | None \<Rightarrow> json_Marshal (marshal_EventProbe probe)) of
        Inl err \<Rightarrow> Return (None, Some (probe_marshal_failed err))
      | Inr data \<Rightarrow>
        if EventProbe.Type probe = EventTypeRunStarted then
          decode_event_as ''RunStartedEvent'' unmarshal_RunStartedEvent EvRunStarted data
        else if EventProbe.Type probe = EventTypeRunFinished then
          decode_event_as ''RunFinishedEvent'' unmarshal_RunFinishedEvent EvRunFinished data
        else if EventProbe.Type probe = EventTypeRunError then
          decode_event_as ''RunErrorEvent'' unmarshal_RunErrorEvent EvRunError data
        else if EventProbe.Type probe = EventTypeStepStarted then
          decode_event_as ''StepStartedEvent'' unmarshal_StepStartedEvent EvStepStarted data
        else if EventProbe.Type probe = EventTypeStepFinished then
          decode_event_as ''StepFinishedEvent'' unmarshal_StepFinishedEvent EvStepFinished data
        else if EventProbe.Type probe = EventTypeTextMessageStart then
          decode_event_as ''TextMessageStartEvent'' unmarshal_TextMessageStartEvent EvTextMessageStart data
        else if EventProbe.Type probe = EventTypeTextMessageContent then
          decode_event_as ''TextMessageContentEvent'' unmarshal_TextMessageContentEvent EvTextMessageContent data
        else if EventProbe.Type probe = EventTypeTextMessageEnd then
          decode_event_as ''TextMessageEndEvent'' unmarshal_TextMessageEndEvent EvTextMessageEnd data
        else if EventProbe.Type probe = EventTypeToolCallStart then
          decode_event_as ''ToolCallStartEvent'' unmarshal_ToolCallStartEvent EvToolCallStart data
        else if EventProbe.Type probe = EventTypeToolCallArgs then
          decode_event_as ''ToolCallArgsEvent'' unmarshal_ToolCallArgsEvent EvToolCallArgs data
        else if EventProbe.Type probe = EventTypeToolCallEnd then
          decode_event_as ''ToolCallEndEvent'' unmarshal_ToolCallEndEvent EvToolCallEnd data
        else if EventProbe.Type probe = EventTypeToolCallResult then
          decode_event_as ''ToolCallResultEvent'' unmarshal_ToolCallResultEvent EvToolCallResult data
        else if EventProbe.Type probe = EventTypeStateSnapshot then
          decode_event_as ''StateSnapshotEvent'' unmarshal_StateSnapshotEvent EvStateSnapshot data
        else if EventProbe.Type probe = EventTypeStateDelta then
          decode_event_as ''StateDeltaEvent'' unmarshal_StateDeltaEvent EvStateDelta data
        else if EventProbe.Type probe = EventTypeMessagesSnapshot then
          decode_event_as ''MessagesSnapshotEvent'' unmarshal_MessagesSnapshotEvent EvMessagesSnapshot data
        else if EventProbe.Type probe = EventTypeRaw then
          decode_event_as ''RawEvent'' unmarshal_RawEvent EvRaw data
        else if EventProbe.Type probe = EventTypeCustom then
          decode_event_as ''CustomEvent'' unmarshal_CustomEvent EvCustom data
        else
          Return (None, Some (Errorf (Some ErrInvalidEventType)
                                (''unknown event type: '' @ EventProbe.Type probe) None)))"

definition decode_message_as ::
  "string \<Rightarrow> (json \<Rightarrow> json_error + 'm) \<Rightarrow> ('m \<Rightarrow> Message) \<Rightarrow> string
   \<Rightarrow> Message option \<times> go_error option"
where
  \<comment> \<open>one \<open>case\<close> of the switch of \<open>decodeMessageFromProbe\<close>\<close>
  "decode_message_as tname into ptr data =
     (case json_Unmarshal into data of
        Inl err \<Rightarrow> (None, Some (unmarshal_failed tname err))
      | Inr message \<Rightarrow> (Some (ptr message), Message_Validate (ptr message)))"

definition decodeMessageFromProbe :: "MessageProbe \<Rightarrow> Message option \<times> go_error option" where
  "decodeMessageFromProbe probe =
     (case (case MessageProbe.RawData probe of
              Some raw \<Rightarrow> Inr raw
            | None \<Rightarrow> json_Marshal (marshal_MessageProbe probe)) of
        Inl err \<Rightarrow> (None, Some (probe_marshal_failed err))
      | Inr data \<Rightarrow>
        if MessageProbe.Role probe = RoleDeveloper then
          decode_message_as ''DeveloperMessage'' unmarshal_DeveloperMessage MsgDeveloper data
        else if MessageProbe.Role probe = RoleSystem then
          decode_message_as ''SystemMessage'' unmarshal_SystemMessage MsgSystem data
        else if MessageProbe.Role probe = RoleAssistant then
          decode_message_as ''AssistantMessage'' unmarshal_AssistantMessage MsgAssistant data
        else if MessageProbe.Role probe = RoleUser then
          decode_message_as ''UserMessage'' unmarshal_UserMessage MsgUser data
        else if MessageProbe.Role probe = RoleTool then
          decode_message_as ''ToolMessage'' unmarshal_ToolMessage MsgTool data
        else
          (None, Some (Errorf (Some ErrInvalidMessageType)
                         (''unknown message role: '' @ MessageProbe.Role probe) None)))"

definition DecodeEventFromBytes :: "string \<Rightarrow> (Event option \<times> go_error option) outcome" where
  "DecodeEventFromBytes data =
     (case json_Unmarshal unmarshal_EventProbe data of
        Inl err \<Rightarrow> Return (None, Some (unmarshal_failed [] err))
      | Inr probe \<Rightarrow> decodeEventFromProbe (probe\<lparr>EventProbe.RawData := Some data\<rparr>))"

definition DecodeMessageFromBytes :: "string \<Rightarrow> Message option \<times> go_error option" where
  "DecodeMessageFromBytes data =
     (case json_Unmarshal unmarshal_MessageProbe data of
        Inl err \<Rightarrow> (None, Some (unmarshal_failed [] err))
      | Inr probe \<Rightarrow> decodeMessageFromProbe (probe\<lparr>MessageProbe.RawData := Some data\<rparr>))"

subsection \<open>Reading successive values: \<open>json.Decoder\<close>\<close>

text \<open>
  The state of a \<open>json.Decoder\<close> is the text it has not read yet. \<open>Decode\<close> into a
  \<open>json.RawMessage\<close> skips white space and takes the bytes of the next value; at the end of
  the text it returns \<open>io.EOF\<close>. Its scanner is the one of \<open>json.Unmarshal\<close>, nesting limit
  included.
\<close>

datatype decode_step =
    DecEOF
  | DecError json_error
  | DecValue string string

definition Decoder_Decode :: "string \<Rightarrow> decode_step" where
  "Decoder_Decode src =
     (case skip_ws src of
        [] \<Rightarrow> DecEOF
      | c # cs \<Rightarrow>
          (case parse_value (Suc (length cs)) (c # cs) of
             None \<Rightarrow> DecError SyntaxError
           | Some (v, rest) \<Rightarrow>
               if json_depth v \<le> maxNestingDepth
               then DecValue (take (length (c # cs) - length rest) (c # cs)) rest
               else DecError SyntaxError))"

definition Decoder_DecodeEvent :: "string \<Rightarrow> (Event option \<times> go_error option) outcome \<times> string" where
  \<comment> \<open>the result, and the text left to the decoder\<close>
  "Decoder_DecodeEvent src =
     (case Decoder_Decode src of
        DecEOF \<Rightarrow> (Return (None, Some io_EOF), [])
      | DecError err \<Rightarrow> (Return (None, Some (unmarshal_failed [] err)), src)
      | DecValue rawData rest \<Rightarrow>
          (case json_Unmarshal unmarshal_EventProbe rawData of
             Inl err \<Rightarrow> (Return (None, Some (unmarshal_failed [] err)), rest)
           | Inr probe \<Rightarrow> (decodeEventFromProbe (probe\<lparr>EventProbe.RawData := Some rawData\<rparr>), rest)))"

definition Decoder_DecodeMessage :: "string \<Rightarrow> (Message option \<times> go_error option) \<times> string" where
  "Decoder_DecodeMessage src =
     (case Decoder_Decode src of
        DecEOF \<Rightarrow> ((None, Some io_EOF), [])
      | DecError err \<Rightarrow> ((None, Some (unmarshal_failed [] err)), src)
      | DecValue rawData rest \<Rightarrow>
          (case json_Unmarshal unmarshal_MessageProbe rawData of
             Inl err \<Rightarrow> ((None, Some (unmarshal_failed [] err)), rest)
           | Inr probe \<Rightarrow> (decodeMessageFromProbe (probe\<lparr>MessageProbe.RawData := Some rawData\<rparr>), rest)))"

subsection \<open>\<open>StreamDecoder.DecodeEvents\<close>\<close>

text \<open>
  The goroutine of \<open>DecodeEvents\<close> is the only sender on its two channels. Its run is
  described by what it sends, in order, on the event channel and on the error channel, and
  by how it ends: by returning, which closes both channels (the two deferred \<open>close\<close>), or
  by a panic. The consumer is taken to drain the event channel, so that no send blocks for
  ever. The loop is bounded by the length of the source: every turn that goes on has read
  at least one byte. \<open>None\<close> would mean that the bound was too small; it never is
  (\<open>DecodeEvents_total\<close> below).
\<close>

datatype stream_end = BothClosed | Crashed

record stream_run =
  events :: "Event option list"
  errs :: "go_error list"
  ending :: stream_end

definition stop_with :: "go_error list \<Rightarrow> stream_end \<Rightarrow> stream_run" where
  "stop_with es x = \<lparr>events = [], errs = es, ending = x\<rparr>"

definition deliver :: "Event option \<Rightarrow> stream_run \<Rightarrow> stream_run" where
  "deliver event run = run\<lparr>events := event # events run\<rparr>"

fun DecodeEvents_loop :: "nat \<Rightarrow> string \<Rightarrow> stream_run option" where
  "DecodeEvents_loop 0 src = None"
| "DecodeEvents_loop (Suc n) src =
     (case Decoder_Decode src of
        DecEOF \<Rightarrow> Some (stop_with [] BothClosed)
      | DecError err \<Rightarrow> Some (stop_with [unmarshal_failed [] err] BothClosed)
      | DecValue rawData rest \<Rightarrow>
          (case json_Unmarshal unmarshal_EventProbe rawData of
             Inl err \<Rightarrow> Some (stop_with [unmarshal_failed [] err] BothClosed)
           | Inr probe \<Rightarrow>
               (case decodeEventFromProbe (probe\<lparr>EventProbe.RawData := Some rawData\<rparr>) of
                  Panic \<Rightarrow> Some (stop_with [] Crashed)
                | Return (event, Some err) \<Rightarrow> Some (stop_with [err] BothClosed)
                | Return (event, None) \<Rightarrow> map_option (deliver event) (DecodeEvents_loop n rest))))"

definition DecodeEvents :: "string \<Rightarrow> stream_run option" where
  "DecodeEvents src = DecodeEvents_loop (Suc (length src)) src"

section \<open>Notions used in the proofs\<close>

text \<open>
  A number literal is the only JSON value whose end depends on the text after it:
  \<open>num_follow\<close> are the characters that could prolong one, and \<open>ext_ok v t\<close> says that
  the text \<open>t\<close> may follow the value \<open>v\<close> without changing where \<open>v\<close> ends. The three
  \<open>_local\<close> predicates say that a parse of \<open>s\<close> which leaves \<open>r\<close> has read a non-empty prefix
  \<open>p\<close> of \<open>s\<close>, and reads the same thing from \<open>p\<close> followed by any other text, with any
  bound not smaller than the length of \<open>p\<close>.
\<close>

definition num_follow :: "char \<Rightarrow> bool" where
  "num_follow c \<longleftrightarrow> isDigit c \<or> c = CHR ''.'' \<or> c = CHR ''e'' \<or> c = CHR ''E''"

definition ext_ok :: "json \<Rightarrow> string \<Rightarrow> bool" where
  "ext_ok v t \<longleftrightarrow> (case v of JNum lit \<Rightarrow> scan_number (lit @ t) = Some (lit, t) | _ \<Rightarrow> True)"

definition value_local :: "string \<Rightarrow> json \<Rightarrow> string \<Rightarrow> bool" where
  "value_local s v r \<longleftrightarrow>
     (\<exists>p. s = p @ r \<and> p \<noteq> [] \<and> \<not> isSpace (hd p) \<and> ext_ok v r
          \<and> (\<forall>t. t = [] \<or> \<not> num_follow (hd t) \<longrightarrow> ext_ok v t)
          \<and> (\<forall>m t. length p \<le> m \<longrightarrow> ext_ok v t \<longrightarrow> parse_value m (p @ t) = Some (v, t)))"

definition elements_local :: "string \<Rightarrow> json list \<Rightarrow> string \<Rightarrow> bool" where
  "elements_local s vs r \<longleftrightarrow>
     (\<exists>p. s = p @ r \<and> p \<noteq> [] \<and> \<not> isSpace (hd p)
          \<and> (\<forall>m t. length p \<le> m \<longrightarrow> parse_elements m (p @ t) = Some (vs, t)))"

definition members_local :: "string \<Rightarrow> (string \<times> json) list \<Rightarrow> string \<Rightarrow> bool" where
  "members_local s kvs r \<longleftrightarrow>
     (\<exists>p. s = p @ r \<and> p \<noteq> [] \<and> \<not> isSpace (hd p)
          \<and> (\<forall>m t. length p \<le> m \<longrightarrow> parse_members m (p @ t) = Some (kvs, t)))"

section \<open>Properties\<close>

subsection \<open>Basic facts\<close>

lemma json_parse_empty: "json_parse [] = None"
  by (simp add: json_parse_def skip_ws_def)

lemma json_parse_depth: "json_parse s = Some v \<Longrightarrow> json_depth v \<le> 10000"
  by (auto simp: json_parse_def maxNestingDepth_def split: option.splits if_splits)

text \<open>
  The largest \<open>float64\<close> is about \<open>1.7976931348623157e308\<close>; a literal overflows from
  half way to \<open>2^1024\<close> on, whatever its sign, and never by being small.
\<close>

lemma float64_overflow_examples:
  "\<not> float64_overflow ''1.7976931348623157e308''"
  "\<not> float64_overflow ''1.7976931348623158e308''"
  "float64_overflow ''1.7976931348623159e308''"
  "float64_overflow ''-1.7976931348623159E+308''"
  "float64_overflow ''17976931348623159'' = False"
  "float64_overflow ''0.00017976931348623159e312''"
  "float64_overflow ''1e400''"
  "\<not> float64_overflow ''1e-400''"
  "\<not> float64_overflow ''0e400''"
  "\<not> float64_overflow ''-0''"
  by code_simp+

subsection \<open>The parser reads a value from a prefix of the text\<close>

lemma skip_ws_append_stop:
  "skip_ws s = c # cs \<Longrightarrow> skip_ws (s @ t) = c # cs @ t"
  unfolding skip_ws_def
  by (induction s) (auto split: if_splits)

lemma skip_ws_split: "\<exists>w. s = w @ skip_ws s \<and> list_all isSpace w"
  unfolding skip_ws_def
  by (rule exI[of _ "takeWhile isSpace s"]) (auto simp: list_all_iff dest: set_takeWhileD)

lemma skip_ws_spaces: "list_all isSpace w \<Longrightarrow> skip_ws (w @ s) = skip_ws s"
  unfolding skip_ws_def by (induction w) auto

lemma skip_ws_hd: "skip_ws s = c # cs \<Longrightarrow> \<not> isSpace c"
  unfolding skip_ws_def using hd_dropWhile[of isSpace s] by auto

lemma scan_units_local:
  "scan_units s = Some (us, r) \<Longrightarrow> \<exists>p. s = p @ r \<and> p \<noteq> [] \<and> (\<forall>t. scan_units (p @ t) = Some (us, t))"
proof (induction s arbitrary: us r rule: scan_units.induct)
  case 1
  then show ?case by simp
next
  case (2 c cs)
  show ?case
  proof (cases "c = CHR 0x22")
    case True
    with 2(4) show ?thesis by (intro exI[of _ "[c]"]) auto
  next
    case nq: False
    show ?thesis
    proof (cases "c = CHR 0x5C")
      case bs: True
      show ?thesis
      proof (cases cs)
        case Nil
        with 2(4) nq bs show ?thesis by simp
      next
        case (Cons e cs')
        show ?thesis
        proof (cases "e = CHR ''u''")
          case u: True
          from 2(4) nq bs Cons u obtain h1 h2 h3 h4 rest where cs': "cs' = h1 # h2 # h3 # h4 # rest"
            by (auto split: list.splits)
          from 2(4) nq bs Cons u cs' obtain x where x: "getu4 [h1, h2, h3, h4] = Some x"
            by (auto split: option.splits)
          from 2(4) nq bs Cons u cs' x obtain us' where
            rec: "scan_units rest = Some (us', r)" and us: "us = Escaped x # us'"
            by (auto split: option.splits)
          from 2(1)[OF nq bs Cons u cs' refl refl refl x rec] obtain p where
            p: "rest = p @ r" "p \<noteq> []" "\<forall>t. scan_units (p @ t) = Some (us', t)" by blast
          show ?thesis
            by (intro exI[of _ "c # e # h1 # h2 # h3 # h4 # p"])
               (use p nq bs Cons u cs' x us in auto)
        next
          case nu: False
          from 2(4) nq bs Cons nu obtain x where x: "simple_escape e = Some x"
            by (auto split: option.splits)
          from 2(4) nq bs Cons nu x obtain us' where
            rec: "scan_units cs' = Some (us', r)" and us: "us = Byte x # us'"
            by (auto split: option.splits)
          from 2(2)[OF nq bs Cons nu x rec] obtain p where
            p: "cs' = p @ r" "p \<noteq> []" "\<forall>t. scan_units (p @ t) = Some (us', t)" by blast
          show ?thesis
            by (intro exI[of _ "c # e # p"]) (use p nq bs Cons nu x us in auto)
        qed
      qed
    next
      case nbs: False
      from 2(4) nq nbs have ctl: "\<not> c < CHR 0x20" by (auto split: if_splits)
      from 2(4) nq nbs ctl obtain us' where
        rec: "scan_units cs = Some (us', r)" and us: "us = Byte c # us'"
        by (auto split: option.splits)
      from 2(3)[OF nq nbs ctl rec] obtain p where
        p: "cs = p @ r" "p \<noteq> []" "\<forall>t. scan_units (p @ t) = Some (us', t)" by blast
      show ?thesis
        by (intro exI[of _ "c # p"]) (use p nq nbs ctl us in auto)
    qed
  qed
qed

lemma scan_string_local:
  "scan_string s = Some (str, r) \<Longrightarrow> \<exists>p. s = p @ r \<and> p \<noteq> [] \<and> (\<forall>t. scan_string (p @ t) = Some (str, t))"
  unfolding scan_string_def
  by (auto split: option.splits dest!: scan_units_local)

lemma takeWhile_stop:
  "list_all P ds \<Longrightarrow> t = [] \<or> \<not> P (hd t) \<Longrightarrow> takeWhile P (ds @ t) = ds"
  by (induction ds) (auto simp: takeWhile_eq_Nil_iff)

lemma dropWhile_stop:
  "list_all P ds \<Longrightarrow> t = [] \<or> \<not> P (hd t) \<Longrightarrow> dropWhile P (ds @ t) = t"
  by (induction ds) (auto simp: dropWhile_eq_self_iff)

lemma scan_digits_local:
  assumes "scan_digits s = Some (ds, r)"
  shows "s = ds @ r \<and> ds \<noteq> [] \<and> (\<forall>t. t = [] \<or> \<not> isDigit (hd t) \<longrightarrow> scan_digits (ds @ t) = Some (ds, t))"
proof -
  from assms have ds: "ds = takeWhile isDigit s" "r = dropWhile isDigit s" "ds \<noteq> []"
    by (auto simp: scan_digits_def split: if_splits)
  have all: "list_all isDigit ds" unfolding ds(1) by (auto simp: list_all_iff dest: set_takeWhileD)
  show ?thesis
    using ds all by (auto simp: scan_digits_def takeWhile_stop dropWhile_stop)
qed

lemma scan_int_part_local:
  assumes "scan_int_part s = Some (ip, r)"
  shows "s = ip @ r \<and> ip \<noteq> [] \<and> (\<forall>t. t = [] \<or> \<not> isDigit (hd t) \<longrightarrow> scan_int_part (ip @ t) = Some (ip, t))"
proof (cases s)
  case Nil
  with assms show ?thesis by (simp add: scan_int_part_def)
next
  case (Cons c cs)
  show ?thesis
  proof (cases "c = CHR ''0''")
    case True
    with assms Cons show ?thesis by (auto simp: scan_int_part_def)
  next
    case False
    with assms Cons have d: "isDigit c" and ip: "ip = c # takeWhile isDigit cs" and r: "r = dropWhile isDigit cs"
      by (auto simp: scan_int_part_def split: if_splits)
    have all: "list_all isDigit (takeWhile isDigit cs)"
      by (auto simp: list_all_iff dest: set_takeWhileD)
    show ?thesis
      using Cons False d ip r all
      by (auto simp: scan_int_part_def takeWhile_stop dropWhile_stop)
  qed
qed

lemma scan_frac_local:
  assumes "scan_frac s = Some (fr, r)"
  shows "s = fr @ r \<and> (fr \<noteq> [] \<longrightarrow> hd fr = CHR ''.'')
         \<and> (\<forall>t. t = [] \<or> (\<not> isDigit (hd t) \<and> hd t \<noteq> CHR ''.'') \<longrightarrow> scan_frac (fr @ t) = Some (fr, t))"
proof (cases s)
  case Nil
  with assms show ?thesis
    by (auto simp: scan_frac_def num_follow_def split: list.splits)
next
  case (Cons c cs)
  show ?thesis
  proof (cases "c = CHR ''.''")
    case True
    with assms Cons obtain ds where ds: "scan_digits cs = Some (ds, r)" and fr: "fr = c # ds"
      by (auto simp: scan_frac_def split: option.splits)
    from scan_digits_local[OF ds] show ?thesis
      using Cons True fr by (auto simp: scan_frac_def num_follow_def)
  next
    case False
    with assms Cons have "fr = []" "r = s" by (auto simp: scan_frac_def)
    then show ?thesis
      by (auto simp: scan_frac_def num_follow_def split: list.splits)
  qed
qed

lemma scan_exp_local:
  assumes "scan_exp s = Some (ex, r)"
  shows "s = ex @ r \<and> (ex \<noteq> [] \<longrightarrow> hd ex = CHR ''e'' \<or> hd ex = CHR ''E'')
         \<and> (\<forall>t. t = [] \<or> (\<not> isDigit (hd t) \<and> hd t \<noteq> CHR ''e'' \<and> hd t \<noteq> CHR ''E'') \<longrightarrow> scan_exp (ex @ t) = Some (ex, t))"
proof (cases s)
  case Nil
  with assms show ?thesis
    by (auto simp: scan_exp_def num_follow_def split: list.splits)
next
  case (Cons c cs)
  show ?thesis
  proof (cases "c = CHR ''e'' \<or> c = CHR ''E''")
    case True
    obtain sg r0 where sg: "scan_sign cs = (sg, r0)" by (cases "scan_sign cs")
    with assms Cons True obtain ds where ds: "scan_digits r0 = Some (ds, r)" and ex: "ex = c # sg @ ds"
      by (auto simp: scan_exp_def split: option.splits)
    from sg have cs: "cs = sg @ r0"
      by (auto simp: scan_sign_def split: list.splits if_splits)
    from scan_digits_local[OF ds] have r0: "r0 = ds @ r" "ds \<noteq> []"
      and dl: "\<forall>t. t = [] \<or> \<not> isDigit (hd t) \<longrightarrow> scan_digits (ds @ t) = Some (ds, t)" by auto
    have "hd ds \<in> set (takeWhile isDigit r0)"
      using ds r0(2) by (auto simp: scan_digits_def split: if_splits)
    then have dig: "isDigit (hd ds)"
      by (auto dest: set_takeWhileD)
    have nosign: "hd ds \<noteq> CHR ''+'' \<and> hd ds \<noteq> CHR ''-''"
      using dig by (auto simp: isDigit_def)
    have sign: "scan_sign (sg @ ds @ t) = (sg, ds @ t)" for t
      using sg r0 nosign by (cases ds) (auto simp: scan_sign_def split: list.splits if_splits)
    show ?thesis
      using Cons True ex cs r0 dl sign by (auto simp: scan_exp_def num_follow_def)
  next
    case False
    with assms Cons have "ex = []" "r = s" by (auto simp: scan_exp_def)
    then show ?thesis
      by (auto simp: scan_exp_def num_follow_def split: list.splits)
  qed
qed


lemma isDigit_simps [simp]:
  "\<not> isDigit (CHR ''.'')" "\<not> isDigit (CHR ''e'')" "\<not> isDigit (CHR ''E'')" "\<not> isDigit (CHR ''-'')"
  "\<not> isDigit (CHR ''+'')" "\<not> isDigit (CHR '','')" "\<not> isDigit (CHR '']'')" "\<not> isDigit (CHR ''}'')"
  "\<not> isDigit (CHR '' '')" "\<not> isDigit (CHR 0x09)" "\<not> isDigit (CHR 0x0A)" "\<not> isDigit (CHR 0x0D)"
  by (simp_all add: isDigit_def less_eq_char_def)

lemma scan_number_local:
  assumes "scan_number s = Some (lit, r)"
  shows "s = lit @ r \<and> lit \<noteq> []
         \<and> (\<forall>t. t = [] \<or> \<not> num_follow (hd t) \<longrightarrow> scan_number (lit @ t) = Some (lit, t))"
proof -
  obtain mi s1 where mi: "(case s of [] \<Rightarrow> ([], s) | c # cs \<Rightarrow> if c = CHR ''-'' then ([c], cs) else ([], s)) = (mi, s1)"
    by (cases "(case s of [] \<Rightarrow> ([], s) | c # cs \<Rightarrow> if c = CHR ''-'' then ([c], cs) else ([], s))")
  from assms mi obtain ip s2 where ip: "scan_int_part s1 = Some (ip, s2)"
    by (auto simp: scan_number_def split: option.splits)
  from assms mi ip obtain fr s3 where fr: "scan_frac s2 = Some (fr, s3)"
    by (auto simp: scan_number_def split: option.splits)
  from assms mi ip fr obtain ex where ex: "scan_exp s3 = Some (ex, r)" and lit: "lit = mi @ ip @ fr @ ex"
    by (auto simp: scan_number_def split: option.splits)
  note I = scan_int_part_local[OF ip] and F = scan_frac_local[OF fr] and E = scan_exp_local[OF ex]
  from mi have s: "s = mi @ s1" and mi': "mi = [] \<or> mi = [CHR ''-'']"
    and nomi: "mi = [] \<Longrightarrow> s1 = [] \<or> hd s1 \<noteq> CHR ''-''"
    by (auto split: list.splits if_splits)
  have hdip: "hd ip \<noteq> CHR ''-''"
    using ip by (auto simp: scan_int_part_def split: list.splits if_splits)
  have split: "s = lit @ r" "lit \<noteq> []"
    using s I F E lit by auto
  have ext: "scan_number (lit @ t) = Some (lit, t)" if t: "t = [] \<or> \<not> num_follow (hd t)" for t
  proof -
    have e: "scan_exp (ex @ t) = Some (ex, t)"
      using E t by (auto simp: num_follow_def)
    have f: "scan_frac (fr @ ex @ t) = Some (fr, ex @ t)"
    proof (cases "ex = []")
      case True
      then show ?thesis using F t by (auto simp: num_follow_def)
    next
      case False
      then have "hd (ex @ t) = CHR ''e'' \<or> hd (ex @ t) = CHR ''E''" using E by auto
      then show ?thesis using F False by auto
    qed
    have i: "scan_int_part (ip @ fr @ ex @ t) = Some (ip, fr @ ex @ t)"
    proof (cases "fr = []")
      case frn: True
      show ?thesis
      proof (cases "ex = []")
        case True
        then show ?thesis using I frn t by (auto simp: num_follow_def)
      next
        case False
        then have "hd (ex @ t) = CHR ''e'' \<or> hd (ex @ t) = CHR ''E''" using E by auto
        then show ?thesis using I frn False by auto
      qed
    next
      case False
      then have "hd (fr @ ex @ t) = CHR ''.''" using F by auto
      then show ?thesis using I False by auto
    qed
    have m: "(case lit @ t of [] \<Rightarrow> ([], lit @ t) | c # cs \<Rightarrow> if c = CHR ''-'' then ([c], cs) else ([], lit @ t))
             = (mi, ip @ fr @ ex @ t)"
      using mi' lit I hdip by (cases ip) (auto)
    show ?thesis
      unfolding scan_number_def m using i f e lit by simp
  qed
  show ?thesis using split ext by blast
qed

lemma skip_ws_Cons_split:
  assumes "skip_ws s = d # ds"
  shows "\<exists>w. s = w @ d # ds \<and> list_all isSpace w \<and> \<not> isSpace d"
  using skip_ws_split[of s] skip_ws_hd[OF assms] assms by auto

lemma skip_ws_pass:
  "list_all isSpace w \<Longrightarrow> \<not> isSpace d \<Longrightarrow> skip_ws (w @ d # x) = d # x"
  by (simp add: skip_ws_spaces) (simp add: skip_ws_def)

lemma skip_ws_pass_hd:
  "list_all isSpace w \<Longrightarrow> p \<noteq> [] \<Longrightarrow> \<not> isSpace (hd p) \<Longrightarrow> skip_ws (w @ p @ x) = p @ x"
  by (cases p) (auto simp: skip_ws_pass)

lemma not_follow_space: "isSpace c \<Longrightarrow> \<not> num_follow c"
  by (auto simp: isSpace_def num_follow_def)

lemma delim_not_follow:
  assumes "list_all isSpace w" "d = CHR '','' \<or> d = CHR '']'' \<or> d = CHR ''}''"
  shows "w @ d # x = [] \<or> \<not> num_follow (hd (w @ d # x))"
proof (cases w)
  case Nil
  with assms show ?thesis by (auto simp: num_follow_def)
next
  case (Cons a w')
  with assms have "isSpace a" by simp
  with Cons show ?thesis by (auto dest: not_follow_space)
qed

lemma isSpace_simps [simp]:
  "\<not> isSpace (CHR ''{'')" "\<not> isSpace (CHR ''['')" "\<not> isSpace (CHR 0x22)" "\<not> isSpace (CHR '','')"
  "\<not> isSpace (CHR '']'')" "\<not> isSpace (CHR ''}'')" "\<not> isSpace (CHR '':'')" "\<not> isSpace (CHR ''t'')"
  "\<not> isSpace (CHR ''f'')" "\<not> isSpace (CHR ''n'')" "\<not> isSpace (CHR ''-'')"
  by (simp_all add: isSpace_def)

lemma isDigit_not_space: "isDigit c \<Longrightarrow> \<not> isSpace c"
  by (auto simp: isDigit_def isSpace_def less_eq_char_def)

lemma parse_elements_step:
  assumes IHv: "\<And>s v r. parse_value n s = Some (v, r) \<Longrightarrow> value_local s v r"
      and IHe: "\<And>s vs r. parse_elements n s = Some (vs, r) \<Longrightarrow> elements_local s vs r"
      and a: "parse_elements (Suc n) s = Some (vs, r)"
  shows "elements_local s vs r"
proof -
  from a obtain v r1 where v: "parse_value n s = Some (v, r1)"
    by (auto split: option.splits)
  from a v obtain d ds where d: "skip_ws r1 = d # ds"
    by (auto split: option.splits list.splits)
  from skip_ws_Cons_split[OF d] obtain w where w: "r1 = w @ d # ds" "list_all isSpace w" "\<not> isSpace d"
    by blast
  from IHv[OF v] obtain p1 where p1: "s = p1 @ r1" "p1 \<noteq> []" "\<not> isSpace (hd p1)"
    and k1: "\<And>t. t = [] \<or> \<not> num_follow (hd t) \<Longrightarrow> ext_ok v t"
    and e1: "\<And>m t. length p1 \<le> m \<Longrightarrow> ext_ok v t \<Longrightarrow> parse_value m (p1 @ t) = Some (v, t)"
    unfolding value_local_def by blast
  show ?thesis
  proof (cases "d = CHR '']''")
    case True
    with a v d have res: "vs = [v]" "r = ds" by auto
    have "parse_elements m ((p1 @ w @ [d]) @ t) = Some (vs, t)" if "length (p1 @ w @ [d]) \<le> m" for m t
    proof -
      from that obtain m' where m: "m = Suc m'" "length p1 \<le> m'" by (cases m) auto
      have "parse_value m' (p1 @ (w @ d # t)) = Some (v, w @ d # t)"
        using e1[OF m(2)] k1[OF delim_not_follow[OF w(2), of d]] True by blast
      then show ?thesis
        using m True res skip_ws_pass[OF w(2,3)] by simp
    qed
    then show ?thesis
      unfolding elements_local_def using p1 w res by (intro exI[of _ "p1 @ w @ [d]"]) auto
  next
    case False
    with a v d have comma: "d = CHR '',''" by (auto split: if_splits)
    from a v d False comma obtain vs' where rec: "parse_elements n (skip_ws ds) = Some (vs', r)"
      and res: "vs = v # vs'"
      by (auto split: option.splits)
    from IHe[OF rec] obtain p2 where p2: "skip_ws ds = p2 @ r" "p2 \<noteq> []" "\<not> isSpace (hd p2)"
      and e2: "\<And>m t. length p2 \<le> m \<Longrightarrow> parse_elements m (p2 @ t) = Some (vs', t)"
      unfolding elements_local_def by blast
    from skip_ws_split[of ds] obtain w2 where w2: "ds = w2 @ skip_ws ds" "list_all isSpace w2"
      by blast
    have "parse_elements m ((p1 @ w @ d # w2 @ p2) @ t) = Some (vs, t)" if "length (p1 @ w @ d # w2 @ p2) \<le> m" for m t
    proof -
      from that obtain m' where m: "m = Suc m'" "length p1 \<le> m'" "length p2 \<le> m'" by (cases m) auto
      have "parse_value m' (p1 @ (w @ d # w2 @ p2 @ t)) = Some (v, w @ d # w2 @ p2 @ t)"
        using e1[OF m(2)] k1[OF delim_not_follow[OF w(2), of d]] comma by blast
      then show ?thesis
        using m comma res skip_ws_pass[OF w(2,3)] skip_ws_pass_hd[OF w2(2) p2(2,3)] e2[OF m(3)]
        by simp
    qed
    moreover have "s = (p1 @ w @ d # w2 @ p2) @ r"
      using p1 w w2 p2 by simp
    ultimately show ?thesis
      unfolding elements_local_def using p1 by (intro exI[of _ "p1 @ w @ d # w2 @ p2"]) auto
  qed
qed

lemma parse_members_step:
  assumes IHv: "\<And>s v r. parse_value n s = Some (v, r) \<Longrightarrow> value_local s v r"
      and IHm: "\<And>s kvs r. parse_members n s = Some (kvs, r) \<Longrightarrow> members_local s kvs r"
      and a: "parse_members (Suc n) s = Some (kvs, r)"
  shows "members_local s kvs r"
proof -
  from a obtain cs where s: "s = CHR 0x22 # cs"
    by (cases s) (auto split: if_splits)
  from a s obtain k r0 where k: "scan_string cs = Some (k, r0)"
    by (auto split: option.splits)
  from scan_string_local[OF k] obtain pk where pk: "cs = pk @ r0" "pk \<noteq> []"
    and ek: "\<And>t. scan_string (pk @ t) = Some (k, t)" by blast
  from a s k obtain co r1 where co: "skip_ws r0 = co # r1"
    by (auto split: list.splits)
  from a s k co have colon: "co = CHR '':''" by (auto split: if_splits)
  from skip_ws_Cons_split[OF co] obtain w0 where w0: "r0 = w0 @ co # r1" "list_all isSpace w0" "\<not> isSpace co"
    by blast
  from a s k co colon obtain v r2 where v: "parse_value n (skip_ws r1) = Some (v, r2)"
    by (auto split: option.splits)
  from IHv[OF v] obtain pv where pv: "skip_ws r1 = pv @ r2" "pv \<noteq> []" "\<not> isSpace (hd pv)"
    and kv: "\<And>t. t = [] \<or> \<not> num_follow (hd t) \<Longrightarrow> ext_ok v t"
    and ev: "\<And>m t. length pv \<le> m \<Longrightarrow> ext_ok v t \<Longrightarrow> parse_value m (pv @ t) = Some (v, t)"
    unfolding value_local_def by blast
  from skip_ws_split[of r1] obtain w1 where w1: "r1 = w1 @ skip_ws r1" "list_all isSpace w1"
    by blast
  from a s k co colon v obtain d ds where d: "skip_ws r2 = d # ds"
    by (auto split: list.splits)
  from skip_ws_Cons_split[OF d] obtain w2 where w2: "r2 = w2 @ d # ds" "list_all isSpace w2" "\<not> isSpace d"
    by blast
  let ?pre = "CHR 0x22 # pk @ w0 @ co # w1 @ pv @ w2 @ [d]"
  have pre: "s = (CHR 0x22 # pk @ w0 @ co # w1 @ pv) @ r2"
    using s pk w0 w1 pv by simp
  have head: "parse_value m' (skip_ws (w1 @ pv @ w2 @ d # x)) = Some (v, w2 @ d # x)"
    if "length pv \<le> m'" "d = CHR '','' \<or> d = CHR ''}''" for m' x
    using ev[OF that(1)] kv[OF delim_not_follow[OF w2(2), of d]] that(2) skip_ws_pass_hd[OF w1(2) pv(2,3)]
    by auto
  show ?thesis
  proof (cases "d = CHR ''}''")
    case True
    with a s k co colon v d have res: "kvs = [(k, v)]" "r = ds" by auto
    have "parse_members m (?pre @ t) = Some (kvs, t)" if "length ?pre \<le> m" for m t
    proof -
      from that obtain m' where m: "m = Suc m'" "length pv \<le> m'" by (cases m) auto
      show ?thesis
        using m True res colon ek[of "w0 @ co # w1 @ pv @ w2 @ d # t"]
          skip_ws_pass[OF w0(2,3)] head[OF m(2), of t] skip_ws_pass[OF w2(2,3)]
        by simp
    qed
    moreover have "s = ?pre @ r" using pre w2 res by simp
    ultimately show ?thesis
      unfolding members_local_def by (intro exI[of _ ?pre]) auto
  next
    case False
    with a s k co colon v d have comma: "d = CHR '',''" by (auto split: if_splits)
    from a s k co colon v d False comma obtain kvs' where
      rec: "parse_members n (skip_ws ds) = Some (kvs', r)" and res: "kvs = (k, v) # kvs'"
      by (auto split: option.splits)
    from IHm[OF rec] obtain p3 where p3: "skip_ws ds = p3 @ r" "p3 \<noteq> []" "\<not> isSpace (hd p3)"
      and e3: "\<And>m t. length p3 \<le> m \<Longrightarrow> parse_members m (p3 @ t) = Some (kvs', t)"
      unfolding members_local_def by blast
    from skip_ws_split[of ds] obtain w3 where w3: "ds = w3 @ skip_ws ds" "list_all isSpace w3"
      by blast
    let ?p = "CHR 0x22 # pk @ w0 @ co # w1 @ pv @ w2 @ d # w3 @ p3"
    have "parse_members m (?p @ t) = Some (kvs, t)" if "length ?p \<le> m" for m t
    proof -
      from that obtain m' where m: "m = Suc m'" "length pv \<le> m'" "length p3 \<le> m'" by (cases m) auto
      show ?thesis
        using m comma res colon ek[of "w0 @ co # w1 @ pv @ w2 @ d # w3 @ p3 @ t"]
          skip_ws_pass[OF w0(2,3)] head[OF m(2), of "w3 @ p3 @ t"] skip_ws_pass[OF w2(2,3)]
          skip_ws_pass_hd[OF w3(2) p3(2,3)] e3[OF m(3)]
        by simp
    qed
    moreover have "s = ?p @ r" using pre w2 w3 p3 by simp
    ultimately show ?thesis
      unfolding members_local_def by (intro exI[of _ ?p]) auto
  qed
qed

lemma scan_literal_local:
  assumes "scan_literal lit v0 s = Some (v, r)"
  shows "s = lit @ r \<and> v = v0 \<and> (\<forall>t. scan_literal lit v0 (lit @ t) = Some (v0, t))"
proof -
  from assms have t: "take (length lit) s = lit" and v: "v = v0" and r: "r = drop (length lit) s"
    by (auto simp: scan_literal_def split: if_splits)
  have "s = lit @ r" using append_take_drop_id[of "length lit" s] t r by simp
  then show ?thesis using v by (simp add: scan_literal_def)
qed

lemma pv_obj:
  "parse_value (Suc n) (CHR ''{'' # cs) =
     (case skip_ws cs of
        [] \<Rightarrow> None
      | d # ds \<Rightarrow>
          if d = CHR ''}'' then Some (JObj [], ds)
          else (case parse_members n (d # ds) of
                  None \<Rightarrow> None
                | Some (kvs, r) \<Rightarrow> Some (JObj kvs, r)))"
  by simp

lemma pv_arr:
  "parse_value (Suc n) (CHR ''['' # cs) =
     (case skip_ws cs of
        [] \<Rightarrow> None
      | d # ds \<Rightarrow>
          if d = CHR '']'' then Some (JArr [], ds)
          else (case parse_elements n (d # ds) of
                  None \<Rightarrow> None
                | Some (vs, r) \<Rightarrow> Some (JArr vs, r)))"
  by simp

lemma pv_str:
  "parse_value (Suc n) (CHR 0x22 # cs) =
     (case scan_string cs of None \<Rightarrow> None | Some (str, r) \<Rightarrow> Some (JStr str, r))"
  by simp

lemma pv_true: "parse_value (Suc n) (CHR ''t'' # cs) = scan_literal ''true'' (JBool True) (CHR ''t'' # cs)"
  by simp

lemma pv_false: "parse_value (Suc n) (CHR ''f'' # cs) = scan_literal ''false'' (JBool False) (CHR ''f'' # cs)"
  by simp

lemma pv_null: "parse_value (Suc n) (CHR ''n'' # cs) = scan_literal ''null'' JNull (CHR ''n'' # cs)"
  by simp

lemma digit_not_special:
  assumes "c = CHR ''-'' \<or> isDigit c"
  shows "c \<noteq> CHR ''{'' \<and> c \<noteq> CHR ''['' \<and> c \<noteq> CHR 0x22 \<and> c \<noteq> CHR ''t'' \<and> c \<noteq> CHR ''f'' \<and> c \<noteq> CHR ''n''"
  using assms by (auto simp: isDigit_def less_eq_char_def)

lemma pv_num:
  assumes "c = CHR ''-'' \<or> isDigit c"
  shows "parse_value (Suc n) (c # cs) =
     (case scan_number (c # cs) of None \<Rightarrow> None | Some (lit, r) \<Rightarrow> Some (JNum lit, r))"
  using assms digit_not_special[OF assms] by simp

lemma pv_cases:
  assumes "parse_value (Suc n) (c # cs) = Some (v, r)"
  shows "c = CHR ''{'' \<or> c = CHR ''['' \<or> c = CHR 0x22 \<or> c = CHR ''t'' \<or> c = CHR ''f'' \<or> c = CHR ''n''
         \<or> c = CHR ''-'' \<or> isDigit c"
proof (rule ccontr)
  assume "\<not> ?thesis"
  then have "parse_value (Suc n) (c # cs) = None" by simp
  with assms show False by simp
qed

declare parse_value.simps(3) [simp del]

lemma pv_step_obj:
  assumes IHm: "\<And>s kvs r. parse_members n s = Some (kvs, r) \<Longrightarrow> members_local s kvs r"
      and a: "parse_value (Suc n) (CHR ''{'' # cs) = Some (v, r)"
  shows "value_local (CHR ''{'' # cs) v r"
proof -
  note a' = a[unfolded pv_obj]
  from a' obtain d ds where d: "skip_ws cs = d # ds"
    by (auto split: list.splits)
  from skip_ws_Cons_split[OF d] obtain w where w: "cs = w @ d # ds" "list_all isSpace w" "\<not> isSpace d"
    by blast
  show ?thesis
  proof (cases "d = CHR ''}''")
    case True
    with a' d have res: "v = JObj []" "r = ds" by auto
    have "parse_value m ((CHR ''{'' # w @ [d]) @ t) = Some (v, t)" if "length (CHR ''{'' # w @ [d]) \<le> m" for m t
    proof -
      from that obtain m' where m: "m = Suc m'" by (cases m) auto
      show ?thesis using True res skip_ws_pass[OF w(2,3), of t] unfolding m by (simp add: pv_obj)
    qed
    then show ?thesis
      unfolding value_local_def using w res by (intro exI[of _ "CHR ''{'' # w @ [d]"]) (auto simp: ext_ok_def)
  next
    case False
    with a' d obtain kvs where rec: "parse_members n (d # ds) = Some (kvs, r)" and res: "v = JObj kvs"
      by (auto split: option.splits)
    from IHm[OF rec] obtain p where p: "d # ds = p @ r" "p \<noteq> []"
      and e: "\<And>m t. length p \<le> m \<Longrightarrow> parse_members m (p @ t) = Some (kvs, t)"
      unfolding members_local_def by blast
    from p obtain p' where p': "p = d # p'" by (cases p) auto
    have "parse_value m ((CHR ''{'' # w @ p) @ t) = Some (v, t)" if "length (CHR ''{'' # w @ p) \<le> m" for m t
    proof -
      from that obtain m' where m: "m = Suc m'" "length p \<le> m'" by (cases m) auto
      show ?thesis
        using False res p' skip_ws_pass[OF w(2,3), of "p' @ t"] e[OF m(2), of t] unfolding m(1)
        by (simp add: pv_obj)
    qed
    then show ?thesis
      unfolding value_local_def using w p res by (intro exI[of _ "CHR ''{'' # w @ p"]) (auto simp: ext_ok_def)
  qed
qed

lemma pv_step_arr:
  assumes IHe: "\<And>s vs r. parse_elements n s = Some (vs, r) \<Longrightarrow> elements_local s vs r"
      and a: "parse_value (Suc n) (CHR ''['' # cs) = Some (v, r)"
  shows "value_local (CHR ''['' # cs) v r"
proof -
  note a' = a[unfolded pv_arr]
  from a' obtain d ds where d: "skip_ws cs = d # ds"
    by (auto split: list.splits)
  from skip_ws_Cons_split[OF d] obtain w where w: "cs = w @ d # ds" "list_all isSpace w" "\<not> isSpace d"
    by blast
  show ?thesis
  proof (cases "d = CHR '']''")
    case True
    with a' d have res: "v = JArr []" "r = ds" by auto
    have "parse_value m ((CHR ''['' # w @ [d]) @ t) = Some (v, t)" if "length (CHR ''['' # w @ [d]) \<le> m" for m t
    proof -
      from that obtain m' where m: "m = Suc m'" by (cases m) auto
      show ?thesis using True res skip_ws_pass[OF w(2,3), of t] unfolding m by (simp add: pv_arr)
    qed
    then show ?thesis
      unfolding value_local_def using w res by (intro exI[of _ "CHR ''['' # w @ [d]"]) (auto simp: ext_ok_def)
  next
    case False
    with a' d obtain vs where rec: "parse_elements n (d # ds) = Some (vs, r)" and res: "v = JArr vs"
      by (auto split: option.splits)
    from IHe[OF rec] obtain p where p: "d # ds = p @ r" "p \<noteq> []"
      and e: "\<And>m t. length p \<le> m \<Longrightarrow> parse_elements m (p @ t) = Some (vs, t)"
      unfolding elements_local_def by blast
    from p obtain p' where p': "p = d # p'" by (cases p) auto
    have "parse_value m ((CHR ''['' # w @ p) @ t) = Some (v, t)" if "length (CHR ''['' # w @ p) \<le> m" for m t
    proof -
      from that obtain m' where m: "m = Suc m'" "length p \<le> m'" by (cases m) auto
      show ?thesis
        using False res p' skip_ws_pass[OF w(2,3), of "p' @ t"] e[OF m(2), of t] unfolding m(1)
        by (simp add: pv_arr)
    qed
    then show ?thesis
      unfolding value_local_def using w p res by (intro exI[of _ "CHR ''['' # w @ p"]) (auto simp: ext_ok_def)
  qed
qed

lemma pv_step_str:
  assumes a: "parse_value (Suc n) (CHR 0x22 # cs) = Some (v, r)"
  shows "value_local (CHR 0x22 # cs) v r"
proof -
  note a' = a[unfolded pv_str]
  from a' obtain x where x: "scan_string cs = Some (x, r)" and res: "v = JStr x"
    by (auto split: option.splits)
  from scan_string_local[OF x] obtain p where p: "cs = p @ r"
    and e: "\<And>t. scan_string (p @ t) = Some (x, t)" by blast
  have "parse_value m ((CHR 0x22 # p) @ t) = Some (v, t)" if "length (CHR 0x22 # p) \<le> m" for m t
  proof -
    from that obtain m' where m: "m = Suc m'" by (cases m) auto
    show ?thesis using res e[of t] unfolding m by (simp add: pv_str)
  qed
  then show ?thesis
    unfolding value_local_def using p res by (intro exI[of _ "CHR 0x22 # p"]) (auto simp: ext_ok_def)
qed

lemma pv_step_lit:
  assumes unf: "\<And>k cs. parse_value (Suc k) (c # cs) = scan_literal (c # lit) v0 (c # cs)"
      and nsp: "\<not> isSpace c"
      and ok: "\<And>t. ext_ok v0 t"
      and a: "parse_value (Suc n) (c # cs) = Some (v, r)"
  shows "value_local (c # cs) v r"
proof -
  from a have l: "scan_literal (c # lit) v0 (c # cs) = Some (v, r)" by (simp add: unf)
  from scan_literal_local[OF l] have sp: "c # cs = (c # lit) @ r" "v = v0"
    and e: "\<And>t. scan_literal (c # lit) v0 ((c # lit) @ t) = Some (v0, t)" by auto
  have "parse_value m ((c # lit) @ t) = Some (v, t)" if "length (c # lit) \<le> m" for m t
  proof -
    from that obtain m' where m: "m = Suc m'" by (cases m) auto
    show ?thesis using sp(2) e[of t] unfolding m by (simp add: unf)
  qed
  then show ?thesis
    unfolding value_local_def using sp nsp ok by (intro exI[of _ "c # lit"]) auto
qed

lemma pv_step_num:
  assumes c: "c = CHR ''-'' \<or> isDigit c"
      and a: "parse_value (Suc n) (c # cs) = Some (v, r)"
  shows "value_local (c # cs) v r"
proof -
  note a' = a[unfolded pv_num[OF c]]
  from a' obtain lit where n: "scan_number (c # cs) = Some (lit, r)" and res: "v = JNum lit"
    by (auto split: option.splits)
  from scan_number_local[OF n] have sp: "c # cs = lit @ r" "lit \<noteq> []"
    and e: "\<And>t. t = [] \<or> \<not> num_follow (hd t) \<Longrightarrow> scan_number (lit @ t) = Some (lit, t)" by auto
  from sp obtain lit' where lit: "lit = c # lit'" by (cases lit) auto
  have nsp: "\<not> isSpace c" using c by (auto dest: isDigit_not_space)
  have "parse_value m (lit @ t) = Some (v, t)" if "length lit \<le> m" "ext_ok v t" for m t
  proof -
    from that lit obtain m' where m: "m = Suc m'" by (cases m) auto
    from that(2) res have "scan_number (lit @ t) = Some (lit, t)" by (simp add: ext_ok_def)
    then show ?thesis using res unfolding m lit by (simp add: pv_num[OF c])
  qed
  moreover have "ext_ok v r" using n sp res by (simp add: ext_ok_def)
  moreover have "ext_ok v t" if "t = [] \<or> \<not> num_follow (hd t)" for t
    using e[OF that] res by (simp add: ext_ok_def)
  ultimately show ?thesis
    unfolding value_local_def using sp lit nsp by (intro exI[of _ lit]) auto
qed

lemma parse_value_step:
  assumes IHe: "\<And>s vs r. parse_elements n s = Some (vs, r) \<Longrightarrow> elements_local s vs r"
      and IHm: "\<And>s kvs r. parse_members n s = Some (kvs, r) \<Longrightarrow> members_local s kvs r"
      and a: "parse_value (Suc n) s = Some (v, r)"
  shows "value_local s v r"
proof -
  from a obtain c cs where s: "s = c # cs" by (cases s) auto
  from pv_cases[OF a[unfolded s]]
  consider (obj) "c = CHR ''{''" | (arr) "c = CHR ''[''" | (str) "c = CHR 0x22"
    | (tr) "c = CHR ''t''" | (fa) "c = CHR ''f''" | (nu) "c = CHR ''n''"
    | (num) "c = CHR ''-'' \<or> isDigit c"
    by blast
  then show ?thesis
  proof cases
    case obj
    then show ?thesis using pv_step_obj[OF IHm] a s by simp
  next
    case arr
    then show ?thesis using pv_step_arr[OF IHe] a s by simp
  next
    case str
    then show ?thesis using pv_step_str a s by simp
  next
    case tr
    show ?thesis
      using pv_step_lit[of "CHR ''t''" "''rue''" "JBool True" n cs v r] pv_true a s tr by (simp add: ext_ok_def)
  next
    case fa
    show ?thesis
      using pv_step_lit[of "CHR ''f''" "''alse''" "JBool False" n cs v r] pv_false a s fa by (simp add: ext_ok_def)
  next
    case nu
    show ?thesis
      using pv_step_lit[of "CHR ''n''" "''ull''" "JNull" n cs v r] pv_null a s nu by (simp add: ext_ok_def)
  next
    case num
    then show ?thesis using pv_step_num a s by simp
  qed
qed

lemma parse_local:
  "(\<forall>s v r. parse_value n s = Some (v, r) \<longrightarrow> value_local s v r)
   \<and> (\<forall>s vs r. parse_elements n s = Some (vs, r) \<longrightarrow> elements_local s vs r)
   \<and> (\<forall>s kvs r. parse_members n s = Some (kvs, r) \<longrightarrow> members_local s kvs r)"
proof (induction n)
  case 0
  show ?case by simp
next
  case (Suc n)
  show ?case
    using parse_value_step[of n] parse_elements_step[of n] parse_members_step[of n] Suc
    by blast
qed

lemma parse_value_local:
  assumes "parse_value n s = Some (v, r)"
  shows "\<exists>p. s = p @ r \<and> p \<noteq> [] \<and> \<not> isSpace (hd p) \<and> ext_ok v r
          \<and> (\<forall>t. t = [] \<or> \<not> num_follow (hd t) \<longrightarrow> ext_ok v t)
          \<and> (\<forall>m t. length p \<le> m \<longrightarrow> ext_ok v t \<longrightarrow> parse_value m (p @ t) = Some (v, t))"
  using parse_local[of n] assms unfolding value_local_def by blast



lemma parse_value_bound_free:
  assumes "parse_value m s = Some (v, r)" "length s \<le> n"
  shows "parse_value n s = Some (v, r)"
proof -
  from parse_value_local[OF assms(1)] obtain p where
    p: "s = p @ r" "ext_ok v r"
       "\<forall>m t. length p \<le> m \<longrightarrow> ext_ok v t \<longrightarrow> parse_value m (p @ t) = Some (v, t)"
    by blast
  from p(1) assms(2) have "length p \<le> n" by simp
  with p show ?thesis by blast
qed

lemma parse_value_shorter:
  assumes "parse_value m s = Some (v, r)"
  shows "length r < length s"
  using parse_value_local[OF assms] by auto

subsection \<open>Reading one value off a stream\<close>

lemma skip_ws_Nil_spaces: "skip_ws r = [] \<Longrightarrow> list_all isSpace r"
  unfolding skip_ws_def by (auto simp: dropWhile_eq_Nil_conv list_all_iff)

lemma spaces_skip_ws_Nil: "list_all isSpace r \<Longrightarrow> skip_ws r = []"
  unfolding skip_ws_def by (auto simp: dropWhile_eq_Nil_conv list_all_iff)

lemma json_parse_split:
  assumes "json_parse g = Some v"
  shows "\<exists>w p w'. g = w @ p @ w' \<and> list_all isSpace w \<and> list_all isSpace w' \<and> p \<noteq> []
           \<and> \<not> isSpace (hd p) \<and> ext_ok v [] \<and> json_depth v \<le> maxNestingDepth
           \<and> (\<forall>m t. length p \<le> m \<longrightarrow> ext_ok v t \<longrightarrow> parse_value m (p @ t) = Some (v, t))"
proof -
  from assms obtain r where pv: "parse_value (Suc (length g)) (skip_ws g) = Some (v, r)"
    and r: "skip_ws r = []" and dp: "json_depth v \<le> maxNestingDepth"
    by (auto simp: json_parse_def split: option.splits if_splits)
  from parse_value_local[OF pv] obtain p where p: "skip_ws g = p @ r" "p \<noteq> []" "\<not> isSpace (hd p)"
    "ext_ok v []"
    "\<forall>m t. length p \<le> m \<longrightarrow> ext_ok v t \<longrightarrow> parse_value m (p @ t) = Some (v, t)"
    by blast
  from skip_ws_split[of g] obtain w where w: "g = w @ skip_ws g" "list_all isSpace w" by blast
  show ?thesis
    using p w dp skip_ws_Nil_spaces[OF r]
    by (intro exI[of _ w] exI[of _ p] exI[of _ r]) auto
qed

lemma json_parse_raw:
  assumes "p \<noteq> []" "\<not> isSpace (hd p)" "ext_ok v []" "json_depth v \<le> maxNestingDepth"
    and "\<forall>m t. length p \<le> m \<longrightarrow> ext_ok v t \<longrightarrow> parse_value m (p @ t) = Some (v, t)"
  shows "json_parse p = Some v"
proof -
  have sk: "skip_ws p = p" using assms(1,2) by (cases p) (auto simp: skip_ws_def)
  from assms(3) assms(5)[rule_format, of "Suc (length p)" "[]"]
  have "parse_value (Suc (length p)) p = Some (v, [])" by simp
  then show ?thesis using assms(4) by (simp add: json_parse_def sk) (simp add: skip_ws_def)
qed

lemma Decoder_Decode_object:
  assumes "json_parse g = Some (JObj kvs)"
  shows "\<exists>raw w'. Decoder_Decode (g @ tail) = DecValue raw (w' @ tail) \<and> list_all isSpace w'
           \<and> json_parse raw = Some (JObj kvs)"
proof -
  from json_parse_split[OF assms] obtain w p w' where
    g: "g = w @ p @ w'" and w: "list_all isSpace w" and w': "list_all isSpace w'"
    and p: "p \<noteq> []" "\<not> isSpace (hd p)" "ext_ok (JObj kvs) []"
           "json_depth (JObj kvs) \<le> maxNestingDepth"
    and e: "\<forall>m t. length p \<le> m \<longrightarrow> ext_ok (JObj kvs) t \<longrightarrow> parse_value m (p @ t) = Some (JObj kvs, t)"
    by blast
  from p obtain c cs where pc: "p = c # cs" by (cases p) auto
  have sk: "skip_ws (g @ tail) = c # (cs @ w' @ tail)"
    using skip_ws_pass_hd[OF w p(1,2), of "w' @ tail"] g pc by simp
  have ok: "ext_ok (JObj kvs) t" for t by (simp add: ext_ok_def)
  have pv: "parse_value (Suc (length (cs @ w' @ tail))) (c # (cs @ w' @ tail)) = Some (JObj kvs, w' @ tail)"
    using e[rule_format, of "Suc (length (cs @ w' @ tail))" "w' @ tail"] ok pc by simp
  have raw: "take (length (c # (cs @ w' @ tail)) - length (w' @ tail)) (c # (cs @ w' @ tail)) = p"
    using pc by simp
  have "Decoder_Decode (g @ tail) = DecValue p (w' @ tail)"
    unfolding Decoder_Decode_def sk using pv raw p(4)
    by (simp del: parse_value.simps json_depth.simps)
  moreover have "json_parse p = Some (JObj kvs)" using json_parse_raw[OF p e] .
  ultimately show ?thesis using w' by blast
qed

text \<open>
  The bounds of the model are large enough: the verdict of \<open>json_parse\<close> and of
  \<open>Decoder_Decode\<close> is the one of the parser with any bound, and \<open>DecodeEvents\<close> always
  describes a run.
\<close>

lemma json_parse_bound_free:
  "json_parse s = Some v \<longleftrightarrow>
     (\<exists>m r. parse_value m (skip_ws s) = Some (v, r) \<and> skip_ws r = [])
     \<and> json_depth v \<le> maxNestingDepth"
proof
  assume "json_parse s = Some v"
  then obtain r where "parse_value (Suc (length s)) (skip_ws s) = Some (v, r)" "skip_ws r = []"
    "json_depth v \<le> maxNestingDepth"
    by (auto simp: json_parse_def split: option.splits if_splits)
  then show "(\<exists>m r. parse_value m (skip_ws s) = Some (v, r) \<and> skip_ws r = [])
     \<and> json_depth v \<le> maxNestingDepth"
    by blast
next
  assume "(\<exists>m r. parse_value m (skip_ws s) = Some (v, r) \<and> skip_ws r = [])
     \<and> json_depth v \<le> maxNestingDepth"
  then obtain m r where m: "parse_value m (skip_ws s) = Some (v, r)" and r: "skip_ws r = []"
    and dp: "json_depth v \<le> maxNestingDepth"
    by blast
  have "length (skip_ws s) \<le> Suc (length s)"
    unfolding skip_ws_def using length_dropWhile_le[of isSpace s] by simp
  from parse_value_bound_free[OF m this] r dp show "json_parse s = Some v"
    by (simp add: json_parse_def)
qed

lemma Decoder_Decode_bound_free:
  assumes "Decoder_Decode src = DecError err"
  shows "parse_value m (skip_ws src) = None
         \<or> (\<exists>v r. parse_value m (skip_ws src) = Some (v, r) \<and> maxNestingDepth < json_depth v)"
proof (cases "parse_value m (skip_ws src)")
  case None
  then show ?thesis by simp
next
  case (Some vr)
  obtain v r where vr: "vr = (v, r)" by (cases vr)
  from parse_value_bound_free[OF Some[unfolded vr], of "length (skip_ws src)"]
  have "parse_value (length (skip_ws src)) (skip_ws src) = Some (v, r)" by simp
  with assms have "maxNestingDepth < json_depth v"
    by (cases "skip_ws src") (auto simp: Decoder_Decode_def split: if_splits)
  with Some vr show ?thesis by simp
qed

lemma Decoder_Decode_shorter:
  assumes "Decoder_Decode src = DecValue raw rest"
  shows "length rest < length src"
proof -
  from assms obtain c cs v where s: "skip_ws src = c # cs"
    and pv: "parse_value (Suc (length cs)) (c # cs) = Some (v, rest)"
    by (auto simp: Decoder_Decode_def split: list.splits option.splits if_splits)
  have "length (skip_ws src) \<le> length src"
    unfolding skip_ws_def by (rule length_dropWhile_le)
  with parse_value_shorter[OF pv] s show ?thesis by simp
qed

lemma Decoder_Decode_spaces:
  "list_all isSpace w \<Longrightarrow> Decoder_Decode (w @ s) = Decoder_Decode s"
  by (simp add: Decoder_Decode_def skip_ws_spaces)

lemma DecodeEvents_loop_spaces:
  "list_all isSpace w \<Longrightarrow> DecodeEvents_loop n (w @ s) = DecodeEvents_loop n s"
  by (cases n) (simp_all add: Decoder_Decode_spaces)

lemma json_Unmarshal_cong:
  "json_parse d1 = json_parse d2 \<Longrightarrow> json_Unmarshal into d1 = json_Unmarshal into d2"
  by (simp add: json_Unmarshal_def)

lemma decodeEventFromProbe_cong:
  assumes "json_parse d1 = json_parse d2"
  shows "decodeEventFromProbe (probe\<lparr>EventProbe.RawData := Some d1\<rparr>)
       = decodeEventFromProbe (probe\<lparr>EventProbe.RawData := Some d2\<rparr>)"
  unfolding decodeEventFromProbe_def decode_event_as_def
  by (simp add: json_Unmarshal_cong[OF assms])

lemma DecodeEventFromBytes_cong:
  assumes "json_parse d1 = json_parse d2"
  shows "DecodeEventFromBytes d1 = DecodeEventFromBytes d2"
  unfolding DecodeEventFromBytes_def
  using decodeEventFromProbe_cong[OF assms] json_Unmarshal_cong[OF assms, of unmarshal_EventProbe]
  by (simp split: sum.splits)

lemma zero_probe_undecodable:
  "decodeEventFromProbe (zero_EventProbe\<lparr>EventProbe.RawData := Some d\<rparr>)
   = Return (None, Some (Errorf (Some ErrInvalidEventType) ''unknown event type: '' None))"
  by (simp add: decodeEventFromProbe_def zero_EventProbe_def)

lemma decoded_is_object:
  assumes "DecodeEventFromBytes g = Return (Some e, None)"
  shows "\<exists>kvs. json_parse g = Some (JObj kvs)"
proof (cases "json_parse g")
  case None
  with assms show ?thesis
    by (simp add: DecodeEventFromBytes_def json_Unmarshal_def)
next
  case (Some v)
  show ?thesis
  proof (cases v)
    case (JObj kvs)
    with Some show ?thesis by simp
  next
    case JNull
    with assms Some show ?thesis
      by (simp add: DecodeEventFromBytes_def json_Unmarshal_def unmarshal_EventProbe_def
          unmarshal_struct_def zero_probe_undecodable)
  qed (use assms Some in \<open>simp_all add: DecodeEventFromBytes_def json_Unmarshal_def
          unmarshal_EventProbe_def unmarshal_struct_def\<close>)
qed

lemma loop_body:
  "DecodeEvents_loop (Suc n) src =
     (case Decoder_Decode src of
        DecEOF \<Rightarrow> Some (stop_with [] BothClosed)
      | DecError err \<Rightarrow> Some (stop_with [unmarshal_failed [] err] BothClosed)
      | DecValue rawData rest \<Rightarrow>
          (case DecodeEventFromBytes rawData of
             Panic \<Rightarrow> Some (stop_with [] Crashed)
           | Return (event, Some err) \<Rightarrow> Some (stop_with [err] BothClosed)
           | Return (event, None) \<Rightarrow> map_option (deliver event) (DecodeEvents_loop n rest)))"
  by (simp add: DecodeEventFromBytes_def split: decode_step.splits sum.splits)

lemma DecodeEvents_loop_good:
  assumes "DecodeEventFromBytes g = Return (Some e, None)"
  shows "DecodeEvents_loop (Suc n) (g @ tail) = map_option (deliver (Some e)) (DecodeEvents_loop n tail)"
proof -
  from decoded_is_object[OF assms] obtain kvs where kvs: "json_parse g = Some (JObj kvs)" by blast
  from Decoder_Decode_object[OF kvs, of tail] obtain raw w' where
    d: "Decoder_Decode (g @ tail) = DecValue raw (w' @ tail)" and w': "list_all isSpace w'"
    and raw: "json_parse raw = Some (JObj kvs)" by blast
  have "DecodeEventFromBytes raw = Return (Some e, None)"
    using DecodeEventFromBytes_cong[of raw g] raw kvs assms by simp
  then show ?thesis
    unfolding loop_body d by (simp add: DecodeEvents_loop_spaces[OF w'])
qed

lemma DecodeEvents_loop_bad:
  assumes "fst (Decoder_DecodeEvent tail) = Return (v, Some err)" "err \<noteq> io_EOF"
  shows "DecodeEvents_loop (Suc n) tail = Some (stop_with [err] BothClosed)"
  using assms
  by (auto simp: Decoder_DecodeEvent_def split: decode_step.splits sum.splits outcome.splits)

lemma DecodeEvents_loop_eof:
  assumes "list_all isSpace tail"
  shows "DecodeEvents_loop (Suc n) tail = Some (stop_with [] BothClosed)"
  using assms by (simp add: Decoder_Decode_def spaces_skip_ws_Nil)

lemma DecodeEvents_loop_total:
  "length src < n \<Longrightarrow> DecodeEvents_loop n src \<noteq> None"
proof (induction n arbitrary: src)
  case 0
  then show ?case by simp
next
  case (Suc n)
  show ?case
  proof (cases "Decoder_Decode src")
    case (DecValue raw rest)
    from Decoder_Decode_shorter[OF DecValue] Suc.prems have "length rest < n" by simp
    from Suc.IH[OF this] DecValue show ?thesis
      unfolding loop_body by (auto split: outcome.splits option.splits)
  qed (simp_all add: loop_body)
qed

lemma DecodeEvents_total: "\<exists>run. DecodeEvents src = Some run"
  using DecodeEvents_loop_total[of src "Suc (length src)"] by (auto simp: DecodeEvents_def)

lemma decoded_nonempty:
  "DecodeEventFromBytes g = Return (Some e, None) \<Longrightarrow> g \<noteq> []"
  by (auto dest!: decoded_is_object simp: json_parse_empty)

lemma DecodeEvents_loop_prefix:
  assumes "list_all2 (\<lambda>g e. DecodeEventFromBytes g = Return (Some e, None)) gs es"
    and "length gs \<le> n"
  shows "DecodeEvents_loop n (concat gs @ tail)
         = map_option (\<lambda>run. run\<lparr>events := map Some es @ events run\<rparr>)
             (DecodeEvents_loop (n - length gs) tail)"
  using assms
proof (induction gs es arbitrary: n rule: list_all2_induct)
  case Nil
  show ?case by (simp add: option.map_ident)
next
  case (Cons g gs e es)
  from Cons.prems obtain n' where n: "n = Suc n'" "length gs \<le> n'" by (cases n) auto
  show ?case
    using DecodeEvents_loop_good[OF Cons.hyps(1), of n' "concat gs @ tail"] Cons.IH[OF n(2)]
    by (simp add: n option.map_comp comp_def deliver_def)
qed

lemma concat_length_ge:
  assumes "list_all2 (\<lambda>g e. DecodeEventFromBytes g = Return (Some e, None)) gs es"
  shows "length gs \<le> length (concat gs)"
  using assms
proof (induction gs es rule: list_all2_induct)
  case Nil
  show ?case by simp
next
  case (Cons g gs e es)
  from decoded_nonempty[OF Cons.hyps(1)] have "1 \<le> length g" by (cases g) auto
  with Cons.IH show ?case by simp
qed

text \<open>
  A source made of texts that \<open>DecodeEventFromBytes\<close> decodes, followed by white space
  only: every decoded event is delivered, in the order of the source, and both channels
  are closed with no error.
\<close>

lemma DecodeEvents_in_order:
  assumes good: "list_all2 (\<lambda>g e. DecodeEventFromBytes g = Return (Some e, None)) gs es"
    and eof: "list_all isSpace tail"
  shows "DecodeEvents (concat gs @ tail)
         = Some \<lparr>events = map Some es, errs = [], ending = BothClosed\<rparr>"
proof -
  let ?n = "Suc (length (concat gs @ tail))"
  have le: "length gs \<le> ?n" using concat_length_ge[OF good] by simp
  have "?n - length gs = Suc (length (concat gs @ tail) - length gs)"
    using concat_length_ge[OF good] by simp
  then show ?thesis
    unfolding DecodeEvents_def DecodeEvents_loop_prefix[OF good le]
    using DecodeEvents_loop_eof[OF eof] by (simp add: stop_with_def)
qed

subsection \<open>Validation of supporting records and events\<close>

text \<open>
  Claim C8, as the code has it. \<open>FunctionCall.Validate\<close> accepts a \<open>FunctionCall\<close> exactly
  when \<open>Name\<close> is not empty and \<open>json.Unmarshal\<close> stores the contents of \<open>Arguments\<close> into
  an \<open>interface{}\<close>: the contents are well-formed JSON, nested no deeper than the scanner
  allows, and every number in them fits a \<open>float64\<close>. With \<open>Name\<close> \<open>x\<close>, the arguments
  \<open>{bad json}\<close> are rejected and the arguments \<open>{"k":1}\<close> are accepted. \<open>Arguments\<close>
  travels as a JSON string: it is marshalled to a string member, a string member is
  stored into it unchanged, a marshalled \<open>FunctionCall\<close> is unmarshalled to itself, and an
  object in the place of the string is refused by the decoder. The bytes written for
  \<open>Name\<close> \<open>x\<close> and \<open>Arguments\<close> \<open>{"k":1}\<close> hold the arguments as a quoted string with its
  quotes escaped, and are read back to the same \<open>FunctionCall\<close>.
\<close>

theorem FunctionCall_Validate_arguments:
  \<open>(FunctionCall_Validate f = None \<longleftrightarrow>
      FunctionCall.Name f \<noteq> []
      \<and> (\<exists>v. json_parse (FunctionCall.Arguments f) = Some v \<and> number_error v = None))
   \<and> FunctionCall_Validate \<lparr>FunctionCall.Name = ''x'', Arguments = ''{bad json}''\<rparr>
       = Some (Errorf None ''function arguments must be valid JSON'' (Some SyntaxError))
   \<and> FunctionCall_Validate \<lparr>FunctionCall.Name = ''x'', Arguments = ''{"k":1}''\<rparr> = None
   \<and> marshal_FunctionCall f
       = JObj [(''name'', JStr (FunctionCall.Name f)), (''arguments'', JStr (FunctionCall.Arguments f))]
   \<and> set_FunctionCall ''arguments'' (JStr x) f = Inr (f\<lparr>FunctionCall.Arguments := x\<rparr>)
   \<and> unmarshal_struct ''FunctionCall'' set_FunctionCall (marshal_FunctionCall f) g = Inr f
   \<and> set_FunctionCall ''arguments'' (JObj kvs) f
       = Inl (UnmarshalTypeError ''object'' ''FunctionCall.arguments'')
   \<and> json_Marshal (marshal_FunctionCall \<lparr>FunctionCall.Name = ''x'', Arguments = ''{"k":1}''\<rparr>)
       = Inr (''{"name":"x","arguments":"{'' @ [CHR 0x5C] @ ''"k'' @ [CHR 0x5C] @ ''":1}"}'')
   \<and> json_Unmarshal
        (\<lambda>v. unmarshal_struct ''FunctionCall'' set_FunctionCall v
               \<lparr>FunctionCall.Name = [], Arguments = []\<rparr>)
        (''{"name":"x","arguments":"{'' @ [CHR 0x5C] @ ''"k'' @ [CHR 0x5C] @ ''":1}"}'')
       = Inr \<lparr>FunctionCall.Name = ''x'', Arguments = ''{"k":1}''\<rparr>\<close>
proof (intro conjI)
  have k1: "key_is ''name'' ''name''" "key_is ''arguments'' ''arguments''"
    "\<not> key_is ''arguments'' ''name''"
    by code_simp+
  show "FunctionCall_Validate f = None \<longleftrightarrow>
      FunctionCall.Name f \<noteq> []
      \<and> (\<exists>v. json_parse (FunctionCall.Arguments f) = Some v \<and> number_error v = None)"
    by (auto simp: FunctionCall_Validate_def json_Unmarshal_def unmarshal_interface_def
        json_parse_empty split: option.splits sum.splits)
  show \<open>FunctionCall_Validate \<lparr>FunctionCall.Name = ''x'', Arguments = ''{bad json}''\<rparr>
       = Some (Errorf None ''function arguments must be valid JSON'' (Some SyntaxError))\<close>
    by code_simp
  show \<open>FunctionCall_Validate \<lparr>FunctionCall.Name = ''x'', Arguments = ''{"k":1}''\<rparr> = None\<close>
    by code_simp
  show "marshal_FunctionCall f
       = JObj [(''name'', JStr (FunctionCall.Name f)), (''arguments'', JStr (FunctionCall.Arguments f))]"
    by (simp add: marshal_FunctionCall_def)
  show "set_FunctionCall ''arguments'' (JStr x) f = Inr (f\<lparr>FunctionCall.Arguments := x\<rparr>)"
    by (simp add: set_FunctionCall_def k1 unmarshal_string_def store_def)
  show "unmarshal_struct ''FunctionCall'' set_FunctionCall (marshal_FunctionCall f) g = Inr f"
    by (simp add: marshal_FunctionCall_def unmarshal_struct_def set_FunctionCall_def k1
        unmarshal_string_def store_def)
  show "set_FunctionCall ''arguments'' (JObj kvs) f
       = Inl (UnmarshalTypeError ''object'' ''FunctionCall.arguments'')"
    by (simp add: set_FunctionCall_def k1 unmarshal_string_def store_def)
  show \<open>json_Marshal (marshal_FunctionCall \<lparr>FunctionCall.Name = ''x'', Arguments = ''{"k":1}''\<rparr>)
       = Inr (''{"name":"x","arguments":"{'' @ [CHR 0x5C] @ ''"k'' @ [CHR 0x5C] @ ''":1}"}'')\<close>
    by code_simp
  show \<open>json_Unmarshal
        (\<lambda>v. unmarshal_struct ''FunctionCall'' set_FunctionCall v
               \<lparr>FunctionCall.Name = [], Arguments = []\<rparr>)
        (''{"name":"x","arguments":"{'' @ [CHR 0x5C] @ ''"k'' @ [CHR 0x5C] @ ''":1}"}'')
       = Inr \<lparr>FunctionCall.Name = ''x'', Arguments = ''{"k":1}''\<rparr>\<close>
    by code_simp
qed

theorem FunctionCall_Validate_arguments_witness:
  \<open>FunctionCall_Validate \<lparr>FunctionCall.Name = ''search'', Arguments = ''{"query": "test"}''\<rparr> = None
   \<and> json_parse ''{"query": "test"}'' = Some (JObj [(''query'', JStr ''test'')])
   \<and> number_error (JObj [(''query'', JStr ''test'')]) = None\<close>
proof -
  have p: \<open>json_parse ''{"query": "test"}'' = Some (JObj [(''query'', JStr ''test'')])\<close>
    by code_simp
  show ?thesis
    using FunctionCall_Validate_arguments
      [of \<open>\<lparr>FunctionCall.Name = ''search'', Arguments = ''{"query": "test"}''\<rparr>\<close>] p
    by simp
qed

text \<open>
  Claim C8, as stated, fails: the contents \<open>1e400\<close> are syntactically valid JSON, and
  \<open>FunctionCall.Validate\<close> rejects them, because no \<open>float64\<close> holds the number.
\<close>

theorem FunctionCall_Validate_rejects_valid_JSON:
  \<open>json_parse ''1e400'' = Some (JNum ''1e400'')
   \<and> FunctionCall_Validate \<lparr>FunctionCall.Name = ''x'', Arguments = ''1e400''\<rparr>
       = Some (Errorf None ''function arguments must be valid JSON''
                 (Some (UnmarshalTypeError ''number 1e400'' [])))\<close>
  by (intro conjI; code_simp)

text \<open>
  Claim C10. \<open>ToolCallResultEvent.Validate\<close> accepts an event exactly when its type is
  \<open>TOOL_CALL_RESULT\<close>, its \<open>MessageID\<close>, \<open>ToolCallID\<close> and \<open>Content\<close> are not empty, and its
  \<open>Role\<close> is empty or one of the five roles (any of them, not only \<open>tool\<close>).
\<close>

theorem ToolCallResultEvent_Validate_Role:
  "ToolCallResultEvent_Validate t = None \<longleftrightarrow>
     BaseEvent.Type t = EventTypeToolCallResult
     \<and> ToolCallResultEvent.MessageID t \<noteq> []
     \<and> ToolCallResultEvent.ToolCallID t \<noteq> []
     \<and> ToolCallResultEvent.Content t \<noteq> []
     \<and> (ToolCallResultEvent.Role t = [] \<or> ToolCallResultEvent.Role t = RoleDeveloper
        \<or> ToolCallResultEvent.Role t = RoleSystem \<or> ToolCallResultEvent.Role t = RoleAssistant
        \<or> ToolCallResultEvent.Role t = RoleUser \<or> ToolCallResultEvent.Role t = RoleTool)"
  by (auto simp: ToolCallResultEvent_Validate_def BaseEvent_Validate_def EventType_IsValid_def
        Role_IsValid_def split: option.splits)

theorem ToolCallResultEvent_Validate_Role_witness:
  "ToolCallResultEvent_Validate
     \<lparr>BaseEvent.Type = EventTypeToolCallResult, Timestamp = None, RawEvent = JNull,
      ToolCallResultEvent.MessageID = ''msg_result'', ToolCallID = ''tool_call_123'',
      Content = ''Search results found'', Role = RoleUser\<rparr> = None
   \<and> ToolCallResultEvent_Validate
     \<lparr>BaseEvent.Type = EventTypeToolCallResult, Timestamp = None, RawEvent = JNull,
      ToolCallResultEvent.MessageID = ''msg_result'', ToolCallID = ''tool_call_123'',
      Content = ''Search results found'', Role = ''robot''\<rparr> \<noteq> None"
  using ToolCallResultEvent_Validate_Role
    [of "\<lparr>BaseEvent.Type = EventTypeToolCallResult, Timestamp = None, RawEvent = JNull,
      ToolCallResultEvent.MessageID = ''msg_result'', ToolCallID = ''tool_call_123'',
      Content = ''Search results found'', Role = RoleUser\<rparr>"]
    ToolCallResultEvent_Validate_Role
    [of "\<lparr>BaseEvent.Type = EventTypeToolCallResult, Timestamp = None, RawEvent = JNull,
      ToolCallResultEvent.MessageID = ''msg_result'', ToolCallID = ''tool_call_123'',
      Content = ''Search results found'', Role = ''robot''\<rparr>"]
  by simp

subsection \<open>Encoding\<close>

text \<open>
  Claim C5. When \<open>Validate\<close> rejects an event, \<open>EncodeEvent\<close> returns nil data and an error
  that wraps \<open>ErrValidationFailed\<close>: the event is validated before anything is marshalled.
  This holds in particular for a \<open>RunStartedEvent\<close> whose header says \<open>RUN_FINISHED\<close>.
\<close>

theorem EncodeEvent_validates_first:
  assumes "Event_Validate event = Return (Some err)"
  shows "EncodeEvent event = Return (None, Some (wrap_validation err))
         \<and> errors_Is (wrap_validation err) ErrValidationFailed"
  using assms by (simp add: EncodeEvent_def wrap_validation_def errors_Is_def)

theorem EncodeEvent_validates_first_witness:
  "Event_Validate
     (EvRunStarted \<lparr>BaseEvent.Type = EventTypeRunFinished, Timestamp = None, RawEvent = JNull,
                    RunStartedEvent.ThreadID = ''thread_123'', RunID = ''run_456''\<rparr>)
   = Return (Some (plain_error ''run started event must have RUN_STARTED type, got: RUN_FINISHED''))
   \<and> EncodeEvent
     (EvRunStarted \<lparr>BaseEvent.Type = EventTypeRunFinished, Timestamp = None, RawEvent = JNull,
                    RunStartedEvent.ThreadID = ''thread_123'', RunID = ''run_456''\<rparr>)
   = Return (None, Some (Errorf (Some ErrValidationFailed)
                           ''run started event must have RUN_STARTED type, got: RUN_FINISHED'' None))
   \<and> errors_Is (Errorf (Some ErrValidationFailed)
                  ''run started event must have RUN_STARTED type, got: RUN_FINISHED'' None)
        ErrValidationFailed"
proof -
  have h: "Event_Validate
     (EvRunStarted \<lparr>BaseEvent.Type = EventTypeRunFinished, Timestamp = None, RawEvent = JNull,
                    RunStartedEvent.ThreadID = ''thread_123'', RunID = ''run_456''\<rparr>)
   = Return (Some (plain_error ''run started event must have RUN_STARTED type, got: RUN_FINISHED''))"
    by (simp add: RunStartedEvent_Validate_def BaseEvent_Validate_def EventType_IsValid_def)
  show ?thesis
    using h EncodeEvent_validates_first [OF h] by (simp add: wrap_validation_def)
qed

text \<open>
  A valid event whose payload cannot be written is refused with \<open>ErrMarshalFailed\<close>.
\<close>

lemma EncodeEvent_marshal_failed:
  "EncodeEvent (EvCustom \<lparr>BaseEvent.Type = EventTypeCustom, Timestamp = None, RawEvent = JNull,
                           CustomEvent.Name = ''n'', Value = JArr [JUnsupported]\<rparr>)
   = Return (None, Some (Errorf (Some ErrMarshalFailed) [] (Some UnsupportedTypeError)))"
  by code_simp

subsection \<open>Decoding single values\<close>

text \<open>
  A payload number that no \<open>float64\<close> holds is refused where the payload is stored, at
  the probe for \<open>rawEvent\<close> and at the variant for its own payload; a key is matched up
  to case folding, the long s included.
\<close>

lemma DecodeEventFromBytes_number_out_of_range:
  \<open>DecodeEventFromBytes ''{"type":"CUSTOM","name":"n","value":{"a":[1,1e400]}}''
     = Return (None, Some (Errorf (Some ErrUnmarshalFailed) ''CustomEvent''
                 (Some (UnmarshalTypeError ''number 1e400'' ''CustomEvent.value''))))
   \<and> DecodeEventFromBytes ''{"type":"NOT_A_TYPE","rawEvent":1e400}''
     = Return (None, Some (Errorf (Some ErrUnmarshalFailed) []
                 (Some (UnmarshalTypeError ''number 1e400'' ''EventProbe.rawEvent''))))
   \<and> DecodeEventFromBytes ''{"type":"CUSTOM","name":"n","value":1e308}''
     = Return (Some (EvCustom \<lparr>BaseEvent.Type = EventTypeCustom, Timestamp = None, RawEvent = JNull,
                        CustomEvent.Name = ''n'', Value = JNum ''1e308''\<rparr>), None)
   \<and> DecodeEventFromBytes (''{"TYPE":"STEP_STARTED","'' @ [CHR 0xC5, CHR 0xBF] @ ''tepname":"s1"}'')
     = Return (Some (EvStepStarted \<lparr>BaseEvent.Type = EventTypeStepStarted, Timestamp = None,
                        RawEvent = JNull, StepStartedEvent.StepName = ''s1''\<rparr>), None)\<close>
  by (intro conjI; code_simp)

text \<open>
  What \<open>DecodeEventFromBytes\<close> can return: no value and an error that wraps
  \<open>ErrUnmarshalFailed\<close> or \<open>ErrInvalidEventType\<close>, or the unmarshalled event together with
  whatever its \<open>Validate\<close> returned, nil or not.
\<close>

lemma decode_event_as_outcomes:
  assumes "decode_event_as tname into ptr data = Return (ev, err)"
  shows "(ev = None \<and> (\<exists>je. err = Some (unmarshal_failed tname je)))
       \<or> (\<exists>e. ev = Some e \<and> Event_Validate e = Return err)"
  using assms
  by (auto simp: decode_event_as_def split: sum.splits outcome.splits)

lemma decodeEventFromProbe_outcomes:
  assumes "decodeEventFromProbe probe = Return (ev, err)"
  shows "(ev = None \<and> (\<exists>e. err = Some e \<and> (errors_Is e ErrUnmarshalFailed \<or> errors_Is e ErrInvalidEventType)))
       \<or> (\<exists>e. ev = Some e \<and> Event_Validate e = Return err)"
  using assms
  unfolding decodeEventFromProbe_def
  by (auto simp: errors_Is_def unmarshal_failed_def probe_marshal_failed_def
      split: if_splits sum.splits dest!: decode_event_as_outcomes)

lemma DecodeEventFromBytes_outcomes:
  assumes "DecodeEventFromBytes data = Return (ev, err)"
  shows "(ev = None \<and> (\<exists>e. err = Some e \<and> (errors_Is e ErrUnmarshalFailed \<or> errors_Is e ErrInvalidEventType)))
       \<or> (\<exists>e. ev = Some e \<and> Event_Validate e = Return err)"
  using assms
  by (auto simp: DecodeEventFromBytes_def errors_Is_def unmarshal_failed_def
      split: sum.splits dest!: decodeEventFromProbe_outcomes)

text \<open>
  Claim C9. The text \<open>null\<close> is well-formed JSON: the probe is unmarshalled without error
  and keeps an empty discriminator, so \<open>DecodeEventFromBytes\<close> fails with an error that
  wraps \<open>ErrInvalidEventType\<close>, not \<open>ErrUnmarshalFailed\<close>; likewise
  \<open>DecodeMessageFromBytes\<close> fails with \<open>ErrInvalidMessageType\<close>.
\<close>

theorem null_is_unknown_type:
  \<open>json_Unmarshal unmarshal_EventProbe ''null'' = Inr zero_EventProbe
   \<and> DecodeEventFromBytes ''null''
       = Return (None, Some (Errorf (Some ErrInvalidEventType) ''unknown event type: '' None))
   \<and> errors_Is (Errorf (Some ErrInvalidEventType) ''unknown event type: '' None) ErrInvalidEventType
   \<and> \<not> errors_Is (Errorf (Some ErrInvalidEventType) ''unknown event type: '' None) ErrUnmarshalFailed
   \<and> json_Unmarshal unmarshal_MessageProbe ''null'' = Inr zero_MessageProbe
   \<and> DecodeMessageFromBytes ''null''
       = (None, Some (Errorf (Some ErrInvalidMessageType) ''unknown message role: '' None))
   \<and> errors_Is (Errorf (Some ErrInvalidMessageType) ''unknown message role: '' None) ErrInvalidMessageType
   \<and> \<not> errors_Is (Errorf (Some ErrInvalidMessageType) ''unknown message role: '' None) ErrUnmarshalFailed\<close>
  by (intro conjI; code_simp)

text \<open>
  Claim C4. \<open>DecodeEventFromBytes\<close> on
  \<open>{"type":"TEXT_MESSAGE_CONTENT","messageId":"m1","delta":"hi"}\<close> returns a
  \<open>TextMessageContentEvent\<close> whose \<open>Delta\<close> is \<open>hi\<close> and no error. On the same object with an
  empty \<open>delta\<close> it returns the error of \<open>Validate\<close> as it is, together with the decoded
  event: the error does not wrap \<open>ErrValidationFailed\<close>.
\<close>

theorem TextMessageContent_decode_examples:
  \<open>DecodeEventFromBytes ''{"type":"TEXT_MESSAGE_CONTENT","messageId":"m1","delta":"hi"}''
    = Return (Some (EvTextMessageContent
        \<lparr>BaseEvent.Type = EventTypeTextMessageContent, Timestamp = None, RawEvent = JNull,
         TextMessageContentEvent.MessageID = ''m1'', Delta = ''hi''\<rparr>), None)
  \<and> DecodeEventFromBytes ''{"type":"TEXT_MESSAGE_CONTENT","messageId":"m1","delta":""}''
    = Return (Some (EvTextMessageContent
        \<lparr>BaseEvent.Type = EventTypeTextMessageContent, Timestamp = None, RawEvent = JNull,
         TextMessageContentEvent.MessageID = ''m1'', Delta = []\<rparr>),
        Some (plain_error ''delta must not be empty''))
  \<and> \<not> errors_Is (plain_error ''delta must not be empty'') ErrValidationFailed\<close>
  by (intro conjI; code_simp)

text \<open>
  Claim C2. A decode call can return a value and an error together: when the variant is
  unmarshalled and \<open>Validate\<close> rejects it, the decoders return the rejected value with the
  error. This is so for \<open>DecodeEventFromBytes\<close>, \<open>DecodeMessageFromBytes\<close>,
  \<open>Decoder.DecodeEvent\<close> and \<open>Decoder.DecodeMessage\<close>. On a \<open>messages\<close> array holding
  \<open>null\<close>, \<open>DecodeEventFromBytes\<close> does not return at all: \<open>Validate\<close> panics.
\<close>

theorem decode_returns_value_and_error:
  \<open>DecodeEventFromBytes ''{"type":"RUN_STARTED","runId":"r1"}''
    = Return (Some (EvRunStarted \<lparr>BaseEvent.Type = EventTypeRunStarted, Timestamp = None, RawEvent = JNull,
                      RunStartedEvent.ThreadID = [], RunID = ''r1''\<rparr>),
              Some (plain_error ''thread ID is required''))
  \<and> DecodeMessageFromBytes ''{"role":"user","id":"m1"}''
    = (Some (MsgUser \<lparr>BaseMessage.ID = ''m1'', Role = RoleUser, Name = [], UserMessage.Content = []\<rparr>),
       Some (plain_error ''user message content is required''))
  \<and> fst (Decoder_DecodeEvent ''{"type":"RUN_STARTED","runId":"r1"}'')
    = Return (Some (EvRunStarted \<lparr>BaseEvent.Type = EventTypeRunStarted, Timestamp = None, RawEvent = JNull,
                      RunStartedEvent.ThreadID = [], RunID = ''r1''\<rparr>),
              Some (plain_error ''thread ID is required''))
  \<and> fst (Decoder_DecodeMessage ''{"role":"user","id":"m1"}'')
    = (Some (MsgUser \<lparr>BaseMessage.ID = ''m1'', Role = RoleUser, Name = [], UserMessage.Content = []\<rparr>),
       Some (plain_error ''user message content is required''))
  \<and> DecodeEventFromBytes ''{"type":"MESSAGES_SNAPSHOT","messages":[null]}'' = Panic\<close>
  by (intro conjI; code_simp)

subsection \<open>Which sentinel a decode failure carries\<close>

lemma decode_event_as_None:
  assumes "decode_event_as tname into ptr data = Return (None, Some e)"
  shows "e = unmarshal_failed tname (case json_Unmarshal into data of Inl je \<Rightarrow> je)
         \<and> (\<exists>je. json_Unmarshal into data = Inl je)"
  using assms
  by (auto simp: decode_event_as_def split: sum.splits outcome.splits)

lemma decode_message_as_None:
  assumes "decode_message_as tname into ptr data = (None, Some e)"
  shows "\<exists>je. json_Unmarshal into data = Inl je \<and> e = unmarshal_failed tname je"
  using assms
  by (auto simp: decode_message_as_def split: sum.splits)

lemma decodeEventFromProbe_None:
  assumes "decodeEventFromProbe (probe\<lparr>EventProbe.RawData := Some data\<rparr>) = Return (None, Some e)"
  shows "(EventType_IsValid (EventProbe.Type probe) \<and> wraps e = Some ErrUnmarshalFailed)
       \<or> (\<not> EventType_IsValid (EventProbe.Type probe) \<and> wraps e = Some ErrInvalidEventType)"
  using assms
  unfolding decodeEventFromProbe_def
  by (auto simp: EventType_IsValid_def unmarshal_failed_def probe_marshal_failed_def
      split: if_splits sum.splits dest!: decode_event_as_None)

lemma decodeMessageFromProbe_None:
  assumes "decodeMessageFromProbe (probe\<lparr>MessageProbe.RawData := Some data\<rparr>) = (None, Some e)"
  shows "(Role_IsValid (MessageProbe.Role probe) \<and> wraps e = Some ErrUnmarshalFailed)
       \<or> (\<not> Role_IsValid (MessageProbe.Role probe) \<and> wraps e = Some ErrInvalidMessageType)"
  using assms
  unfolding decodeMessageFromProbe_def
  by (auto simp: Role_IsValid_def unmarshal_failed_def probe_marshal_failed_def
      split: if_splits sum.splits dest!: decode_message_as_None)

text \<open>
  Claim C3, as the code has it. A decode call that returns no value returns an error that
  wraps exactly one of two sentinels. It wraps \<open>ErrInvalidEventType\<close>
  (\<open>ErrInvalidMessageType\<close> for messages) exactly when the probe is unmarshalled and its
  discriminator is not a recognized value. It wraps \<open>ErrUnmarshalFailed\<close> in every other
  case: the text is not well-formed JSON, or the probe is refused by \<open>json.Unmarshal\<close>, or
  the discriminator is recognized and the variant is refused by \<open>json.Unmarshal\<close>.
\<close>

theorem decode_failure_sentinels:
  "(DecodeEventFromBytes data = Return (None, Some e) \<longrightarrow>
      (errors_Is e ErrUnmarshalFailed \<or> errors_Is e ErrInvalidEventType)
      \<and> (errors_Is e ErrInvalidEventType \<longleftrightarrow>
           (\<exists>probe. json_Unmarshal unmarshal_EventProbe data = Inr probe
                    \<and> \<not> EventType_IsValid (EventProbe.Type probe)))
      \<and> (errors_Is e ErrUnmarshalFailed \<longleftrightarrow>
           json_parse data = None
           \<or> (\<exists>je. json_Unmarshal unmarshal_EventProbe data = Inl je)
           \<or> (\<exists>probe. json_Unmarshal unmarshal_EventProbe data = Inr probe
                    \<and> EventType_IsValid (EventProbe.Type probe))))
   \<and> (DecodeMessageFromBytes data = (None, Some e') \<longrightarrow>
      (errors_Is e' ErrUnmarshalFailed \<or> errors_Is e' ErrInvalidMessageType)
      \<and> (errors_Is e' ErrInvalidMessageType \<longleftrightarrow>
           (\<exists>probe. json_Unmarshal unmarshal_MessageProbe data = Inr probe
                    \<and> \<not> Role_IsValid (MessageProbe.Role probe)))
      \<and> (errors_Is e' ErrUnmarshalFailed \<longleftrightarrow>
           json_parse data = None
           \<or> (\<exists>je. json_Unmarshal unmarshal_MessageProbe data = Inl je)
           \<or> (\<exists>probe. json_Unmarshal unmarshal_MessageProbe data = Inr probe
                    \<and> Role_IsValid (MessageProbe.Role probe))))"
proof (intro conjI impI)
  assume a: "DecodeEventFromBytes data = Return (None, Some e)"
  show "errors_Is e ErrUnmarshalFailed \<or> errors_Is e ErrInvalidEventType"
    using a
    by (auto simp: DecodeEventFromBytes_def errors_Is_def unmarshal_failed_def
        split: sum.splits dest!: decodeEventFromProbe_None)
  show "errors_Is e ErrInvalidEventType \<longleftrightarrow>
           (\<exists>probe. json_Unmarshal unmarshal_EventProbe data = Inr probe
                    \<and> \<not> EventType_IsValid (EventProbe.Type probe))"
    using a
    by (auto simp: DecodeEventFromBytes_def errors_Is_def unmarshal_failed_def
        split: sum.splits dest!: decodeEventFromProbe_None)
  show "errors_Is e ErrUnmarshalFailed \<longleftrightarrow>
           json_parse data = None
           \<or> (\<exists>je. json_Unmarshal unmarshal_EventProbe data = Inl je)
           \<or> (\<exists>probe. json_Unmarshal unmarshal_EventProbe data = Inr probe
                    \<and> EventType_IsValid (EventProbe.Type probe))"
    using a
    by (auto simp: DecodeEventFromBytes_def errors_Is_def unmarshal_failed_def json_Unmarshal_def
        split: sum.splits option.splits dest!: decodeEventFromProbe_None)
next
  assume a: "DecodeMessageFromBytes data = (None, Some e')"
  show "errors_Is e' ErrUnmarshalFailed \<or> errors_Is e' ErrInvalidMessageType"
    using a
    by (auto simp: DecodeMessageFromBytes_def errors_Is_def unmarshal_failed_def
        split: sum.splits dest!: decodeMessageFromProbe_None)
  show "errors_Is e' ErrInvalidMessageType \<longleftrightarrow>
           (\<exists>probe. json_Unmarshal unmarshal_MessageProbe data = Inr probe
                    \<and> \<not> Role_IsValid (MessageProbe.Role probe))"
    using a
    by (auto simp: DecodeMessageFromBytes_def errors_Is_def unmarshal_failed_def
        split: sum.splits dest!: decodeMessageFromProbe_None)
  show "errors_Is e' ErrUnmarshalFailed \<longleftrightarrow>
           json_parse data = None
           \<or> (\<exists>je. json_Unmarshal unmarshal_MessageProbe data = Inl je)
           \<or> (\<exists>probe. json_Unmarshal unmarshal_MessageProbe data = Inr probe
                    \<and> Role_IsValid (MessageProbe.Role probe))"
    using a
    by (auto simp: DecodeMessageFromBytes_def errors_Is_def unmarshal_failed_def json_Unmarshal_def
        split: sum.splits option.splits dest!: decodeMessageFromProbe_None)
qed

theorem decode_failure_sentinels_witness:
  \<open>DecodeEventFromBytes ''{"type":"NOT_A_TYPE"}''
     = Return (None, Some (Errorf (Some ErrInvalidEventType) ''unknown event type: NOT_A_TYPE'' None))
   \<and> errors_Is (Errorf (Some ErrInvalidEventType) ''unknown event type: NOT_A_TYPE'' None) ErrInvalidEventType
   \<and> \<not> errors_Is (Errorf (Some ErrInvalidEventType) ''unknown event type: NOT_A_TYPE'' None) ErrUnmarshalFailed
   \<and> (\<exists>probe. json_Unmarshal unmarshal_EventProbe ''{"type":"NOT_A_TYPE"}'' = Inr probe
               \<and> \<not> EventType_IsValid (EventProbe.Type probe))
   \<and> DecodeMessageFromBytes ''{"type":"NOT_A_TYPE"}''
     = (None, Some (Errorf (Some ErrInvalidMessageType) ''unknown message role: '' None))
   \<and> (\<exists>probe. json_Unmarshal unmarshal_MessageProbe ''{"type":"NOT_A_TYPE"}'' = Inr probe
               \<and> \<not> Role_IsValid (MessageProbe.Role probe))\<close>
proof -
  have h1: \<open>DecodeEventFromBytes ''{"type":"NOT_A_TYPE"}''
     = Return (None, Some (Errorf (Some ErrInvalidEventType) ''unknown event type: NOT_A_TYPE'' None))\<close>
    by code_simp
  have h2: \<open>DecodeMessageFromBytes ''{"type":"NOT_A_TYPE"}''
     = (None, Some (Errorf (Some ErrInvalidMessageType) ''unknown message role: '' None))\<close>
    by code_simp
  show ?thesis
    using decode_failure_sentinels
      [of \<open>''{"type":"NOT_A_TYPE"}''\<close>
          "Errorf (Some ErrInvalidEventType) ''unknown event type: NOT_A_TYPE'' None"
          "Errorf (Some ErrInvalidMessageType) ''unknown message role: '' None"]
      h1 h2
    by (simp add: errors_Is_def)
qed

text \<open>
  Claim C3, as stated, fails: the text \<open>{not json\<close> is not well-formed JSON, the text
  \<open>{"type":"RUN_STARTED","threadId":5}\<close> is well-formed, has a recognized discriminator and
  is refused when it is unmarshalled into a \<open>RunStartedEvent\<close>; the two errors wrap the
  same sentinel, \<open>ErrUnmarshalFailed\<close>, and \<open>errors.Is\<close> answers alike on both for each of
  the six sentinels.
\<close>

theorem malformed_and_shape_mismatch_share_sentinel:
  \<open>json_parse ''{not json'' = None
   \<and> DecodeEventFromBytes ''{not json''
       = Return (None, Some (Errorf (Some ErrUnmarshalFailed) [] (Some SyntaxError)))
   \<and> json_Unmarshal unmarshal_EventProbe ''{"type":"RUN_STARTED","threadId":5}''
       = Inr \<lparr>EventProbe.Type = EventTypeRunStarted, RawData = None, Timestamp = None, RawEvent = JNull\<rparr>
   \<and> json_Unmarshal unmarshal_RunStartedEvent ''{"type":"RUN_STARTED","threadId":5}''
       = Inl (UnmarshalTypeError ''number'' ''RunStartedEvent.threadId'')
   \<and> DecodeEventFromBytes ''{"type":"RUN_STARTED","threadId":5}''
       = Return (None, Some (Errorf (Some ErrUnmarshalFailed) ''RunStartedEvent''
                   (Some (UnmarshalTypeError ''number'' ''RunStartedEvent.threadId''))))
   \<and> list_all
        (\<lambda>s. errors_Is (Errorf (Some ErrUnmarshalFailed) [] (Some SyntaxError)) s
            = errors_Is (Errorf (Some ErrUnmarshalFailed) ''RunStartedEvent''
                   (Some (UnmarshalTypeError ''number'' ''RunStartedEvent.threadId''))) s)
        [ErrInvalidEventType, ErrInvalidMessageType, ErrInvalidStructure, ErrUnmarshalFailed,
         ErrMarshalFailed, ErrValidationFailed]\<close>
  by (intro conjI; code_simp)

subsection \<open>Round trip\<close>

text \<open>
  Claim C1. A \<open>MessagesSnapshotEvent\<close> holding one valid \<open>UserMessage\<close> is valid and is
  encoded, but its encoding is not decoded back: \<open>json.Unmarshal\<close> cannot store an object
  into an element of type \<open>Message\<close>, and \<open>DecodeEventFromBytes\<close> fails with
  \<open>ErrUnmarshalFailed\<close>.
\<close>

theorem MessagesSnapshotEvent_round_trip_fails:
  \<open>Event_Validate (EvMessagesSnapshot
     \<lparr>BaseEvent.Type = EventTypeMessagesSnapshot, Timestamp = None, RawEvent = JNull,
      Messages = Some [Some (MsgUser \<lparr>BaseMessage.ID = ''m1'', Role = RoleUser, Name = [],
                                       UserMessage.Content = ''hi''\<rparr>)]\<rparr>) = Return None
  \<and> EncodeEvent (EvMessagesSnapshot
     \<lparr>BaseEvent.Type = EventTypeMessagesSnapshot, Timestamp = None, RawEvent = JNull,
      Messages = Some [Some (MsgUser \<lparr>BaseMessage.ID = ''m1'', Role = RoleUser, Name = [],
                                       UserMessage.Content = ''hi''\<rparr>)]\<rparr>)
    = Return (Some ''{"type":"MESSAGES_SNAPSHOT","messages":[{"id":"m1","role":"user","content":"hi"}]}'', None)
  \<and> DecodeEventFromBytes ''{"type":"MESSAGES_SNAPSHOT","messages":[{"id":"m1","role":"user","content":"hi"}]}''
    = Return (None, Some (Errorf (Some ErrUnmarshalFailed) ''MessagesSnapshotEvent''
               (Some (UnmarshalTypeError ''object'' ''MessagesSnapshotEvent.messages''))))\<close>
  by (intro conjI; code_simp)

subsection \<open>Streams\<close>

text \<open>
  Claim C6. Three valid events are encoded one after the other, each followed by a
  newline: a \<open>RunStartedEvent\<close>, a \<open>MessagesSnapshotEvent\<close> holding one valid message, and a
  \<open>RunFinishedEvent\<close>. \<open>DecodeEvents\<close> delivers the first event only, then sends an error on
  the error channel and closes both channels.
\<close>

theorem stream_of_valid_events_stops_at_MessagesSnapshot:
  \<open>EncodeEvent (EvRunStarted \<lparr>BaseEvent.Type = EventTypeRunStarted, Timestamp = None, RawEvent = JNull,
                      RunStartedEvent.ThreadID = ''t1'', RunID = ''r1''\<rparr>)
     = Return (Some ''{"type":"RUN_STARTED","threadId":"t1","runId":"r1"}'', None)
  \<and> EncodeEvent (EvMessagesSnapshot
     \<lparr>BaseEvent.Type = EventTypeMessagesSnapshot, Timestamp = None, RawEvent = JNull,
      Messages = Some [Some (MsgUser \<lparr>BaseMessage.ID = ''m1'', Role = RoleUser, Name = [],
                                       UserMessage.Content = ''hi''\<rparr>)]\<rparr>)
    = Return (Some ''{"type":"MESSAGES_SNAPSHOT","messages":[{"id":"m1","role":"user","content":"hi"}]}'', None)
  \<and> EncodeEvent (EvRunFinished \<lparr>BaseEvent.Type = EventTypeRunFinished, Timestamp = None, RawEvent = JNull,
                      RunFinishedEvent.ThreadID = ''t1'', RunID = ''r1'', Result = JNull\<rparr>)
     = Return (Some ''{"type":"RUN_FINISHED","threadId":"t1","runId":"r1"}'', None)
  \<and> DecodeEvents (''{"type":"RUN_STARTED","threadId":"t1","runId":"r1"}'' @ [CHR 0x0A]
       @ ''{"type":"MESSAGES_SNAPSHOT","messages":[{"id":"m1","role":"user","content":"hi"}]}'' @ [CHR 0x0A]
       @ ''{"type":"RUN_FINISHED","threadId":"t1","runId":"r1"}'' @ [CHR 0x0A])
     = Some \<lparr>events = [Some (EvRunStarted \<lparr>BaseEvent.Type = EventTypeRunStarted, Timestamp = None, RawEvent = JNull,
                      RunStartedEvent.ThreadID = ''t1'', RunID = ''r1''\<rparr>)],
             errs = [Errorf (Some ErrUnmarshalFailed) ''MessagesSnapshotEvent''
               (Some (UnmarshalTypeError ''object'' ''MessagesSnapshotEvent.messages''))],
             ending = BothClosed\<rparr>\<close>
  by (intro conjI; code_simp)

text \<open>
  A source that starts with texts that \<open>DecodeEventFromBytes\<close> decodes, followed by a text
  from which \<open>Decoder.DecodeEvent\<close> returns an error other than \<open>io.EOF\<close>: \<open>DecodeEvents\<close>
  delivers the events decoded before it, in order, sends that one error, and closes both
  channels; nothing of what follows is delivered. When the error comes with no value, it
  wraps \<open>ErrUnmarshalFailed\<close> or \<open>ErrInvalidEventType\<close>.
\<close>

lemma Decoder_DecodeEvent_kind:
  assumes "fst (Decoder_DecodeEvent src) = Return (None, Some err)" "err \<noteq> io_EOF"
  shows "errors_Is err ErrUnmarshalFailed \<or> errors_Is err ErrInvalidEventType"
  using assms
  by (auto simp: Decoder_DecodeEvent_def errors_Is_def unmarshal_failed_def
      split: decode_step.splits sum.splits dest!: decodeEventFromProbe_outcomes)

lemma DecodeEvents_stops_at_error:
  assumes good: "list_all2 (\<lambda>g e. DecodeEventFromBytes g = Return (Some e, None)) gs es"
    and bad: "fst (Decoder_DecodeEvent tail) = Return (v, Some err)" "err \<noteq> io_EOF"
  shows "DecodeEvents (concat gs @ tail)
         = Some \<lparr>events = map Some es, errs = [err], ending = BothClosed\<rparr>"
proof -
  let ?n = "Suc (length (concat gs @ tail))"
  have le: "length gs \<le> ?n" using concat_length_ge[OF good] by simp
  have "?n - length gs = Suc (length (concat gs @ tail) - length gs)"
    using concat_length_ge[OF good] by simp
  then show ?thesis
    unfolding DecodeEvents_def DecodeEvents_loop_prefix[OF good le]
    using DecodeEvents_loop_bad[OF bad] by (simp add: stop_with_def)
qed

lemma DecodeEvents_stops_at_error_example:
  \<open>DecodeEvents
     (''{"type":"RUN_STARTED","threadId":"t1","runId":"r1"}'' @ [CHR 0x0A]
      @ ''{"type":"STEP_STARTED","stepName":"s1"}'' @ [CHR 0x0A]
      @ ''{not json'' @ [CHR 0x0A]
      @ ''{"type":"STEP_FINISHED","stepName":"s1"}'' @ [CHR 0x0A]
      @ ''{"type":"RUN_FINISHED","threadId":"t1","runId":"r1"}'' @ [CHR 0x0A])
   = Some \<lparr>events =
             [Some (EvRunStarted \<lparr>BaseEvent.Type = EventTypeRunStarted, Timestamp = None, RawEvent = JNull,
                      RunStartedEvent.ThreadID = ''t1'', RunID = ''r1''\<rparr>),
              Some (EvStepStarted \<lparr>BaseEvent.Type = EventTypeStepStarted, Timestamp = None, RawEvent = JNull,
                      StepStartedEvent.StepName = ''s1''\<rparr>)],
           errs = [Errorf (Some ErrUnmarshalFailed) [] (Some SyntaxError)],
           ending = BothClosed\<rparr>
   \<and> errors_Is (Errorf (Some ErrUnmarshalFailed) [] (Some SyntaxError)) ErrUnmarshalFailed\<close>
proof -
  let ?g1 = \<open>''{"type":"RUN_STARTED","threadId":"t1","runId":"r1"}'' @ [CHR 0x0A]\<close>
  let ?g2 = \<open>''{"type":"STEP_STARTED","stepName":"s1"}'' @ [CHR 0x0A]\<close>
  let ?e1 = "EvRunStarted \<lparr>BaseEvent.Type = EventTypeRunStarted, Timestamp = None, RawEvent = JNull,
                      RunStartedEvent.ThreadID = ''t1'', RunID = ''r1''\<rparr>"
  let ?e2 = "EvStepStarted \<lparr>BaseEvent.Type = EventTypeStepStarted, Timestamp = None, RawEvent = JNull,
                      StepStartedEvent.StepName = ''s1''\<rparr>"
  let ?tail = \<open>''{not json'' @ [CHR 0x0A]
      @ ''{"type":"STEP_FINISHED","stepName":"s1"}'' @ [CHR 0x0A]
      @ ''{"type":"RUN_FINISHED","threadId":"t1","runId":"r1"}'' @ [CHR 0x0A]\<close>
  have d1: "DecodeEventFromBytes ?g1 = Return (Some ?e1, None)" by code_simp
  have d2: "DecodeEventFromBytes ?g2 = Return (Some ?e2, None)" by code_simp
  have good: "list_all2 (\<lambda>g e. DecodeEventFromBytes g = Return (Some e, None)) [?g1, ?g2] [?e1, ?e2]"
    using d1 d2 by simp
  have bad: "fst (Decoder_DecodeEvent ?tail)
             = Return (None, Some (Errorf (Some ErrUnmarshalFailed) [] (Some SyntaxError)))"
    by code_simp
  show ?thesis
    using DecodeEvents_stops_at_error[OF good bad] by (simp add: errors_Is_def)
qed

text \<open>
  Claim C7. The second of three values is the first erroneous one, and it is erroneous by
  being invalid. When it is a \<open>MESSAGES_SNAPSHOT\<close> whose \<open>messages\<close> hold \<open>null\<close>,
  \<open>DecodeEvents\<close> delivers the first event and then \<open>Validate\<close> panics in the goroutine: no
  error is sent. When it is a \<open>TEXT_MESSAGE_CONTENT\<close> with an empty \<open>delta\<close>, \<open>DecodeEvents\<close>
  delivers the first event, sends one error and closes both channels, but the error is
  the one of \<open>Validate\<close> as it is: \<open>errors.Is\<close> finds none of the six sentinels in it, so
  it is of no kind.
\<close>

theorem DecodeEvents_invalid_value:
  \<open>DecodeEvents
     (''{"type":"RUN_STARTED","threadId":"t1","runId":"r1"}'' @ [CHR 0x0A]
      @ ''{"type":"MESSAGES_SNAPSHOT","messages":[null]}'' @ [CHR 0x0A]
      @ ''{"type":"RUN_FINISHED","threadId":"t1","runId":"r1"}'' @ [CHR 0x0A])
   = Some \<lparr>events =
             [Some (EvRunStarted \<lparr>BaseEvent.Type = EventTypeRunStarted, Timestamp = None, RawEvent = JNull,
                      RunStartedEvent.ThreadID = ''t1'', RunID = ''r1''\<rparr>)],
           errs = [],
           ending = Crashed\<rparr>
   \<and> DecodeEvents
     (''{"type":"RUN_STARTED","threadId":"t1","runId":"r1"}'' @ [CHR 0x0A]
      @ ''{"type":"TEXT_MESSAGE_CONTENT","messageId":"m1","delta":""}'' @ [CHR 0x0A]
      @ ''{"type":"RUN_FINISHED","threadId":"t1","runId":"r1"}'' @ [CHR 0x0A])
   = Some \<lparr>events =
             [Some (EvRunStarted \<lparr>BaseEvent.Type = EventTypeRunStarted, Timestamp = None, RawEvent = JNull,
                      RunStartedEvent.ThreadID = ''t1'', RunID = ''r1''\<rparr>)],
           errs = [plain_error ''delta must not be empty''],
           ending = BothClosed\<rparr>
   \<and> list_all (\<lambda>s. \<not> errors_Is (plain_error ''delta must not be empty'') s)
        [ErrInvalidEventType, ErrInvalidMessageType, ErrInvalidStructure, ErrUnmarshalFailed,
         ErrMarshalFailed, ErrValidationFailed]\<close>
  by (intro conjI; code_simp)

end
